(* ===== verification/Prelude.thy ===== *)
theory Prelude
  imports Main "HOL-Library.Word" "HOL-Library.List_Lexorder" "HOL-Library.Char_ord"
  "HOL-Library.Product_Lexorder"
begin

text \<open>
  Shared vocabulary of the netnode development: the machine types of the IDA
  netnode interface (node numbers and array indices are \<open>nodeidx_t\<close>, an unsigned
  64-bit word in IDA64), Python 2 byte strings as HOL strings (a \<open>char\<close> is a byte),
  the Python values and classes that the wrappers dispatch on, the exceptions they
  raise, and the result type of a Python generator run for a bounded number of loop
  iterations. Also the little-endian packing of \<open>nodeidx_t\<close> values into byte strings
  that the host uses for \<open>set_long\<close>, \<open>hashset_idx\<close> and their readers.
\<close>

named_theorems store_simps "characteristic equations of the sorted key store"
named_theorems host_simps "evaluation rules of the netnode host primitives"

type_synonym ea = "64 word"
type_synonym bytes = string

text \<open>\<open>BADADDR\<close> (also \<open>BADNODE\<close>): the all-ones \<open>nodeidx_t\<close>, returned by the host
  primitives for ``no such key''.\<close>

abbreviation BADADDR :: ea where
  "BADADDR \<equiv> - 1"

text \<open>The module's size limits (\<open>_netnode.py\<close> lines 17--18): \<open>idaapi.MAXSTR\<close>,
  the largest value a sup or hash slot holds, and \<open>idaapi.MAXNAMELEN\<close>.\<close>

definition MAXSPECSIZE :: nat where
  "MAXSPECSIZE = 1024"

definition MAXNAMESIZE :: nat where
  "MAXNAMESIZE = 512"

subsection \<open>Python exceptions\<close>

text \<open>The exceptions raised on the paths of the module (\<open>internal.exceptions\<close>) and
  by the Python runtime and SWIG argument conversion.\<close>

datatype exn =
    NetNodeNotFoundError
  | InvalidTypeOrValueError
  | MissingTypeOrAttribute
  | TypeError
  | OverflowError
  | UnicodeEncodeError
  | ValueError

subsection \<open>Python 2 values and classes\<close>

text \<open>The classes the wrappers test with \<open>issubclass\<close> and \<open>isinstance\<close>.
  In Python 2, \<open>bytes\<close> is \<open>str\<close>, \<open>six.string_types\<close> is \<open>(basestring,)\<close> and
  \<open>six.integer_types\<close> is \<open>(int, long)\<close>; \<open>bool\<close> is a subclass of \<open>int\<close>.\<close>

datatype pyclass =
    CMemoryview | CStr | CUnicode | CBasestring | CInt | CLong | CBool | CNoneType
  | CFloat | CObject

datatype pyval =
    PyNone
  | PyStr bytes
  | PyUnicode string
  | PyInt int
  | PyLong int
  | PyBool bool
  | PyMemview bytes
  | PyFloat int

text \<open>The \<open>type\<close> argument of the typed getters: \<open>None\<close>, a class, or some object that
  is not a class (on which \<open>issubclass\<close> raises \<open>TypeError\<close>).\<close>

datatype pytype = TyNone | TyClass pyclass | TyNotAClass

fun class_of :: "pyval \<Rightarrow> pyclass" where
  "class_of PyNone = CNoneType"
| "class_of (PyStr _) = CStr"
| "class_of (PyUnicode _) = CUnicode"
| "class_of (PyInt _) = CInt"
| "class_of (PyLong _) = CLong"
| "class_of (PyBool _) = CBool"
| "class_of (PyMemview _) = CMemoryview"
| "class_of (PyFloat _) = CFloat"

text \<open>The four class tests of the source, as Python 2 answers them.\<close>

definition sub_memoryview :: "pyclass \<Rightarrow> bool" where
  "sub_memoryview c \<longleftrightarrow> c = CMemoryview"

definition sub_bytes :: "pyclass \<Rightarrow> bool" where
  "sub_bytes c \<longleftrightarrow> c = CStr"

definition sub_string_types :: "pyclass \<Rightarrow> bool" where
  "sub_string_types c \<longleftrightarrow> c \<in> {CStr, CUnicode, CBasestring}"

definition sub_integer_types :: "pyclass \<Rightarrow> bool" where
  "sub_integer_types c \<longleftrightarrow> c \<in> {CInt, CLong, CBool}"

lemmas pyclass_tests [simp] =
  sub_memoryview_def sub_bytes_def sub_string_types_def sub_integer_types_def

text \<open>Truthiness of the byte strings the getters return (\<open>res and f(res)\<close>).\<close>

definition py_and_str :: "bytes option \<Rightarrow> (bytes \<Rightarrow> pyval) \<Rightarrow> pyval" where
  "py_and_str r f = (case r of None \<Rightarrow> PyNone | Some s \<Rightarrow> if s = [] then PyStr [] else f s)"

text \<open>SWIG's results: an optional C string as \<open>str\<close> or \<open>None\<close>; an unsigned
  64-bit integer as \<open>int\<close> when it fits a C \<open>long\<close>, else as \<open>long\<close>.\<close>

definition opt_str :: "bytes option \<Rightarrow> pyval" where
  "opt_str r = (case r of None \<Rightarrow> PyNone | Some s \<Rightarrow> PyStr s)"

definition py_of_ea :: "ea \<Rightarrow> pyval" where
  "py_of_ea w = (if uint w < 2 ^ 63 then PyInt (uint w) else PyLong (uint w))"

text \<open>The Python type of a reading: \<open>None\<close>, or a value of the type family that
  was asked for (a memoryview reading of an empty buffer is the empty \<open>str\<close>); an
  integer reading is an \<open>int\<close> below \<open>2^63\<close> or a \<open>long\<close> below \<open>2^64\<close>.\<close>

definition int_fits :: "pyval \<Rightarrow> bool" where
  "int_fits v = (case v of PyInt n \<Rightarrow> 0 \<le> n \<and> n < 2 ^ 63 | PyLong n \<Rightarrow> 2 ^ 63 \<le> n \<and> n < 2 ^ 64 | _ \<Rightarrow> False)"

definition reads_as :: "pyclass \<Rightarrow> pyval \<Rightarrow> bool" where
  "reads_as c v \<longleftrightarrow> v = PyNone \<or>
     (if sub_memoryview c then class_of v = CMemoryview \<or> v = PyStr []
      else if sub_bytes c then class_of v = CStr
      else if sub_string_types c then sub_string_types (class_of v)
      else sub_integer_types c \<and> int_fits v)"

lemma uint_word_of_int_in_range:
  "0 \<le> n \<Longrightarrow> n < 2 ^ 64 \<Longrightarrow> uint (word_of_int n :: ea) = n"
  by (simp add: uint_word_of_int_eq take_bit_int_eq_self)

lemma py_of_ea_word_of_int:
  "0 \<le> n \<Longrightarrow> n < 2 ^ 64 \<Longrightarrow>
   py_of_ea (word_of_int n) = (if n < 2 ^ 63 then PyInt n else PyLong n)"
  by (simp add: py_of_ea_def uint_word_of_int_in_range)

lemma map_sum_eq_Inr [simp]: "map_sum f g r = Inr y \<longleftrightarrow> (\<exists>x. r = Inr x \<and> y = g x)"
  by (cases r) auto

subsection \<open>SWIG argument conversion\<close>

text \<open>A Python object passed where the C++ primitive takes a byte buffer: a \<open>str\<close> is
  passed as it is, a \<open>unicode\<close> is encoded with the default (ASCII) codec, anything
  else is a \<open>TypeError\<close>. A Python integer passed as \<open>nodeidx_t\<close> must fit in 64
  unsigned bits, otherwise SWIG raises \<open>OverflowError\<close>.\<close>

definition swig_buf :: "pyval \<Rightarrow> exn + bytes" where
  "swig_buf v = (case v of
      PyStr s \<Rightarrow> Inr s
    | PyUnicode u \<Rightarrow> (if \<forall>c \<in> set u. of_char c < (128::nat) then Inr u else Inl UnicodeEncodeError)
    | _ \<Rightarrow> Inl TypeError)"

definition swig_ea :: "pyval \<Rightarrow> exn + ea" where
  "swig_ea v = (case v of
      PyInt i \<Rightarrow> (if 0 \<le> i \<and> i < 2 ^ 64 then Inr (word_of_int i) else Inl OverflowError)
    | PyLong i \<Rightarrow> (if 0 \<le> i \<and> i < 2 ^ 64 then Inr (word_of_int i) else Inl OverflowError)
    | PyBool b \<Rightarrow> Inr (if b then 1 else 0)
    | _ \<Rightarrow> Inl TypeError)"

subsection \<open>Little-endian packing of \<open>nodeidx_t\<close>\<close>

fun le_encode :: "nat \<Rightarrow> nat \<Rightarrow> bytes" where
  "le_encode 0 n = []"
| "le_encode (Suc k) n = char_of (n mod 256) # le_encode k (n div 256)"

fun le_decode :: "bytes \<Rightarrow> nat" where
  "le_decode [] = 0"
| "le_decode (c # cs) = of_char c + 256 * le_decode cs"

definition pack_ea :: "ea \<Rightarrow> bytes" where
  "pack_ea w = le_encode 8 (unat w)"

definition unpack_ea :: "bytes \<Rightarrow> ea" where
  "unpack_ea bs = word_of_nat (le_decode (take 8 bs))"

lemma length_le_encode [simp]: "length (le_encode k n) = k"
  by (induction k arbitrary: n) auto

lemma le_decode_encode: "le_decode (le_encode k n) = n mod 256 ^ k"
proof (induction k arbitrary: n)
  case 0
  then show ?case by simp
next
  case (Suc k)
  have "n mod 256 + 256 * (n div 256 mod 256 ^ k) = n mod (256 * 256 ^ k)"
    by (simp add: mod_mult2_eq)
  with Suc show ?case by simp
qed

lemma le_decode_bound: "le_decode bs < 256 ^ length bs"
proof (induction bs)
  case Nil
  then show ?case by simp
next
  case (Cons c cs)
  have "of_char c < (256::nat)"
    using of_char_mod_256 [of c] by (metis mod_less_divisor zero_less_numeral)
  moreover have "256 * le_decode cs + 256 \<le> 256 * 256 ^ length cs"
    using Cons.IH by simp
  ultimately have "of_char c + 256 * le_decode cs < 256 * 256 ^ length cs"
    by linarith
  then show ?case by simp
qed

lemma unpack_pack_ea [simp]: "unpack_ea (pack_ea w) = w"
proof -
  have "unat w < 256 ^ 8"
    using unsigned_less [of w, where ?'a = nat] by simp
  then show ?thesis
    by (simp add: unpack_ea_def pack_ea_def le_decode_encode)
qed

lemma length_pack_ea [simp]: "length (pack_ea w) = 8"
  by (simp add: pack_ea_def)

subsection \<open>C strings\<close>

text \<open>The \<open>*str\<close> readers of the host return the stored bytes up to the first NUL.\<close>

definition cstr :: "bytes \<Rightarrow> string" where
  "cstr bs = takeWhile (\<lambda>c. c \<noteq> CHR 0x00) bs"

lemma cstr_no_nul [simp]: "CHR 0x00 \<notin> set s \<Longrightarrow> cstr s = s"
  by (simp add: cstr_def takeWhile_eq_all_conv) blast

subsection \<open>Generator runs\<close>

text \<open>
  A Python generator pulled by its consumer: the items yielded so far, and how the
  run ended: the generator returned (\<open>Stop\<close>), raised (\<open>Raise\<close>), or is still live
  after the loop iterations allowed (\<open>Pending\<close>: the fuel ran out).
\<close>

datatype 'a gen = Stop "'a list" | Raise exn "'a list" | Pending "'a list"

fun gen_cons :: "'a \<Rightarrow> 'a gen \<Rightarrow> 'a gen" where
  "gen_cons x (Stop xs) = Stop (x # xs)"
| "gen_cons x (Raise e xs) = Raise e (x # xs)"
| "gen_cons x (Pending xs) = Pending (x # xs)"

text \<open>A consumer that pulls a generator to its end (\<open>for x in g: ...\<close>): the list of
  its items or the exception it raised; \<open>None\<close> when the fuel ran out first.\<close>

fun gen_collect :: "'a gen \<Rightarrow> (exn + 'a list) option" where
  "gen_collect (Stop xs) = Some (Inr xs)"
| "gen_collect (Raise e xs) = Some (Inl e)"
| "gen_collect (Pending xs) = None"

text \<open>A loop of calls that may raise: the first exception, in order, or all results.\<close>

fun sequence_sum :: "(exn + 'a) list \<Rightarrow> exn + 'a list" where
  "sequence_sum [] = Inr []"
| "sequence_sum (Inl e # rs) = Inl e"
| "sequence_sum (Inr x # rs) = (case sequence_sum rs of Inl e \<Rightarrow> Inl e | Inr xs \<Rightarrow> Inr (x # xs))"

text \<open>A \<open>for\<close> loop over a generator whose body may raise: the items are
  processed in order, and the generator's own exception or exhaustion of the fuel
  comes after them. \<open>gen_enumerate\<close> is Python's \<open>enumerate\<close>.\<close>

fun gen_for :: "('a \<Rightarrow> exn + 'b) \<Rightarrow> 'a gen \<Rightarrow> (exn + 'b list) option" where
  "gen_for f (Stop xs) = Some (sequence_sum (map f xs))"
| "gen_for f (Raise e xs) = Some (case sequence_sum (map f xs) of Inl e' \<Rightarrow> Inl e' | Inr _ \<Rightarrow> Inl e)"
| "gen_for f (Pending xs) = (case sequence_sum (map f xs) of Inl e' \<Rightarrow> Some (Inl e') | Inr _ \<Rightarrow> None)"

fun gen_enumerate :: "'a gen \<Rightarrow> (nat \<times> 'a) gen" where
  "gen_enumerate (Stop xs) = Stop (zip [0..<length xs] xs)"
| "gen_enumerate (Raise e xs) = Raise e (zip [0..<length xs] xs)"
| "gen_enumerate (Pending xs) = Pending (zip [0..<length xs] xs)"

fun gen_map :: "('a \<Rightarrow> 'b) \<Rightarrow> 'a gen \<Rightarrow> 'b gen" where
  "gen_map f (Stop xs) = Stop (map f xs)"
| "gen_map f (Raise e xs) = Raise e (map f xs)"
| "gen_map f (Pending xs) = Pending (map f xs)"

fun gen_items :: "'a gen \<Rightarrow> 'a list" where
  "gen_items (Stop xs) = xs"
| "gen_items (Raise e xs) = xs"
| "gen_items (Pending xs) = xs"

lemma gen_map_cons [simp]: "gen_map f (gen_cons x g) = gen_cons (f x) (gen_map f g)"
  by (cases g) auto

lemma gen_map_comp [simp]: "gen_map f (gen_map g r) = gen_map (f \<circ> g) r"
  by (cases r) auto

lemma sequence_sum_map_Inr [simp]: "sequence_sum (map (\<lambda>x. Inr (f x)) xs) = Inr (map f xs)"
  by (induction xs) auto

lemma gen_items_cons [simp]: "gen_items (gen_cons x g) = x # gen_items g"
  by (cases g) auto

lemma int_fits_py_of_ea [simp]: "int_fits (py_of_ea w)"
  using unsigned_less [of w, where ?'a = int] by (simp add: py_of_ea_def int_fits_def)

lemma reads_as_results [simp]:
  "sub_memoryview c \<Longrightarrow> reads_as c (py_and_str r PyMemview)"
  "\<not> sub_memoryview c \<Longrightarrow> sub_bytes c \<Longrightarrow> reads_as c (py_and_str r PyStr)"
  "\<not> sub_memoryview c \<Longrightarrow> sub_string_types c \<Longrightarrow> reads_as c (opt_str r)"
  "\<not> sub_memoryview c \<Longrightarrow> sub_bytes c \<Longrightarrow> reads_as c (opt_str r)"
  "reads_as c PyNone"
  "\<not> sub_memoryview c \<Longrightarrow> \<not> sub_bytes c \<Longrightarrow> \<not> sub_string_types c \<Longrightarrow> sub_integer_types c \<Longrightarrow>
   reads_as c (py_of_ea w)"
  by (auto simp: reads_as_def py_and_str_def opt_str_def split: option.split)

lemma sequence_sum_Inr_map: "(\<And>x. x \<in> set xs \<Longrightarrow> f x = Inr (g x)) \<Longrightarrow> sequence_sum (map f xs) = Inr (map g xs)"
  by (induction xs) auto


lemma sequence_sum_all_Inr:
  "(\<And>x. x \<in> set xs \<Longrightarrow> \<exists>y. f x = Inr y) \<Longrightarrow> \<exists>ys. sequence_sum (map f xs) = Inr ys \<and> length ys = length xs"
proof (induction xs)
  case Nil
  then show ?case by simp
next
  case (Cons x xs)
  then obtain y ys where "f x = Inr y" "sequence_sum (map f xs) = Inr ys" "length ys = length xs"
    by (metis list.set_intros)
  then show ?case by simp
qed


end
