(* ===== verification/Store.thy ===== *)
theory Store
  imports Prelude
begin

text \<open>
  The storage behind every netnode array: IDA keeps the entries of a node's
  alt, sup, hash, char and blob arrays in a B-tree ordered by key. Here an array is an
  association list whose keys are strictly increasing; \<open>map_of\<close> is its abstract
  view as a partial map. The primitives the host exposes on an array are lookup,
  insert/overwrite, delete, and the four ordered-cursor moves (first, last, next,
  previous key). Their lemmas: the strict order is kept by every update, lookup after
  update and delete refines the map operations, the key list is
  \<open>sorted_list_of_set\<close> of the map's domain, and the cursor moves walk the key list
  forwards and backwards (\<open>succ_chain\<close>).
\<close>

definition keys_sorted :: "('k::linorder \<times> 'v) list \<Rightarrow> bool" where
  "keys_sorted ps \<longleftrightarrow> sorted_wrt (<) (map fst ps)"

fun store_put :: "'k::linorder \<Rightarrow> 'v \<Rightarrow> ('k \<times> 'v) list \<Rightarrow> ('k \<times> 'v) list" where
  "store_put k v [] = [(k, v)]"
| "store_put k v ((a, b) # ps) =
     (if k < a then (k, v) # (a, b) # ps
      else if k = a then (k, v) # ps
      else (a, b) # store_put k v ps)"

fun store_del :: "'k::linorder \<Rightarrow> ('k \<times> 'v) list \<Rightarrow> ('k \<times> 'v) list" where
  "store_del k [] = []"
| "store_del k ((a, b) # ps) = (if k = a then ps else (a, b) # store_del k ps)"

definition store_first :: "('k \<times> 'v) list \<Rightarrow> 'k option" where
  "store_first ps = (case ps of [] \<Rightarrow> None | p # _ \<Rightarrow> Some (fst p))"

definition store_last :: "('k \<times> 'v) list \<Rightarrow> 'k option" where
  "store_last ps = (if ps = [] then None else Some (fst (last ps)))"

definition store_next :: "('k::linorder \<times> 'v) list \<Rightarrow> 'k \<Rightarrow> 'k option" where
  "store_next ps k = store_first (filter (\<lambda>p. k < fst p) ps)"

definition store_prev :: "('k::linorder \<times> 'v) list \<Rightarrow> 'k \<Rightarrow> 'k option" where
  "store_prev ps k = store_last (filter (\<lambda>p. fst p < k) ps)"

text \<open>A cursor move \<open>f\<close> walks the list \<open>xs\<close>: each element but the last is taken to
  the one after it.\<close>

fun succ_chain :: "('k \<Rightarrow> 'k) \<Rightarrow> 'k list \<Rightarrow> bool" where
  "succ_chain f (a # b # xs) \<longleftrightarrow> f a = b \<and> succ_chain f (b # xs)"
| "succ_chain f _ \<longleftrightarrow> True"

subsection \<open>The key order is an invariant\<close>

lemma keys_sorted_Nil [simp, store_simps]: "keys_sorted []"
  by (simp add: keys_sorted_def)

lemma keys_sorted_Cons [store_simps]:
  "keys_sorted ((a, b) # ps) \<longleftrightarrow> (\<forall>k \<in> fst ` set ps. a < k) \<and> keys_sorted ps"
  by (auto simp: keys_sorted_def)

lemma set_store_put_keys: "fst ` set (store_put k v ps) = insert k (fst ` set ps)"
  by (induction k v ps rule: store_put.induct) auto

lemma set_store_put: "set (store_put k v ps) \<subseteq> insert (k, v) (set ps)"
  by (induction k v ps rule: store_put.induct) auto

lemma set_store_del: "set (store_del k ps) \<subseteq> set ps"
  by (induction k ps rule: store_del.induct) auto

lemma filter_store_put_only:
  "(\<forall>p \<in> set ps. \<not> P p) \<Longrightarrow> P (k, v) \<Longrightarrow> filter P (store_put k v ps) = [(k, v)]"
  by (induction k v ps rule: store_put.induct) auto

lemma sorted_le_last: "sorted_wrt (<) (xs :: 'a::linorder list) \<Longrightarrow> k \<in> set xs \<Longrightarrow> k \<le> last xs"
proof (induction xs)
  case Nil
  then show ?case by simp
next
  case (Cons a xs)
  show ?case
  proof (cases "xs = []")
    case True
    with Cons.prems show ?thesis by simp
  next
    case False
    then have "last xs \<in> set xs" by simp
    with Cons.prems have "a < last xs" by simp
    with Cons False show ?thesis by (auto intro: less_imp_le)
  qed
qed

lemma keys_le_last:
  "keys_sorted ps \<Longrightarrow> k \<in> fst ` set ps \<Longrightarrow> k \<le> last (map fst ps)"
  by (simp add: keys_sorted_def sorted_le_last)

lemma keys_sorted_put [store_simps]: "keys_sorted ps \<Longrightarrow> keys_sorted (store_put k v ps)"
  by (induction k v ps rule: store_put.induct) (auto simp: keys_sorted_Cons set_store_put_keys)

lemma keys_sorted_del [store_simps]: "keys_sorted ps \<Longrightarrow> keys_sorted (store_del k ps)"
proof (induction k ps rule: store_del.induct)
  case (1 k)
  then show ?case by simp
next
  case (2 k a b ps)
  then show ?case
    using set_store_del [of k ps] by (auto simp: keys_sorted_Cons)
qed

subsection \<open>Refinement of the partial map\<close>

lemma map_of_store_put [simp, store_simps]: "map_of (store_put k v ps) = (map_of ps)(k \<mapsto> v)"
  by (induction k v ps rule: store_put.induct) (auto simp: fun_eq_iff)

lemma map_of_Cons_notin: "a \<notin> fst ` set ps \<Longrightarrow> map_of ps a = None"
  by (simp add: map_of_eq_None_iff)

lemma map_of_store_del [simp, store_simps]:
  "keys_sorted ps \<Longrightarrow> map_of (store_del k ps) = (map_of ps)(k := None)"
proof (induction k ps rule: store_del.induct)
  case (1 k)
  then show ?case by simp
next
  case (2 k a b ps)
  then have "a \<notin> fst ` set ps" and "keys_sorted ps"
    by (auto simp: keys_sorted_Cons)
  with 2 show ?case
    by (auto simp: fun_eq_iff map_of_Cons_notin)
qed

lemma store_keys_sorted_list:
  "keys_sorted ps \<Longrightarrow> map fst ps = sorted_list_of_set (dom (map_of ps))"
  by (simp add: keys_sorted_def dom_map_of_conv_image_fst strict_sorted_iff
      sorted_list_of_set.idem_if_sorted_distinct flip: set_map)

lemma keys_sorted_distinct: "keys_sorted ps \<Longrightarrow> distinct (map fst ps)"
  by (simp add: keys_sorted_def strict_sorted_iff)

lemma map_of_sorted_in:
  "keys_sorted ps \<Longrightarrow> (k, v) \<in> set ps \<Longrightarrow> map_of ps k = Some v"
  by (simp add: keys_sorted_distinct)

subsection \<open>Cursor moves\<close>

lemma store_first_Nil [simp]: "store_first [] = None"
  by (simp add: store_first_def)

lemma store_last_Nil [simp]: "store_last [] = None"
  by (simp add: store_last_def)

lemma store_first_Cons [simp]: "store_first ((a, b) # ps) = Some a"
  by (simp add: store_first_def)

lemma store_first_None [simp]: "store_first ps = None \<longleftrightarrow> ps = []"
  by (simp add: store_first_def split: list.splits)

lemma store_last_snoc [simp]: "store_last (ps @ [(a, b)]) = Some a"
  by (simp add: store_last_def)

lemma store_last_None [simp]: "store_last ps = None \<longleftrightarrow> ps = []"
  by (simp add: store_last_def)

lemma store_first_keys: "store_first ps = (case map fst ps of [] \<Rightarrow> None | k # _ \<Rightarrow> Some k)"
  by (cases ps) auto

lemma store_last_keys: "store_last ps = (if ps = [] then None else Some (last (map fst ps)))"
  by (simp add: store_last_def last_map)

lemma in_set_tl: "k \<in> set (tl xs) \<Longrightarrow> k \<in> set xs"
  by (cases xs) auto

lemma succ_chain_cong:
  "succ_chain f xs \<Longrightarrow> (\<forall>k \<in> set (butlast xs). g k = f k) \<Longrightarrow> succ_chain g xs"
  by (induction f xs rule: succ_chain.induct) auto

lemma store_next_Cons_above:
  "a \<le> k \<Longrightarrow> store_next ((a, b) # ps) k = store_next ps k"
  by (auto simp: store_next_def)

lemma store_next_Cons_head:
  "keys_sorted ((a, b) # ps) \<Longrightarrow> store_next ((a, b) # ps) a = store_first ps"
proof -
  assume "keys_sorted ((a, b) # ps)"
  then have "\<forall>p \<in> set ps. a < fst p"
    by (auto simp: keys_sorted_Cons)
  then show ?thesis
    by (simp add: store_next_def)
qed

lemma in_butlast_keys_above:
  "keys_sorted ((a, b) # ps) \<Longrightarrow> k \<in> set (butlast (map fst ps)) \<Longrightarrow> a < k"
  by (force simp: keys_sorted_Cons dest!: in_set_butlastD)

text \<open>The forward cursor (\<open>next\<close>, with a default key where there is no next one)
  walks the keys in increasing order.\<close>

lemma succ_chain_store_next:
  "keys_sorted ps \<Longrightarrow> succ_chain (\<lambda>k. case store_next ps k of None \<Rightarrow> d | Some k' \<Rightarrow> k') (map fst ps)"
proof (induction ps)
  case Nil
  then show ?case by simp
next
  case (Cons p ps)
  obtain a b where p: "p = (a, b)" by (cases p)
  with Cons.prems have srt: "keys_sorted ((a, b) # ps)" and tl: "keys_sorted ps"
    by (auto simp: keys_sorted_Cons)
  let ?f = "\<lambda>k. case store_next ((a, b) # ps) k of None \<Rightarrow> d | Some k' \<Rightarrow> k'"
  have IH: "succ_chain (\<lambda>k. case store_next ps k of None \<Rightarrow> d | Some k' \<Rightarrow> k') (map fst ps)"
    using Cons.IH tl by simp
  have tail: "succ_chain ?f (map fst ps)"
    by (rule succ_chain_cong [OF IH])
      (auto simp: store_next_Cons_above less_imp_le in_butlast_keys_above [OF srt])
  show ?case
  proof (cases ps)
    case Nil
    then show ?thesis using p by simp
  next
    case (Cons q qs)
    with srt have "?f a = fst q"
      by (cases q) (simp add: store_next_Cons_head)
    with tail Cons p show ?thesis by simp
  qed
qed

lemma keys_sorted_snoc:
  "keys_sorted (ps @ [(z, v)]) \<longleftrightarrow> keys_sorted ps \<and> (\<forall>k \<in> fst ` set ps. k < z)"
  by (auto simp: keys_sorted_def sorted_wrt_append)

lemma store_prev_snoc_below:
  "k < z \<Longrightarrow> store_prev (ps @ [(z, v)]) k = store_prev ps k"
  by (auto simp: store_prev_def)

lemma store_prev_snoc_head:
  "keys_sorted (ps @ [(z, v)]) \<Longrightarrow> store_prev (ps @ [(z, v)]) z = store_last ps"
proof -
  assume "keys_sorted (ps @ [(z, v)])"
  then have "\<forall>p \<in> set ps. fst p < z"
    by (auto simp: keys_sorted_snoc)
  then show ?thesis
    by (simp add: store_prev_def)
qed

text \<open>The backward cursor walks the keys in decreasing order.\<close>

lemma succ_chain_store_prev:
  "keys_sorted ps \<Longrightarrow> succ_chain (\<lambda>k. case store_prev ps k of None \<Rightarrow> d | Some k' \<Rightarrow> k') (rev (map fst ps))"
proof (induction ps rule: rev_induct)
  case Nil
  then show ?case by simp
next
  case (snoc p ps)
  obtain z v where p: "p = (z, v)" by (cases p)
  with snoc.prems have srt: "keys_sorted (ps @ [(z, v)])" and hd: "keys_sorted ps"
    and below: "\<forall>k \<in> fst ` set ps. k < z"
    by (auto simp: keys_sorted_snoc)
  let ?f = "\<lambda>k. case store_prev (ps @ [(z, v)]) k of None \<Rightarrow> d | Some k' \<Rightarrow> k'"
  have IH: "succ_chain (\<lambda>k. case store_prev ps k of None \<Rightarrow> d | Some k' \<Rightarrow> k') (rev (map fst ps))"
    using snoc.IH hd by simp
  have tail: "succ_chain ?f (rev (map fst ps))"
    by (rule succ_chain_cong [OF IH])
      (use below in \<open>force simp: store_prev_snoc_below dest!: in_set_tl\<close>)
  show ?case
  proof (cases ps rule: rev_cases)
    case Nil
    then show ?thesis using p by simp
  next
    case (snoc qs q)
    from store_prev_snoc_head [OF srt] snoc have "?f z = fst q"
      by (cases q) (simp add: store_last_def)
    with tail snoc p show ?thesis by simp
  qed
qed

text \<open>Where a move is total on the walk, the walk can be read through any view \<open>h\<close>
  of the keys (e.g. Python's optional keys).\<close>

lemma succ_chain_map:
  "succ_chain f xs \<Longrightarrow> (\<forall>x \<in> set (butlast xs). g (h x) = h (f x)) \<Longrightarrow> succ_chain g (map h xs)"
  by (induction f xs rule: succ_chain.induct) auto

lemma in_butlast_less_last:
  "sorted_wrt (<) xs \<Longrightarrow> x \<in> set (butlast xs) \<Longrightarrow> x < last xs"
proof -
  assume srt: "sorted_wrt (<) xs" and x: "x \<in> set (butlast xs)"
  then have "xs \<noteq> []" by auto
  then have "xs = butlast xs @ [last xs]" by simp
  with srt x show ?thesis
    by (metis sorted_wrt_append list.set_intros(1))
qed

lemma store_next_butlast:
  "keys_sorted ps \<Longrightarrow> x \<in> set (butlast (map fst ps)) \<Longrightarrow> store_next ps x \<noteq> None"
proof -
  assume srt: "keys_sorted ps" and x: "x \<in> set (butlast (map fst ps))"
  then have lt: "x < last (map fst ps)" and ne: "ps \<noteq> []"
    by (auto simp: keys_sorted_def in_butlast_less_last)
  then have "last ps \<in> set (filter (\<lambda>p. x < fst p) ps)"
    by (simp add: last_map)
  then have "filter (\<lambda>p. x < fst p) ps \<noteq> []"
    by (metis empty_iff empty_set)
  then show ?thesis
    by (simp add: store_next_def)
qed

lemma store_prev_butlast:
  "keys_sorted ps \<Longrightarrow> x \<in> set (butlast (rev (map fst ps))) \<Longrightarrow> store_prev ps x \<noteq> None"
proof -
  assume srt: "keys_sorted ps" and x: "x \<in> set (butlast (rev (map fst ps)))"
  then have "x \<in> set (tl (map fst ps))"
    by (simp add: butlast_rev)
  then have ne: "ps \<noteq> []" and lt: "hd (map fst ps) < x"
    using srt by (cases ps; auto simp: keys_sorted_def)+
  then have "hd ps \<in> set (filter (\<lambda>p. fst p < x) ps)"
    by (simp add: hd_map)
  then have "filter (\<lambda>p. fst p < x) ps \<noteq> []"
    by (metis empty_iff empty_set)
  then show ?thesis
    by (simp add: store_prev_def)
qed

text \<open>A sorted store is determined by the map it denotes.\<close>

lemma store_rebuild: "keys_sorted xs \<Longrightarrow> map (\<lambda>k. (k, the (map_of xs k))) (map fst xs) = xs"
  by (auto simp: map_of_sorted_in intro!: map_idI)

lemma store_map_of_eq:
  assumes sx: "keys_sorted xs" and sy: "keys_sorted ys" and eq: "map_of xs = map_of ys"
  shows "xs = ys"
proof -
  have "map fst xs = map fst ys"
    using store_keys_sorted_list [OF sx] store_keys_sorted_list [OF sy] eq by simp
  then show ?thesis
    using store_rebuild [OF sx] store_rebuild [OF sy] eq by metis
qed

lemma store_del_filter: "keys_sorted ps \<Longrightarrow> store_del k ps = filter (\<lambda>p. fst p \<noteq> k) ps"
proof (induction ps)
  case Nil
  then show ?case by simp
next
  case (Cons p ps)
  then show ?case
    by (cases p) (auto simp: keys_sorted_Cons intro: filter_True [symmetric])
qed


end
