(* ===== verification/Host.thy ===== *)
theory Host
  imports Store
begin

text \<open>
  The host: the IDA netnode primitives that \<open>_netnode.py\<close> binds in its class
  \<open>netnode\<close> (lines 20--107) from \<open>_ida_netnode\<close>. They are not code of this
  repository; the spec (sections 3 and 6) describes them as an external collaborator
  with a fixed interface, and this theory models that interface. The database is a
  list of nodes ordered by number; each node holds an optional name and value and its
  arrays (alt, sup, hash, char, blob), each a sorted key store of theory \<open>Store\<close>.
  A node is present in the database exactly when it holds something; writing to the
  number \<open>BADNODE\<close> does nothing and reports failure. Every primitive takes the
  database explicitly and the ones that write return the new database.
  Decisions taken where IDA's behaviour is not documented by the spec: the alt and
  char arrays read 0 at a missing key, the cursor moves of the integer-keyed arrays
  return \<open>BADADDR\<close> where there is no key and those of the hash return Python
  \<open>None\<close>; a sup or hash value longer than \<open>MAXSPECSIZE\<close> is refused; a new
  named node gets the number after the highest node (at least \<open>free_id\<close>); a blob is
  read back padded with NUL bytes to whole \<open>MAXSPECSIZE\<close> chunks (spec 4.7).
\<close>

record nodedata =
  nd_name :: "string option"
  nd_value :: "bytes option"
  nd_alt :: "(ea \<times> ea) list"
  nd_sup :: "(ea \<times> bytes) list"
  nd_hash :: "(string \<times> bytes) list"
  nd_char :: "(ea \<times> char) list"
  nd_blob :: "((ea \<times> char) \<times> bytes) list"

record netdb =
  nodes :: "(ea \<times> nodedata) list"
  free_id :: ea

definition empty_node :: nodedata where
  "empty_node = \<lparr>nd_name = None, nd_value = None, nd_alt = [], nd_sup = [], nd_hash = [],
     nd_char = [], nd_blob = []\<rparr>"

definition node_at :: "netdb \<Rightarrow> ea \<Rightarrow> nodedata" where
  "node_at db i = (case map_of (nodes db) i of None \<Rightarrow> empty_node | Some d \<Rightarrow> d)"

definition put_node :: "netdb \<Rightarrow> ea \<Rightarrow> nodedata \<Rightarrow> netdb" where
  "put_node db i d =
     (if i = BADADDR then db
      else if d = empty_node then db\<lparr>nodes := store_del i (nodes db)\<rparr>
      else db\<lparr>nodes := store_put i d (nodes db)\<rparr>)"

definition upd_node :: "netdb \<Rightarrow> ea \<Rightarrow> (nodedata \<Rightarrow> nodedata) \<Rightarrow> bool \<times> netdb" where
  "upd_node db i f = (i \<noteq> BADADDR, put_node db i (f (node_at db i)))"

text \<open>Reading a cursor result of an integer-keyed array.\<close>

definition or_badaddr :: "ea option \<Rightarrow> ea" where
  "or_badaddr r = (case r of None \<Rightarrow> BADADDR | Some k \<Rightarrow> k)"

subsection \<open>Nodes: creation, lookup, deletion, names, enumeration\<close>

definition find_named :: "netdb \<Rightarrow> string \<Rightarrow> ea option" where
  "find_named db s = store_first (filter (\<lambda>p. nd_name (snd p) = Some s) (nodes db))"

definition alloc_id :: "netdb \<Rightarrow> ea" where
  "alloc_id db = (case store_last (nodes db) of None \<Rightarrow> free_id db
     | Some l \<Rightarrow> if l < free_id db then free_id db else l + 1)"

text \<open>\<open>netnode(name, namlen, do_create)\<close>: the node of that name, else a new one
  when \<open>do_create\<close>, else \<open>BADNODE\<close>.\<close>

definition netnode_new_named :: "netdb \<Rightarrow> string \<Rightarrow> bool \<Rightarrow> ea \<times> netdb" where
  "netnode_new_named db s create =
     (case find_named db s of
        Some i \<Rightarrow> (i, db)
      | None \<Rightarrow>
          if \<not> create then (BADADDR, db)
          else (let i = alloc_id db in
                if i = BADADDR then (BADADDR, db)
                else (i, (put_node db i (empty_node\<lparr>nd_name := Some s\<rparr>))\<lparr>free_id := i + 1\<rparr>)))"

definition netnode_kill :: "netdb \<Rightarrow> ea \<Rightarrow> netdb" where
  "netnode_kill db i = put_node db i empty_node"

definition netnode_get_name :: "netdb \<Rightarrow> ea \<Rightarrow> string option" where
  "netnode_get_name db i = nd_name (node_at db i)"

definition netnode_rename :: "netdb \<Rightarrow> ea \<Rightarrow> string \<Rightarrow> bool \<times> netdb" where
  "netnode_rename db i s =
     (case find_named db s of
        Some j \<Rightarrow> (j = i, db)
      | None \<Rightarrow> upd_node db i (\<lambda>d. d\<lparr>nd_name := Some s\<rparr>))"

definition netnode_start :: "netdb \<Rightarrow> ea option" where
  "netnode_start db = store_first (nodes db)"

definition netnode_end :: "netdb \<Rightarrow> ea option" where
  "netnode_end db = store_last (nodes db)"

definition netnode_next :: "netdb \<Rightarrow> ea \<Rightarrow> ea option" where
  "netnode_next db i = store_next (nodes db) i"

definition netnode_prev :: "netdb \<Rightarrow> ea \<Rightarrow> ea option" where
  "netnode_prev db i = store_prev (nodes db) i"

subsection \<open>The node's value\<close>

definition netnode_value_exists :: "netdb \<Rightarrow> ea \<Rightarrow> bool" where
  "netnode_value_exists db i \<longleftrightarrow> nd_value (node_at db i) \<noteq> None"

definition netnode_valobj :: "netdb \<Rightarrow> ea \<Rightarrow> bytes option" where
  "netnode_valobj db i = nd_value (node_at db i)"

definition netnode_valstr :: "netdb \<Rightarrow> ea \<Rightarrow> string option" where
  "netnode_valstr db i = map_option cstr (nd_value (node_at db i))"

text \<open>\<open>long_value\<close> reads the value into a zeroed \<open>nodeidx_t\<close>; an absent or empty
  value reads as \<open>BADNODE\<close>.\<close>

definition netnode_long_value :: "netdb \<Rightarrow> ea \<Rightarrow> ea" where
  "netnode_long_value db i =
     (case nd_value (node_at db i) of
        None \<Rightarrow> BADADDR
      | Some bs \<Rightarrow> if bs = [] then BADADDR else unpack_ea bs)"

definition netnode_set :: "netdb \<Rightarrow> ea \<Rightarrow> bytes \<Rightarrow> bool \<times> netdb" where
  "netnode_set db i bs = upd_node db i (\<lambda>d. d\<lparr>nd_value := Some bs\<rparr>)"

definition netnode_set_long :: "netdb \<Rightarrow> ea \<Rightarrow> ea \<Rightarrow> bool \<times> netdb" where
  "netnode_set_long db i w = netnode_set db i (pack_ea w)"

definition netnode_delvalue :: "netdb \<Rightarrow> ea \<Rightarrow> bool \<times> netdb" where
  "netnode_delvalue db i = upd_node db i (\<lambda>d. d\<lparr>nd_value := None\<rparr>)"

subsection \<open>The alt array: \<open>nodeidx_t\<close> values at \<open>nodeidx_t\<close> keys\<close>

definition netnode_altval :: "netdb \<Rightarrow> ea \<Rightarrow> ea \<Rightarrow> ea" where
  "netnode_altval db i k = (case map_of (nd_alt (node_at db i)) k of None \<Rightarrow> 0 | Some v \<Rightarrow> v)"

definition netnode_altset :: "netdb \<Rightarrow> ea \<Rightarrow> ea \<Rightarrow> ea \<Rightarrow> bool \<times> netdb" where
  "netnode_altset db i k v = upd_node db i (\<lambda>d. d\<lparr>nd_alt := store_put k v (nd_alt d)\<rparr>)"

definition netnode_altdel :: "netdb \<Rightarrow> ea \<Rightarrow> ea \<Rightarrow> bool \<times> netdb" where
  "netnode_altdel db i k = upd_node db i (\<lambda>d. d\<lparr>nd_alt := store_del k (nd_alt d)\<rparr>)"

definition netnode_altfirst :: "netdb \<Rightarrow> ea \<Rightarrow> ea" where
  "netnode_altfirst db i = or_badaddr (store_first (nd_alt (node_at db i)))"

definition netnode_altlast :: "netdb \<Rightarrow> ea \<Rightarrow> ea" where
  "netnode_altlast db i = or_badaddr (store_last (nd_alt (node_at db i)))"

definition netnode_altnext :: "netdb \<Rightarrow> ea \<Rightarrow> ea \<Rightarrow> ea" where
  "netnode_altnext db i k = or_badaddr (store_next (nd_alt (node_at db i)) k)"

definition netnode_altprev :: "netdb \<Rightarrow> ea \<Rightarrow> ea \<Rightarrow> ea" where
  "netnode_altprev db i k = or_badaddr (store_prev (nd_alt (node_at db i)) k)"

subsection \<open>The sup array: byte strings of at most \<open>MAXSPECSIZE\<close> at \<open>nodeidx_t\<close> keys\<close>

definition netnode_supval :: "netdb \<Rightarrow> ea \<Rightarrow> ea \<Rightarrow> bytes option" where
  "netnode_supval db i k = map_of (nd_sup (node_at db i)) k"

definition netnode_supstr :: "netdb \<Rightarrow> ea \<Rightarrow> ea \<Rightarrow> string option" where
  "netnode_supstr db i k = map_option cstr (map_of (nd_sup (node_at db i)) k)"

definition netnode_supset :: "netdb \<Rightarrow> ea \<Rightarrow> ea \<Rightarrow> bytes \<Rightarrow> bool \<times> netdb" where
  "netnode_supset db i k bs =
     (if MAXSPECSIZE < length bs then (False, db)
      else upd_node db i (\<lambda>d. d\<lparr>nd_sup := store_put k bs (nd_sup d)\<rparr>))"

definition netnode_supdel :: "netdb \<Rightarrow> ea \<Rightarrow> ea \<Rightarrow> bool \<times> netdb" where
  "netnode_supdel db i k = upd_node db i (\<lambda>d. d\<lparr>nd_sup := store_del k (nd_sup d)\<rparr>)"

definition netnode_supfirst :: "netdb \<Rightarrow> ea \<Rightarrow> ea" where
  "netnode_supfirst db i = or_badaddr (store_first (nd_sup (node_at db i)))"

definition netnode_suplast :: "netdb \<Rightarrow> ea \<Rightarrow> ea" where
  "netnode_suplast db i = or_badaddr (store_last (nd_sup (node_at db i)))"

definition netnode_supnext :: "netdb \<Rightarrow> ea \<Rightarrow> ea \<Rightarrow> ea" where
  "netnode_supnext db i k = or_badaddr (store_next (nd_sup (node_at db i)) k)"

definition netnode_supprev :: "netdb \<Rightarrow> ea \<Rightarrow> ea \<Rightarrow> ea" where
  "netnode_supprev db i k = or_badaddr (store_prev (nd_sup (node_at db i)) k)"

subsection \<open>The hash: byte strings at string keys\<close>

text \<open>The readers accept Python \<open>None\<close> for the key (it arrives as a null
  \<open>char *\<close>) and find nothing there.\<close>

definition netnode_hashval :: "netdb \<Rightarrow> ea \<Rightarrow> string option \<Rightarrow> bytes option" where
  "netnode_hashval db i ko = (case ko of None \<Rightarrow> None | Some k \<Rightarrow> map_of (nd_hash (node_at db i)) k)"

definition netnode_hashstr :: "netdb \<Rightarrow> ea \<Rightarrow> string \<Rightarrow> string option" where
  "netnode_hashstr db i k = map_option cstr (map_of (nd_hash (node_at db i)) k)"

definition netnode_hashstr_buf :: "netdb \<Rightarrow> ea \<Rightarrow> string \<Rightarrow> bytes option" where
  "netnode_hashstr_buf db i k = map_option cstr (map_of (nd_hash (node_at db i)) k)"

definition netnode_hashval_long :: "netdb \<Rightarrow> ea \<Rightarrow> string \<Rightarrow> ea" where
  "netnode_hashval_long db i k = (case map_of (nd_hash (node_at db i)) k of None \<Rightarrow> 0 | Some bs \<Rightarrow> unpack_ea bs)"

definition netnode_hashset :: "netdb \<Rightarrow> ea \<Rightarrow> string \<Rightarrow> bytes \<Rightarrow> bool \<times> netdb" where
  "netnode_hashset db i k bs =
     (if MAXSPECSIZE < length bs then (False, db)
      else upd_node db i (\<lambda>d. d\<lparr>nd_hash := store_put k bs (nd_hash d)\<rparr>))"

definition netnode_hashset_buf :: "netdb \<Rightarrow> ea \<Rightarrow> string \<Rightarrow> bytes \<Rightarrow> bool \<times> netdb" where
  "netnode_hashset_buf db i k bs = netnode_hashset db i k bs"

definition netnode_hashset_idx :: "netdb \<Rightarrow> ea \<Rightarrow> string \<Rightarrow> ea \<Rightarrow> bool \<times> netdb" where
  "netnode_hashset_idx db i k w = netnode_hashset db i k (pack_ea w)"

definition netnode_hashdel :: "netdb \<Rightarrow> ea \<Rightarrow> string \<Rightarrow> bool \<times> netdb" where
  "netnode_hashdel db i k = upd_node db i (\<lambda>d. d\<lparr>nd_hash := store_del k (nd_hash d)\<rparr>)"

definition netnode_hashfirst :: "netdb \<Rightarrow> ea \<Rightarrow> string option" where
  "netnode_hashfirst db i = store_first (nd_hash (node_at db i))"

definition netnode_hashlast :: "netdb \<Rightarrow> ea \<Rightarrow> string option" where
  "netnode_hashlast db i = store_last (nd_hash (node_at db i))"

definition netnode_hashnext :: "netdb \<Rightarrow> ea \<Rightarrow> string option \<Rightarrow> string option" where
  "netnode_hashnext db i ko = (case ko of None \<Rightarrow> None | Some k \<Rightarrow> store_next (nd_hash (node_at db i)) k)"

definition netnode_hashprev :: "netdb \<Rightarrow> ea \<Rightarrow> string option \<Rightarrow> string option" where
  "netnode_hashprev db i ko = (case ko of None \<Rightarrow> None | Some k \<Rightarrow> store_prev (nd_hash (node_at db i)) k)"

subsection \<open>The char array: bytes at \<open>nodeidx_t\<close> keys\<close>

definition netnode_charval :: "netdb \<Rightarrow> ea \<Rightarrow> ea \<Rightarrow> char" where
  "netnode_charval db i k = (case map_of (nd_char (node_at db i)) k of None \<Rightarrow> CHR 0x00 | Some c \<Rightarrow> c)"

definition netnode_charset :: "netdb \<Rightarrow> ea \<Rightarrow> ea \<Rightarrow> char \<Rightarrow> bool \<times> netdb" where
  "netnode_charset db i k c = upd_node db i (\<lambda>d. d\<lparr>nd_char := store_put k c (nd_char d)\<rparr>)"

definition netnode_chardel :: "netdb \<Rightarrow> ea \<Rightarrow> ea \<Rightarrow> bool \<times> netdb" where
  "netnode_chardel db i k = upd_node db i (\<lambda>d. d\<lparr>nd_char := store_del k (nd_char d)\<rparr>)"

definition netnode_charfirst :: "netdb \<Rightarrow> ea \<Rightarrow> ea" where
  "netnode_charfirst db i = or_badaddr (store_first (nd_char (node_at db i)))"

definition netnode_charlast :: "netdb \<Rightarrow> ea \<Rightarrow> ea" where
  "netnode_charlast db i = or_badaddr (store_last (nd_char (node_at db i)))"

definition netnode_charnext :: "netdb \<Rightarrow> ea \<Rightarrow> ea \<Rightarrow> ea" where
  "netnode_charnext db i k = or_badaddr (store_next (nd_char (node_at db i)) k)"

definition netnode_charprev :: "netdb \<Rightarrow> ea \<Rightarrow> ea \<Rightarrow> ea" where
  "netnode_charprev db i k = or_badaddr (store_prev (nd_char (node_at db i)) k)"

subsection \<open>Blobs: byte strings at a start index and a tag\<close>

definition blob_padding :: "nat \<Rightarrow> nat" where
  "blob_padding n = (MAXSPECSIZE - n mod MAXSPECSIZE) mod MAXSPECSIZE"

definition netnode_blobsize :: "netdb \<Rightarrow> ea \<Rightarrow> ea \<Rightarrow> char \<Rightarrow> nat" where
  "netnode_blobsize db i start tag =
     (case map_of (nd_blob (node_at db i)) (start, tag) of None \<Rightarrow> 0 | Some bs \<Rightarrow> length bs)"

definition netnode_getblob :: "netdb \<Rightarrow> ea \<Rightarrow> ea \<Rightarrow> char \<Rightarrow> bytes option" where
  "netnode_getblob db i start tag =
     map_option (\<lambda>bs. bs @ replicate (blob_padding (length bs)) CHR 0x00)
       (map_of (nd_blob (node_at db i)) (start, tag))"

definition netnode_setblob :: "netdb \<Rightarrow> ea \<Rightarrow> bytes \<Rightarrow> ea \<Rightarrow> char \<Rightarrow> bool \<times> netdb" where
  "netnode_setblob db i bs start tag =
     upd_node db i (\<lambda>d. d\<lparr>nd_blob := store_put (start, tag) bs (nd_blob d)\<rparr>)"

text \<open>\<open>delblob\<close> answers the number of \<open>MAXSPECSIZE\<close> chunks it deleted.\<close>

definition netnode_delblob :: "netdb \<Rightarrow> ea \<Rightarrow> ea \<Rightarrow> char \<Rightarrow> nat \<times> netdb" where
  "netnode_delblob db i start tag =
     ((netnode_blobsize db i start tag + MAXSPECSIZE - 1) div MAXSPECSIZE,
      snd (upd_node db i (\<lambda>d. d\<lparr>nd_blob := store_del (start, tag) (nd_blob d)\<rparr>)))"

subsection \<open>A database for the examples\<close>

text \<open>Node 5 holds two alt entries, a hash entry and a sup entry; node 7 holds a value.\<close>

definition demo_db :: netdb where
  "demo_db = \<lparr>nodes = [(5, empty_node\<lparr>nd_alt := [(1, 10), (3, 30)], nd_hash := [(''k1'', ''v'')],
                                          nd_sup := [(2, ''hello'')]\<rparr>),
                      (7, empty_node\<lparr>nd_value := Some ''x''\<rparr>)],
               free_id = 100\<rparr>"

subsection \<open>The database invariant\<close>

text \<open>Every array of a node is a sorted store; the node list is sorted by number,
  never holds \<open>BADNODE\<close> and never holds an empty node.\<close>

definition node_ok :: "nodedata \<Rightarrow> bool" where
  "node_ok d \<longleftrightarrow> keys_sorted (nd_alt d) \<and> keys_sorted (nd_sup d) \<and> keys_sorted (nd_hash d)
     \<and> keys_sorted (nd_char d) \<and> keys_sorted (nd_blob d)"

definition netdb_ok :: "netdb \<Rightarrow> bool" where
  "netdb_ok db \<longleftrightarrow> keys_sorted (nodes db)
     \<and> (\<forall>p \<in> set (nodes db). fst p \<noteq> BADADDR \<and> snd p \<noteq> empty_node \<and> node_ok (snd p))"

lemma node_ok_empty [simp]: "node_ok empty_node"
  by (simp add: node_ok_def empty_node_def)

lemma netdb_ok_sorted: "netdb_ok db \<Longrightarrow> keys_sorted (nodes db)"
  by (simp add: netdb_ok_def)

lemma node_at_ok [simp]: "netdb_ok db \<Longrightarrow> node_ok (node_at db i)"
  by (fastforce simp: netdb_ok_def node_at_def split: option.splits dest: map_of_SomeD)

lemma node_at_sorted [simp]:
  assumes "netdb_ok db"
  shows "keys_sorted (nd_alt (node_at db i))" "keys_sorted (nd_sup (node_at db i))"
    "keys_sorted (nd_hash (node_at db i))" "keys_sorted (nd_char (node_at db i))"
    "keys_sorted (nd_blob (node_at db i))"
  using node_at_ok [OF assms, of i] by (simp_all add: node_ok_def)

lemma node_at_badaddr [simp]: "netdb_ok db \<Longrightarrow> node_at db BADADDR = empty_node"
proof -
  assume "netdb_ok db"
  then have "BADADDR \<notin> fst ` set (nodes db)"
    by (auto simp: netdb_ok_def)
  then have "map_of (nodes db) BADADDR = None"
    by (simp add: map_of_eq_None_iff)
  then show ?thesis
    by (simp add: node_at_def)
qed

lemma node_at_put [host_simps]:
  "keys_sorted (nodes db) \<Longrightarrow>
   node_at (put_node db i d) j = (if j = i \<and> i \<noteq> BADADDR then d else node_at db j)"
  by (auto simp: put_node_def node_at_def)

lemma node_at_free_id [simp]: "node_at (db\<lparr>free_id := x\<rparr>) j = node_at db j"
  by (simp add: node_at_def)

lemma netdb_ok_put:
  assumes ok: "netdb_ok db" and d: "node_ok d"
  shows "netdb_ok (put_node db i d)"
proof -
  have srt: "keys_sorted (nodes db)" using ok by (simp add: netdb_ok_def)
  show ?thesis
  proof (cases "i = BADADDR \<or> d = empty_node")
    case True
    then show ?thesis
      using ok set_store_del [of i "nodes db"]
      by (auto simp: put_node_def netdb_ok_def keys_sorted_del)
  next
    case False
    then show ?thesis
      using ok d set_store_put [of i d "nodes db"]
      by (auto simp: put_node_def netdb_ok_def keys_sorted_put)
  qed
qed

lemma upd_node_eq [host_simps]:
  "keys_sorted (nodes db) \<Longrightarrow>
   node_at (snd (upd_node db i f)) j = (if j = i \<and> i \<noteq> BADADDR then f (node_at db i) else node_at db j)"
  by (simp add: upd_node_def node_at_put)

lemma netdb_ok_upd:
  "netdb_ok db \<Longrightarrow> node_ok (f (node_at db i)) \<Longrightarrow> netdb_ok (snd (upd_node db i f))"
  by (simp add: upd_node_def netdb_ok_put)

lemma demo_db_ok: "netdb_ok demo_db"
  by (simp add: demo_db_def netdb_ok_def node_ok_def empty_node_def keys_sorted_def)

lemma node_ok_updates [simp]:
  assumes "node_ok d"
  shows "node_ok (d\<lparr>nd_name := n\<rparr>)" "node_ok (d\<lparr>nd_value := x\<rparr>)"
    "node_ok (d\<lparr>nd_alt := store_put k a (nd_alt d)\<rparr>)" "node_ok (d\<lparr>nd_alt := store_del k (nd_alt d)\<rparr>)"
    "node_ok (d\<lparr>nd_sup := store_put k s (nd_sup d)\<rparr>)" "node_ok (d\<lparr>nd_sup := store_del k (nd_sup d)\<rparr>)"
    "node_ok (d\<lparr>nd_hash := store_put h s (nd_hash d)\<rparr>)" "node_ok (d\<lparr>nd_hash := store_del h (nd_hash d)\<rparr>)"
    "node_ok (d\<lparr>nd_char := store_put k c (nd_char d)\<rparr>)" "node_ok (d\<lparr>nd_char := store_del k (nd_char d)\<rparr>)"
    "node_ok (d\<lparr>nd_blob := store_put b s (nd_blob d)\<rparr>)" "node_ok (d\<lparr>nd_blob := store_del b (nd_blob d)\<rparr>)"
  using assms by (simp_all add: node_ok_def keys_sorted_put keys_sorted_del)

lemma netdb_ok_free_id [simp]: "netdb_ok (db\<lparr>free_id := x\<rparr>) \<longleftrightarrow> netdb_ok db"
  by (simp add: netdb_ok_def)

text \<open>Every writing primitive keeps the invariant.\<close>

lemma netdb_ok_writes:
  assumes ok: "netdb_ok db"
  shows "netdb_ok (snd (netnode_new_named db s c))" "netdb_ok (netnode_kill db i)"
    "netdb_ok (snd (netnode_rename db i s))"
    "netdb_ok (snd (netnode_set db i bs))" "netdb_ok (snd (netnode_set_long db i w))"
    "netdb_ok (snd (netnode_delvalue db i))"
    "netdb_ok (snd (netnode_altset db i k a))" "netdb_ok (snd (netnode_altdel db i k))"
    "netdb_ok (snd (netnode_supset db i k bs))" "netdb_ok (snd (netnode_supdel db i k))"
    "netdb_ok (snd (netnode_hashset db i h bs))" "netdb_ok (snd (netnode_hashset_buf db i h bs))"
    "netdb_ok (snd (netnode_hashset_idx db i h w))" "netdb_ok (snd (netnode_hashdel db i h))"
    "netdb_ok (snd (netnode_charset db i k ch))" "netdb_ok (snd (netnode_chardel db i k))"
    "netdb_ok (snd (netnode_setblob db i bs k t))" "netdb_ok (snd (netnode_delblob db i k t))"
  using ok
  by (auto simp: netnode_new_named_def netnode_kill_def netnode_rename_def netnode_set_def
      netnode_set_long_def netnode_delvalue_def netnode_altset_def netnode_altdel_def
      netnode_supset_def netnode_supdel_def netnode_hashset_def netnode_hashset_buf_def
      netnode_hashset_idx_def netnode_hashdel_def netnode_charset_def netnode_chardel_def
      netnode_setblob_def netnode_delblob_def Let_def netdb_ok_upd netdb_ok_put
      split: option.splits)

lemma writes_frame:
  assumes s: "keys_sorted (nodes db)" and ji: "j \<noteq> i"
  shows "node_at (netnode_kill db i) j = node_at db j"
    "node_at (snd (netnode_rename db i s)) j = node_at db j"
    "node_at (snd (netnode_set db i bs)) j = node_at db j"
    "node_at (snd (netnode_set_long db i w)) j = node_at db j"
    "node_at (snd (netnode_delvalue db i)) j = node_at db j"
    "node_at (snd (netnode_altset db i k a)) j = node_at db j"
    "node_at (snd (netnode_altdel db i k)) j = node_at db j"
    "node_at (snd (netnode_supset db i k bs)) j = node_at db j"
    "node_at (snd (netnode_supdel db i k)) j = node_at db j"
    "node_at (snd (netnode_hashset db i h bs)) j = node_at db j"
    "node_at (snd (netnode_hashset_buf db i h bs)) j = node_at db j"
    "node_at (snd (netnode_hashset_idx db i h w)) j = node_at db j"
    "node_at (snd (netnode_hashdel db i h)) j = node_at db j"
    "node_at (snd (netnode_charset db i k ch)) j = node_at db j"
    "node_at (snd (netnode_chardel db i k)) j = node_at db j"
    "node_at (snd (netnode_setblob db i bs k t)) j = node_at db j"
    "node_at (snd (netnode_delblob db i k t)) j = node_at db j"
  using s ji
  by (simp_all add: netnode_kill_def netnode_rename_def netnode_set_def
      netnode_set_long_def netnode_delvalue_def netnode_altset_def netnode_altdel_def
      netnode_supset_def netnode_supdel_def netnode_hashset_def netnode_hashset_buf_def
      netnode_hashset_idx_def netnode_hashdel_def netnode_charset_def netnode_chardel_def
      netnode_setblob_def netnode_delblob_def Let_def upd_node_eq node_at_put
      split: option.splits)

lemma new_named_frame:
  "keys_sorted (nodes db) \<Longrightarrow> j \<noteq> fst (netnode_new_named db s c) \<Longrightarrow>
   node_at (snd (netnode_new_named db s c)) j = node_at db j"
  by (auto simp: netnode_new_named_def Let_def node_at_put split: option.splits)

text \<open>The node list holds exactly the non-empty nodes.\<close>

lemma map_of_nodes:
  "netdb_ok db \<Longrightarrow> map_of (nodes db) i = (if node_at db i = empty_node then None else Some (node_at db i))"
  by (force simp: node_at_def netdb_ok_def split: option.splits dest: map_of_SomeD)

end
