(* ===== verification/Binding.thy ===== *)
theory Binding
  imports Host
begin

text \<open>
  Class \<open>netnode\<close> of \<open>_netnode.py\<close> (lines 20--107): the binding table. The class has
  no methods; each of its attributes is an \<open>_ida_netnode\<close> primitive, and the rest
  of the module reaches the host only through these attributes (\<open>netnode.altval\<close>,
  \<open>netnode.supfirst\<close>, ...). The table is a record with one field per attribute
  (prefixed \<open>nn_\<close>). Nine attributes are chosen by the host version: before IDA 7.0
  they are bound to the primitives of the old names (\<open>netnode_alt1st\<close>,
  \<open>netnode_altnxt\<close>, ...), from 7.0 on to the renamed ones. IDA 7.0 renamed these
  primitives without changing them, which is how the old names are modelled here, so
  the version test binds the same interface either way. \<open>netnode.new\<close> is bound to \<open>new_netnode\<close>, whose named form
  is \<open>netnode_new_named\<close>; its numeric form \<open>netnode.new(nodeidx)\<close> makes a handle
  whose index is \<open>nodeidx\<close>, and the model identifies a handle with its index, so
  \<open>netnode.index\<close> is the identity and \<open>netnode.delete\<close>, which frees a handle,
  changes nothing in the database.
\<close>

definition netnode_index :: "ea \<Rightarrow> ea" where
  "netnode_index h = h"

definition netnode_delete :: "ea \<Rightarrow> unit" where
  "netnode_delete h = ()"

text \<open>The primitives of the IDA 6.x names, renamed in IDA 7.0.\<close>

definition netnode_sup1st :: "netdb \<Rightarrow> ea \<Rightarrow> ea" where
  "netnode_sup1st db i = netnode_supfirst db i"

definition netnode_supnxt :: "netdb \<Rightarrow> ea \<Rightarrow> ea \<Rightarrow> ea" where
  "netnode_supnxt db i k = netnode_supnext db i k"

definition netnode_hashnxt :: "netdb \<Rightarrow> ea \<Rightarrow> string option \<Rightarrow> string option" where
  "netnode_hashnxt db i k = netnode_hashnext db i k"

definition netnode_hash1st :: "netdb \<Rightarrow> ea \<Rightarrow> string option" where
  "netnode_hash1st db i = netnode_hashfirst db i"

definition netnode_char1st :: "netdb \<Rightarrow> ea \<Rightarrow> ea" where
  "netnode_char1st db i = netnode_charfirst db i"

definition netnode_charnxt :: "netdb \<Rightarrow> ea \<Rightarrow> ea \<Rightarrow> ea" where
  "netnode_charnxt db i k = netnode_charnext db i k"

definition netnode_name :: "netdb \<Rightarrow> ea \<Rightarrow> string option" where
  "netnode_name db i = netnode_get_name db i"

definition netnode_alt1st :: "netdb \<Rightarrow> ea \<Rightarrow> ea" where
  "netnode_alt1st db i = netnode_altfirst db i"

definition netnode_altnxt :: "netdb \<Rightarrow> ea \<Rightarrow> ea \<Rightarrow> ea" where
  "netnode_altnxt db i k = netnode_altnext db i k"

record netnode_api =
  nn_new :: "netdb \<Rightarrow> string \<Rightarrow> bool \<Rightarrow> ea \<times> netdb"
  nn_delete :: "ea \<Rightarrow> unit"
  nn_start :: "netdb \<Rightarrow> ea option"
  nn_end :: "netdb \<Rightarrow> ea option"
  nn_index :: "ea \<Rightarrow> ea"
  nn_kill :: "netdb \<Rightarrow> ea \<Rightarrow> netdb"
  nn_long_value :: "netdb \<Rightarrow> ea \<Rightarrow> ea"
  nn_next :: "netdb \<Rightarrow> ea \<Rightarrow> ea option"
  nn_prev :: "netdb \<Rightarrow> ea \<Rightarrow> ea option"
  nn_rename :: "netdb \<Rightarrow> ea \<Rightarrow> string \<Rightarrow> bool \<times> netdb"
  nn_set :: "netdb \<Rightarrow> ea \<Rightarrow> bytes \<Rightarrow> bool \<times> netdb"
  nn_set_long :: "netdb \<Rightarrow> ea \<Rightarrow> ea \<Rightarrow> bool \<times> netdb"
  nn_delvalue :: "netdb \<Rightarrow> ea \<Rightarrow> bool \<times> netdb"
  nn_blobsize :: "netdb \<Rightarrow> ea \<Rightarrow> ea \<Rightarrow> char \<Rightarrow> nat"
  nn_getblob :: "netdb \<Rightarrow> ea \<Rightarrow> ea \<Rightarrow> char \<Rightarrow> bytes option"
  nn_setblob :: "netdb \<Rightarrow> ea \<Rightarrow> bytes \<Rightarrow> ea \<Rightarrow> char \<Rightarrow> bool \<times> netdb"
  nn_delblob :: "netdb \<Rightarrow> ea \<Rightarrow> ea \<Rightarrow> char \<Rightarrow> nat \<times> netdb"
  nn_altdel :: "netdb \<Rightarrow> ea \<Rightarrow> ea \<Rightarrow> bool \<times> netdb"
  nn_altlast :: "netdb \<Rightarrow> ea \<Rightarrow> ea"
  nn_altprev :: "netdb \<Rightarrow> ea \<Rightarrow> ea \<Rightarrow> ea"
  nn_altset :: "netdb \<Rightarrow> ea \<Rightarrow> ea \<Rightarrow> ea \<Rightarrow> bool \<times> netdb"
  nn_altval :: "netdb \<Rightarrow> ea \<Rightarrow> ea \<Rightarrow> ea"
  nn_charlast :: "netdb \<Rightarrow> ea \<Rightarrow> ea"
  nn_charprev :: "netdb \<Rightarrow> ea \<Rightarrow> ea \<Rightarrow> ea"
  nn_chardel :: "netdb \<Rightarrow> ea \<Rightarrow> ea \<Rightarrow> bool \<times> netdb"
  nn_charset :: "netdb \<Rightarrow> ea \<Rightarrow> ea \<Rightarrow> char \<Rightarrow> bool \<times> netdb"
  nn_charval :: "netdb \<Rightarrow> ea \<Rightarrow> ea \<Rightarrow> char"
  nn_hashdel :: "netdb \<Rightarrow> ea \<Rightarrow> string \<Rightarrow> bool \<times> netdb"
  nn_hashlast :: "netdb \<Rightarrow> ea \<Rightarrow> string option"
  nn_hashprev :: "netdb \<Rightarrow> ea \<Rightarrow> string option \<Rightarrow> string option"
  nn_hashset :: "netdb \<Rightarrow> ea \<Rightarrow> string \<Rightarrow> bytes \<Rightarrow> bool \<times> netdb"
  nn_hashset_buf :: "netdb \<Rightarrow> ea \<Rightarrow> string \<Rightarrow> bytes \<Rightarrow> bool \<times> netdb"
  nn_hashset_idx :: "netdb \<Rightarrow> ea \<Rightarrow> string \<Rightarrow> ea \<Rightarrow> bool \<times> netdb"
  nn_hashstr :: "netdb \<Rightarrow> ea \<Rightarrow> string \<Rightarrow> string option"
  nn_hashstr_buf :: "netdb \<Rightarrow> ea \<Rightarrow> string \<Rightarrow> bytes option"
  nn_hashval :: "netdb \<Rightarrow> ea \<Rightarrow> string option \<Rightarrow> bytes option"
  nn_hashval_long :: "netdb \<Rightarrow> ea \<Rightarrow> string \<Rightarrow> ea"
  nn_supdel :: "netdb \<Rightarrow> ea \<Rightarrow> ea \<Rightarrow> bool \<times> netdb"
  nn_suplast :: "netdb \<Rightarrow> ea \<Rightarrow> ea"
  nn_supprev :: "netdb \<Rightarrow> ea \<Rightarrow> ea \<Rightarrow> ea"
  nn_supset :: "netdb \<Rightarrow> ea \<Rightarrow> ea \<Rightarrow> bytes \<Rightarrow> bool \<times> netdb"
  nn_supstr :: "netdb \<Rightarrow> ea \<Rightarrow> ea \<Rightarrow> string option"
  nn_supval :: "netdb \<Rightarrow> ea \<Rightarrow> ea \<Rightarrow> bytes option"
  nn_valobj :: "netdb \<Rightarrow> ea \<Rightarrow> bytes option"
  nn_valstr :: "netdb \<Rightarrow> ea \<Rightarrow> string option"
  nn_value_exists :: "netdb \<Rightarrow> ea \<Rightarrow> bool"
  nn_supfirst :: "netdb \<Rightarrow> ea \<Rightarrow> ea"
  nn_supnext :: "netdb \<Rightarrow> ea \<Rightarrow> ea \<Rightarrow> ea"
  nn_hashnext :: "netdb \<Rightarrow> ea \<Rightarrow> string option \<Rightarrow> string option"
  nn_hashfirst :: "netdb \<Rightarrow> ea \<Rightarrow> string option"
  nn_charfirst :: "netdb \<Rightarrow> ea \<Rightarrow> ea"
  nn_charnext :: "netdb \<Rightarrow> ea \<Rightarrow> ea \<Rightarrow> ea"
  nn_name :: "netdb \<Rightarrow> ea \<Rightarrow> string option"
  nn_altfirst :: "netdb \<Rightarrow> ea \<Rightarrow> ea"
  nn_altnext :: "netdb \<Rightarrow> ea \<Rightarrow> ea \<Rightarrow> ea"

text \<open>The class body. \<open>pre_7_0\<close> is the test \<open>idaapi.__version__ < 7.0\<close> of
  line 86, made once when the class is defined.\<close>

definition netnode_class :: "bool \<Rightarrow> netnode_api" where
  "netnode_class pre_7_0 = \<lparr>
     nn_new = netnode_new_named,
     nn_delete = netnode_delete,
     nn_start = netnode_start,
     nn_end = netnode_end,
     nn_index = netnode_index,
     nn_kill = netnode_kill,
     nn_long_value = netnode_long_value,
     nn_next = netnode_next,
     nn_prev = netnode_prev,
     nn_rename = netnode_rename,
     nn_set = netnode_set,
     nn_set_long = netnode_set_long,
     nn_delvalue = netnode_delvalue,
     nn_blobsize = netnode_blobsize,
     nn_getblob = netnode_getblob,
     nn_setblob = netnode_setblob,
     nn_delblob = netnode_delblob,
     nn_altdel = netnode_altdel,
     nn_altlast = netnode_altlast,
     nn_altprev = netnode_altprev,
     nn_altset = netnode_altset,
     nn_altval = netnode_altval,
     nn_charlast = netnode_charlast,
     nn_charprev = netnode_charprev,
     nn_chardel = netnode_chardel,
     nn_charset = netnode_charset,
     nn_charval = netnode_charval,
     nn_hashdel = netnode_hashdel,
     nn_hashlast = netnode_hashlast,
     nn_hashprev = netnode_hashprev,
     nn_hashset = netnode_hashset,
     nn_hashset_buf = netnode_hashset_buf,
     nn_hashset_idx = netnode_hashset_idx,
     nn_hashstr = netnode_hashstr,
     nn_hashstr_buf = netnode_hashstr_buf,
     nn_hashval = netnode_hashval,
     nn_hashval_long = netnode_hashval_long,
     nn_supdel = netnode_supdel,
     nn_suplast = netnode_suplast,
     nn_supprev = netnode_supprev,
     nn_supset = netnode_supset,
     nn_supstr = netnode_supstr,
     nn_supval = netnode_supval,
     nn_valobj = netnode_valobj,
     nn_valstr = netnode_valstr,
     nn_value_exists = netnode_value_exists,
     nn_supfirst = (if pre_7_0 then netnode_sup1st else netnode_supfirst),
     nn_supnext = (if pre_7_0 then netnode_supnxt else netnode_supnext),
     nn_hashnext = (if pre_7_0 then netnode_hashnxt else netnode_hashnext),
     nn_hashfirst = (if pre_7_0 then netnode_hash1st else netnode_hashfirst),
     nn_charfirst = (if pre_7_0 then netnode_char1st else netnode_charfirst),
     nn_charnext = (if pre_7_0 then netnode_charnxt else netnode_charnext),
     nn_name = (if pre_7_0 then netnode_name else netnode_get_name),
     nn_altfirst = (if pre_7_0 then netnode_alt1st else netnode_altfirst),
     nn_altnext = (if pre_7_0 then netnode_altnxt else netnode_altnext)\<rparr>"

text \<open>The class as the module sees it on the IDA versions this development targets
  (7.0 and later).\<close>

definition netnode :: netnode_api where
  "netnode = netnode_class False"

text \<open>Each attribute of \<open>netnode\<close> is the host primitive it names.\<close>

lemma netnode_attrs [simp]:
  shows
    "nn_new netnode = netnode_new_named"
    "nn_delete netnode = netnode_delete"
    "nn_start netnode = netnode_start"
    "nn_end netnode = netnode_end"
    "nn_index netnode = netnode_index"
    "nn_kill netnode = netnode_kill"
    "nn_long_value netnode = netnode_long_value"
    "nn_next netnode = netnode_next"
    "nn_prev netnode = netnode_prev"
    "nn_rename netnode = netnode_rename"
    "nn_set netnode = netnode_set"
    "nn_set_long netnode = netnode_set_long"
    "nn_delvalue netnode = netnode_delvalue"
    "nn_blobsize netnode = netnode_blobsize"
    "nn_getblob netnode = netnode_getblob"
    "nn_setblob netnode = netnode_setblob"
    "nn_delblob netnode = netnode_delblob"
    "nn_altdel netnode = netnode_altdel"
    "nn_altlast netnode = netnode_altlast"
    "nn_altprev netnode = netnode_altprev"
    "nn_altset netnode = netnode_altset"
    "nn_altval netnode = netnode_altval"
    "nn_charlast netnode = netnode_charlast"
    "nn_charprev netnode = netnode_charprev"
    "nn_chardel netnode = netnode_chardel"
    "nn_charset netnode = netnode_charset"
    "nn_charval netnode = netnode_charval"
    "nn_hashdel netnode = netnode_hashdel"
    "nn_hashlast netnode = netnode_hashlast"
    "nn_hashprev netnode = netnode_hashprev"
    "nn_hashset netnode = netnode_hashset"
    "nn_hashset_buf netnode = netnode_hashset_buf"
    "nn_hashset_idx netnode = netnode_hashset_idx"
    "nn_hashstr netnode = netnode_hashstr"
    "nn_hashstr_buf netnode = netnode_hashstr_buf"
    "nn_hashval netnode = netnode_hashval"
    "nn_hashval_long netnode = netnode_hashval_long"
    "nn_supdel netnode = netnode_supdel"
    "nn_suplast netnode = netnode_suplast"
    "nn_supprev netnode = netnode_supprev"
    "nn_supset netnode = netnode_supset"
    "nn_supstr netnode = netnode_supstr"
    "nn_supval netnode = netnode_supval"
    "nn_valobj netnode = netnode_valobj"
    "nn_valstr netnode = netnode_valstr"
    "nn_value_exists netnode = netnode_value_exists"
    "nn_supfirst netnode = netnode_supfirst"
    "nn_supnext netnode = netnode_supnext"
    "nn_hashnext netnode = netnode_hashnext"
    "nn_hashfirst netnode = netnode_hashfirst"
    "nn_charfirst netnode = netnode_charfirst"
    "nn_charnext netnode = netnode_charnext"
    "nn_name netnode = netnode_get_name"
    "nn_altfirst netnode = netnode_altfirst"
    "nn_altnext netnode = netnode_altnext"
  by (simp_all add: netnode_def netnode_class_def)

end
