(* ===== verification/Enumerate.thy ===== *)
theory Enumerate
  imports Binding
begin

text \<open>
  The ordered enumerator, class \<open>utils\<close> of \<open>_netnode.py\<close> (lines 109--233) and the
  module-level node iterators \<open>riter\<close>/\<open>fiter\<close> (lines 349--356).
  A generator is modelled by its run for a number of loop iterations (the fuel): the
  items it yields and whether it returned, raised or is still live (type \<open>gen\<close> of
  the prelude). The four walkers \<open>valfiter\<close>, \<open>valriter\<close>, \<open>hfiter\<close>, \<open>hriter\<close>
  take the primitives as Python callables: \<open>first\<close> and \<open>last\<close> are called with the
  node alone, so a call can raise (\<open>exn + 'k\<close>); the moves and the reader are
  called with the node and a key. The per-namespace instances (\<open>falt\<close> ...
  \<open>rchar\<close>) and the node enumerators pass the attributes of the binding table
  \<open>netnode\<close> of theory \<open>Binding\<close> (\<open>netnode.altfirst\<close> is \<open>nn_altfirst netnode\<close>)
  over a fixed database, the enumeration being a read-only walk over a live view.
  A primitive that needs a key but is called with the node alone raises
  \<open>TypeError\<close> before its body runs: \<open>missing_arg\<close>.
\<close>

definition call1 :: "('n \<Rightarrow> 'k) \<Rightarrow> 'n \<Rightarrow> exn + 'k" where
  "call1 f n = Inr (f n)"

definition missing_arg :: "('n \<Rightarrow> 'a \<Rightarrow> 'b) \<Rightarrow> 'n \<Rightarrow> exn + 'c" where
  "missing_arg f n = Inl TypeError"

text \<open>The loop shared by the four walkers:
  \<open>while start != end: start = next(node, start); yield start, val(node, start)\<close>.\<close>

fun walk :: "nat \<Rightarrow> ('k \<Rightarrow> 'k) \<Rightarrow> ('k \<Rightarrow> 'v) \<Rightarrow> 'k \<Rightarrow> 'k \<Rightarrow> ('k \<times> 'v) gen" where
  "walk 0 nx val stop k = (if k = stop then Stop [] else Pending [])"
| "walk (Suc f) nx val stop k =
     (if k = stop then Stop [] else (let k' = nx k in gen_cons (k', val k') (walk f nx val stop k')))"

definition valfiter :: "nat \<Rightarrow> 'n \<Rightarrow> ('n \<Rightarrow> exn + ea) \<Rightarrow> ('n \<Rightarrow> exn + ea) \<Rightarrow>
    ('n \<Rightarrow> ea \<Rightarrow> ea) \<Rightarrow> ('n \<Rightarrow> ea \<Rightarrow> 'v) \<Rightarrow> (ea \<times> 'v) gen" where
  "valfiter fuel node first lst nxt val =
     (case first node of Inl e \<Rightarrow> Raise e [] | Inr start \<Rightarrow>
      (case lst node of Inl e \<Rightarrow> Raise e [] | Inr end' \<Rightarrow>
        if start = BADADDR then Stop []
        else gen_cons (start, val node start) (walk fuel (nxt node) (val node) end' start)))"

definition valriter :: "nat \<Rightarrow> 'n \<Rightarrow> ('n \<Rightarrow> exn + ea) \<Rightarrow> ('n \<Rightarrow> exn + ea) \<Rightarrow>
    ('n \<Rightarrow> ea \<Rightarrow> ea) \<Rightarrow> ('n \<Rightarrow> ea \<Rightarrow> 'v) \<Rightarrow> (ea \<times> 'v) gen" where
  "valriter fuel node first lst prv val =
     (case first node of Inl e \<Rightarrow> Raise e [] | Inr start \<Rightarrow>
      (case lst node of Inl e \<Rightarrow> Raise e [] | Inr end' \<Rightarrow>
        if end' = BADADDR then Stop []
        else gen_cons (end', val node end') (walk fuel (prv node) (val node) start end')))"

definition hfiter :: "nat \<Rightarrow> 'n \<Rightarrow> ('n \<Rightarrow> exn + 'k) \<Rightarrow> ('n \<Rightarrow> exn + 'k) \<Rightarrow>
    ('n \<Rightarrow> 'k \<Rightarrow> 'k) \<Rightarrow> ('n \<Rightarrow> 'k \<Rightarrow> 'v option) \<Rightarrow> ('k \<times> 'v option) gen" where
  "hfiter fuel node first lst nxt val =
     (case first node of Inl e \<Rightarrow> Raise e [] | Inr start \<Rightarrow>
      (case lst node of Inl e \<Rightarrow> Raise e [] | Inr end' \<Rightarrow>
        if val node start = None then Stop []
        else gen_cons (start, val node start) (walk fuel (nxt node) (val node) end' start)))"

definition hriter :: "nat \<Rightarrow> 'n \<Rightarrow> ('n \<Rightarrow> exn + 'k) \<Rightarrow> ('n \<Rightarrow> exn + 'k) \<Rightarrow>
    ('n \<Rightarrow> 'k \<Rightarrow> 'k) \<Rightarrow> ('n \<Rightarrow> 'k \<Rightarrow> 'v option) \<Rightarrow> ('k \<times> 'v option) gen" where
  "hriter fuel node first lst prv val =
     (case first node of Inl e \<Rightarrow> Raise e [] | Inr start \<Rightarrow>
      (case lst node of Inl e \<Rightarrow> Raise e [] | Inr end' \<Rightarrow>
        if val node start = None then Stop []
        else gen_cons (end', val node end') (walk fuel (prv node) (val node) start end')))"

subsection \<open>The per-namespace walkers, wired as the source wires them\<close>

text \<open>The forward walkers pass \<open>(first, last, next, val)\<close>. The backward walkers
  pass \<open>(first, prev, next, val)\<close> into the parameters \<open>(first, last, prev, val)\<close>:
  the \<open>*prev\<close> primitive is called as \<open>last(node)\<close>, without its key.\<close>

definition falt :: "nat \<Rightarrow> netdb \<Rightarrow> ea \<Rightarrow> (ea \<times> ea) gen" where
  "falt fuel db node = valfiter fuel node (call1 (nn_altfirst netnode db)) (call1 (nn_altlast netnode db))
     (nn_altnext netnode db) (nn_altval netnode db)"

definition ralt :: "nat \<Rightarrow> netdb \<Rightarrow> ea \<Rightarrow> (ea \<times> ea) gen" where
  "ralt fuel db node = valriter fuel node (call1 (nn_altfirst netnode db)) (missing_arg (nn_altprev netnode db))
     (nn_altnext netnode db) (nn_altval netnode db)"

definition fsup :: "nat \<Rightarrow> netdb \<Rightarrow> ea \<Rightarrow> (ea \<times> bytes option) gen" where
  "fsup fuel db node = valfiter fuel node (call1 (nn_supfirst netnode db)) (call1 (nn_suplast netnode db))
     (nn_supnext netnode db) (nn_supval netnode db)"

definition rsup :: "nat \<Rightarrow> netdb \<Rightarrow> ea \<Rightarrow> (ea \<times> bytes option) gen" where
  "rsup fuel db node = valriter fuel node (call1 (nn_supfirst netnode db)) (missing_arg (nn_supprev netnode db))
     (nn_supnext netnode db) (nn_supval netnode db)"

definition fhash :: "nat \<Rightarrow> netdb \<Rightarrow> ea \<Rightarrow> (string option \<times> bytes option) gen" where
  "fhash fuel db node = hfiter fuel node (call1 (nn_hashfirst netnode db)) (call1 (nn_hashlast netnode db))
     (nn_hashnext netnode db) (nn_hashval netnode db)"

definition rhash :: "nat \<Rightarrow> netdb \<Rightarrow> ea \<Rightarrow> (string option \<times> bytes option) gen" where
  "rhash fuel db node = hriter fuel node (call1 (nn_hashfirst netnode db)) (missing_arg (nn_hashprev netnode db))
     (nn_hashnext netnode db) (nn_hashval netnode db)"

definition fchar :: "nat \<Rightarrow> netdb \<Rightarrow> ea \<Rightarrow> (ea \<times> char) gen" where
  "fchar fuel db node = valfiter fuel node (call1 (nn_charfirst netnode db)) (call1 (nn_charlast netnode db))
     (nn_charnext netnode db) (nn_charval netnode db)"

definition rchar :: "nat \<Rightarrow> netdb \<Rightarrow> ea \<Rightarrow> (ea \<times> char) gen" where
  "rchar fuel db node = valriter fuel node (call1 (nn_charfirst netnode db)) (missing_arg (nn_charprev netnode db))
     (nn_charnext netnode db) (nn_charval netnode db)"

subsection \<open>Enumeration of the nodes\<close>

text \<open>\<open>utils.range\<close>: the first and last node numbers, or \<open>NetNodeNotFoundError\<close>.\<close>

definition utils_range :: "netdb \<Rightarrow> exn + ea \<times> ea" where
  "utils_range db =
     (case nn_start netnode db of None \<Rightarrow> Inl NetNodeNotFoundError | Some start \<Rightarrow>
      (case nn_end netnode db of None \<Rightarrow> Inl NetNodeNotFoundError | Some end' \<Rightarrow> Inr (start, end')))"

text \<open>The cursor loop of \<open>fenumerate\<close>/\<open>renumerate\<close>: the cursor is moved, the walk
  breaks when the move fails, and the yielded handle \<open>netnode.new(i)\<close> is the node
  number \<open>i\<close>.\<close>

fun nwalk :: "nat \<Rightarrow> (ea \<Rightarrow> ea option) \<Rightarrow> ea \<Rightarrow> ea \<Rightarrow> (ea \<times> ea) gen" where
  "nwalk 0 mv stop cur = (if cur = stop then Stop [] else Pending [])"
| "nwalk (Suc f) mv stop cur =
     (if cur = stop then Stop []
      else (case mv cur of None \<Rightarrow> Stop [] | Some c \<Rightarrow> gen_cons (c, c) (nwalk f mv stop c)))"

definition fenumerate :: "nat \<Rightarrow> netdb \<Rightarrow> (ea \<times> ea) gen" where
  "fenumerate fuel db =
     (case utils_range db of Inl e \<Rightarrow> Raise e [] | Inr (start, end') \<Rightarrow>
      (case nn_start netnode db of None \<Rightarrow> Raise NetNodeNotFoundError [] | Some _ \<Rightarrow>
        gen_cons (start, start) (nwalk fuel (nn_next netnode db) end' start)))"

definition renumerate :: "nat \<Rightarrow> netdb \<Rightarrow> (ea \<times> ea) gen" where
  "renumerate fuel db =
     (case utils_range db of Inl e \<Rightarrow> Raise e [] | Inr (start, end') \<Rightarrow>
      (case nn_end netnode db of None \<Rightarrow> Raise NetNodeNotFoundError [] | Some _ \<Rightarrow>
        gen_cons (end', end') (nwalk fuel (nn_prev netnode db) start end')))"

definition fiter :: "nat \<Rightarrow> netdb \<Rightarrow> ea gen" where
  "fiter fuel db = gen_map fst (fenumerate fuel db)"

definition riter :: "nat \<Rightarrow> netdb \<Rightarrow> ea gen" where
  "riter fuel db = gen_map fst (renumerate fuel db)"

subsection \<open>The loops walk the key chain\<close>

text \<open>Termination with enough fuel: started at the head of a chain of distinct keys
  and stopping at its last key, the loop yields the rest of the chain, after as
  many iterations as the chain has links.\<close>

lemma walk_chain:
  "distinct (k # ks) \<Longrightarrow> succ_chain nx (k # ks) \<Longrightarrow> length ks \<le> fuel \<Longrightarrow>
   walk fuel nx val (last (k # ks)) k = Stop (map (\<lambda>x. (x, val x)) ks)"
proof (induction ks arbitrary: k fuel)
  case Nil
  then show ?case by (cases fuel) simp_all
next
  case (Cons b ks)
  then obtain f where f: "fuel = Suc f" and len: "length ks \<le> f"
    by (cases fuel) auto
  have ne: "k \<noteq> last (b # ks)"
    using Cons.prems(1) last_in_set [of "b # ks"] by auto
  have "walk f nx val (last (b # ks)) b = Stop (map (\<lambda>x. (x, val x)) ks)"
    using Cons.prems len by (intro Cons.IH) auto
  with ne f Cons.prems(2) show ?case by simp
qed

lemma nwalk_chain:
  "distinct (k # ks) \<Longrightarrow> succ_chain (\<lambda>x. case mv x of None \<Rightarrow> d | Some y \<Rightarrow> y) (k # ks) \<Longrightarrow>
   (\<forall>x \<in> set (butlast (k # ks)). mv x \<noteq> None) \<Longrightarrow> length ks \<le> fuel \<Longrightarrow>
   nwalk fuel mv (last (k # ks)) k = Stop (map (\<lambda>x. (x, x)) ks)"
proof (induction ks arbitrary: k fuel)
  case Nil
  then show ?case by (cases fuel) simp_all
next
  case (Cons b ks)
  then obtain f where f: "fuel = Suc f" and len: "length ks \<le> f"
    by (cases fuel) auto
  have ne: "k \<noteq> last (b # ks)"
    using Cons.prems(1) last_in_set [of "b # ks"] by auto
  from Cons.prems(2,3) have mv: "mv k = Some b"
    by (auto split: option.splits)
  have "nwalk f mv (last (b # ks)) b = Stop (map (\<lambda>x. (x, x)) ks)"
    using Cons.prems len by (intro Cons.IH) auto
  with ne f mv show ?case by simp
qed

subsection \<open>The walkers against their interface\<close>

text \<open>What a walker does for any primitives that present a chain of distinct keys:
  \<open>first\<close> and \<open>last\<close> answer its ends and the move follows it (backwards for the
  reverse walkers).\<close>

lemma valfiter_walks:
  assumes "first n = Inr (hd ks)" "lst n = Inr (last ks)" "ks \<noteq> []" "distinct ks"
    "succ_chain (nxt n) ks" "hd ks \<noteq> BADADDR" "length ks \<le> Suc fuel"
  shows "valfiter fuel n first lst nxt val = Stop (map (\<lambda>k. (k, val n k)) ks)"
proof -
  obtain k ks' where ks: "ks = k # ks'" using assms(3) by (cases ks) auto
  have w: "walk fuel (nxt n) (val n) (last (k # ks')) k = Stop (map (\<lambda>x. (x, val n x)) ks')"
    using assms ks by (intro walk_chain) auto
  show ?thesis
    using assms(1,2,6) ks w by (simp add: valfiter_def del: last.simps)
qed

lemma rev_Cons_ends:
  "rev ks = k # ks' \<Longrightarrow> last ks = k \<and> hd ks = last (k # ks')"
  by (metis last_rev list.sel(1) hd_rev rev_rev_ident)

lemma valriter_walks:
  assumes "first n = Inr (hd ks)" "lst n = Inr (last ks)" "ks \<noteq> []" "distinct ks"
    "succ_chain (prv n) (rev ks)" "last ks \<noteq> BADADDR" "length ks \<le> Suc fuel"
  shows "valriter fuel n first lst prv val = Stop (map (\<lambda>k. (k, val n k)) (rev ks))"
proof -
  obtain k ks' where ks: "rev ks = k # ks'" using assms(3) by (cases "rev ks") auto
  have ends: "last ks = k" "hd ks = last (k # ks')"
    using rev_Cons_ends [OF ks] by auto
  have "distinct (k # ks')" "length ks' \<le> fuel"
    using assms(4,7) ks by (metis distinct_rev, metis length_rev length_Cons Suc_le_mono)
  then have w: "walk fuel (prv n) (val n) (last (k # ks')) k = Stop (map (\<lambda>x. (x, val n x)) ks')"
    using assms(5) ks by (intro walk_chain) auto
  show ?thesis
    using assms(1,2,6) ks ends w by (simp add: valriter_def del: last.simps)
qed

lemma hfiter_walks:
  assumes "first n = Inr (hd ks)" "lst n = Inr (last ks)" "ks \<noteq> []" "distinct ks"
    "succ_chain (nxt n) ks" "val n (hd ks) \<noteq> None" "length ks \<le> Suc fuel"
  shows "hfiter fuel n first lst nxt val = Stop (map (\<lambda>k. (k, val n k)) ks)"
proof -
  obtain k ks' where ks: "ks = k # ks'" using assms(3) by (cases ks) auto
  have w: "walk fuel (nxt n) (val n) (last (k # ks')) k = Stop (map (\<lambda>x. (x, val n x)) ks')"
    using assms ks by (intro walk_chain) auto
  show ?thesis
    using assms(1,2,6) ks w by (simp add: hfiter_def del: last.simps)
qed

lemma hriter_walks:
  assumes "first n = Inr (hd ks)" "lst n = Inr (last ks)" "ks \<noteq> []" "distinct ks"
    "succ_chain (prv n) (rev ks)" "val n (hd ks) \<noteq> None" "length ks \<le> Suc fuel"
  shows "hriter fuel n first lst prv val = Stop (map (\<lambda>k. (k, val n k)) (rev ks))"
proof -
  obtain k ks' where ks: "rev ks = k # ks'" using assms(3) by (cases "rev ks") auto
  have ends: "last ks = k" "hd ks = last (k # ks')"
    using rev_Cons_ends [OF ks] by auto
  have "distinct (k # ks')" "length ks' \<le> fuel"
    using assms(4,7) ks by (metis distinct_rev, metis length_rev length_Cons Suc_le_mono)
  then have w: "walk fuel (prv n) (val n) (last (k # ks')) k = Stop (map (\<lambda>x. (x, val n x)) ks')"
    using assms(5) ks by (intro walk_chain) auto
  show ?thesis
    using assms(1,2,6) ks ends w by (simp add: hriter_def del: last.simps)
qed

subsection \<open>Instances over the host\<close>

lemma not_above_max: "\<not> (BADADDR < (x::ea))"
  by (simp add: not_less)

lemma hd_key_badaddr:
  "keys_sorted ps \<Longrightarrow> ps \<noteq> [] \<Longrightarrow> fst (hd ps) = BADADDR \<Longrightarrow> map fst ps = [BADADDR]"
proof (cases ps)
  case (Cons p ps')
  assume "keys_sorted ps" "fst (hd ps) = BADADDR"
  with Cons have "ps' = []"
    by (cases p; cases ps') (auto simp: keys_sorted_Cons not_above_max)
  with Cons \<open>fst (hd ps) = BADADDR\<close> show ?thesis by simp
qed simp

lemma map_keys_lookup:
  "keys_sorted ps \<Longrightarrow> map (\<lambda>k. (k, f (map_of ps k))) (map fst ps) = map (\<lambda>(k, v). (k, f (Some v))) ps"
  by (auto simp: map_of_sorted_in intro!: map_cong)

lemma valfiter_store:
  assumes srt: "keys_sorted ps" and len: "length ps \<le> Suc fuel"
    and F: "first n = Inr (or_badaddr (store_first ps))"
    and L: "lst n = Inr (or_badaddr (store_last ps))"
    and N: "nxt n = (\<lambda>k. or_badaddr (store_next ps k))"
  shows "valfiter fuel n first lst nxt val =
           Stop (if map fst ps = [BADADDR] then [] else map (\<lambda>k. (k, val n k)) (map fst ps))"
proof (cases "ps = [] \<or> fst (hd ps) = BADADDR")
  case True
  then have "first n = Inr BADADDR" and "map fst ps = [] \<or> map fst ps = [BADADDR]"
    using F srt hd_key_badaddr by (auto simp: or_badaddr_def store_first_keys split: list.splits)
  then show ?thesis
    using L by (auto simp: valfiter_def)
next
  case False
  then have ne: "map fst ps \<noteq> []" and hd: "hd (map fst ps) \<noteq> BADADDR" and nb: "map fst ps \<noteq> [BADADDR]"
    by (auto simp: hd_map)
  have "succ_chain (nxt n) (map fst ps)"
    using succ_chain_store_next [OF srt, of BADADDR] N by (simp add: or_badaddr_def)
  moreover have "first n = Inr (hd (map fst ps))" "lst n = Inr (last (map fst ps))"
    using F L ne by (auto simp: or_badaddr_def store_first_keys store_last_keys split: list.splits)
  ultimately show ?thesis
    using ne hd nb len keys_sorted_distinct [OF srt] by (simp add: valfiter_walks)
qed

lemma hfiter_store:
  assumes srt: "keys_sorted ps" and len: "length ps \<le> Suc fuel"
    and F: "first n = Inr (store_first ps)" and L: "lst n = Inr (store_last ps)"
    and N: "nxt n = (\<lambda>ko. case ko of None \<Rightarrow> None | Some k \<Rightarrow> store_next ps k)"
    and V: "val n = (\<lambda>ko. case ko of None \<Rightarrow> None | Some k \<Rightarrow> map_of ps k)"
  shows "hfiter fuel n first lst nxt val = Stop (map (\<lambda>(k, v). (Some k, Some v)) ps)"
proof (cases "ps = []")
  case True
  then show ?thesis using F V by (simp add: hfiter_def L)
next
  case False
  let ?ks = "map Some (map fst ps)"
  have ch: "succ_chain (\<lambda>k. case store_next ps k of None \<Rightarrow> undefined | Some k' \<Rightarrow> k') (map fst ps)"
    by (rule succ_chain_store_next [OF srt])
  have "succ_chain (nxt n) ?ks"
    using store_next_butlast [OF srt] N
    by (intro succ_chain_map [OF ch]) (auto split: option.splits)
  moreover have "first n = Inr (hd ?ks)" "lst n = Inr (last ?ks)"
    using F L False by (auto simp: store_first_keys store_last_keys hd_map last_map split: list.splits)
  moreover have "val n (hd ?ks) \<noteq> None"
    using V False map_of_sorted_in [OF srt, of "fst (hd ps)" "snd (hd ps)"] by (simp add: hd_map)
  moreover have "distinct ?ks"
    using keys_sorted_distinct [OF srt] by (simp add: distinct_map inj_on_def)
  ultimately have "hfiter fuel n first lst nxt val = Stop (map (\<lambda>k. (k, val n k)) ?ks)"
    using False len by (intro hfiter_walks) auto
  also have "map (\<lambda>k. (k, val n k)) ?ks = map (\<lambda>(k, v). (Some k, Some v)) ps"
    using V map_of_sorted_in [OF srt] by (auto intro!: map_cong)
  finally show ?thesis .
qed

subsection \<open>The walkers on a consistent database\<close>

lemma falt_store:
  "netdb_ok db \<Longrightarrow> length (nd_alt (node_at db n)) \<le> Suc fuel \<Longrightarrow>
   falt fuel db n = Stop (if map fst (nd_alt (node_at db n)) = [BADADDR] then [] else nd_alt (node_at db n))"
  using valfiter_store [of "nd_alt (node_at db n)" fuel "call1 (netnode_altfirst db)" n
      "call1 (netnode_altlast db)" "netnode_altnext db" "netnode_altval db"]
    map_keys_lookup [of "nd_alt (node_at db n)" "\<lambda>r. case r of None \<Rightarrow> 0 | Some v \<Rightarrow> v"]
  by (simp add: falt_def call1_def netnode_altfirst_def netnode_altlast_def netnode_altnext_def
      netnode_altval_def fun_eq_iff node_ok_def)

lemma fsup_store:
  "netdb_ok db \<Longrightarrow> length (nd_sup (node_at db n)) \<le> Suc fuel \<Longrightarrow>
   fsup fuel db n = Stop (if map fst (nd_sup (node_at db n)) = [BADADDR] then []
                          else map (\<lambda>(k, v). (k, Some v)) (nd_sup (node_at db n)))"
  using valfiter_store [of "nd_sup (node_at db n)" fuel "call1 (netnode_supfirst db)" n
      "call1 (netnode_suplast db)" "netnode_supnext db" "netnode_supval db"]
    map_keys_lookup [of "nd_sup (node_at db n)" "\<lambda>r. r"]
  by (simp add: fsup_def call1_def netnode_supfirst_def netnode_suplast_def netnode_supnext_def
      netnode_supval_def fun_eq_iff node_ok_def)

lemma fchar_store:
  "netdb_ok db \<Longrightarrow> length (nd_char (node_at db n)) \<le> Suc fuel \<Longrightarrow>
   fchar fuel db n = Stop (if map fst (nd_char (node_at db n)) = [BADADDR] then [] else nd_char (node_at db n))"
  using valfiter_store [of "nd_char (node_at db n)" fuel "call1 (netnode_charfirst db)" n
      "call1 (netnode_charlast db)" "netnode_charnext db" "netnode_charval db"]
    map_keys_lookup [of "nd_char (node_at db n)" "\<lambda>r. case r of None \<Rightarrow> CHR 0x00 | Some v \<Rightarrow> v"]
  by (simp add: fchar_def call1_def netnode_charfirst_def netnode_charlast_def netnode_charnext_def
      netnode_charval_def fun_eq_iff node_ok_def)

lemma fhash_walk:
  "netdb_ok db \<Longrightarrow> length (nd_hash (node_at db n)) \<le> Suc fuel \<Longrightarrow>
   fhash fuel db n = Stop (map (\<lambda>(k, v). (Some k, Some v)) (nd_hash (node_at db n)))"
  unfolding fhash_def
  by (rule hfiter_store) (auto simp: call1_def netnode_hashfirst_def netnode_hashlast_def
      netnode_hashnext_def netnode_hashval_def fun_eq_iff node_ok_def)

lemma utils_range_nodes:
  "nodes db \<noteq> [] \<Longrightarrow> utils_range db = Inr (hd (map fst (nodes db)), last (map fst (nodes db)))"
  by (auto simp: utils_range_def netnode_start_def netnode_end_def store_first_keys store_last_keys
      split: list.splits)

lemma fenumerate_nodes:
  assumes ok: "netdb_ok db" and ne: "nodes db \<noteq> []" and len: "length (nodes db) \<le> Suc fuel"
  shows "fenumerate fuel db = Stop (map (\<lambda>k. (k, k)) (map fst (nodes db)))"
proof -
  let ?ks = "map fst (nodes db)"
  obtain k ks where ks: "?ks = k # ks" using ne by (cases "nodes db") auto
  have srt: "keys_sorted (nodes db)" using ok by (rule netdb_ok_sorted)
  have "nwalk fuel (netnode_next db) (last (k # ks)) k = Stop (map (\<lambda>x. (x, x)) ks)"
  proof (rule nwalk_chain)
    show "distinct (k # ks)" using keys_sorted_distinct [OF srt] ks by simp
    show "succ_chain (\<lambda>x. case netnode_next db x of None \<Rightarrow> undefined | Some y \<Rightarrow> y) (k # ks)"
      using succ_chain_store_next [OF srt] ks by (simp add: netnode_next_def)
    show "\<forall>x \<in> set (butlast (k # ks)). netnode_next db x \<noteq> None"
      using store_next_butlast [OF srt] ks by (simp add: netnode_next_def del: butlast.simps)
    show "length ks \<le> fuel" using len ks by (metis length_map length_Cons Suc_le_mono)
  qed
  moreover have "netnode_start db = Some k"
    using ks by (simp add: netnode_start_def store_first_keys)
  ultimately show ?thesis
    using ne ks utils_range_nodes [OF ne] by (simp add: fenumerate_def del: last.simps)
qed

lemma renumerate_nodes:
  assumes ok: "netdb_ok db" and ne: "nodes db \<noteq> []" and len: "length (nodes db) \<le> Suc fuel"
  shows "renumerate fuel db = Stop (map (\<lambda>k. (k, k)) (rev (map fst (nodes db))))"
proof -
  let ?ks = "map fst (nodes db)"
  obtain k ks where ks: "rev ?ks = k # ks" using ne by (cases "rev ?ks") auto
  have srt: "keys_sorted (nodes db)" using ok by (rule netdb_ok_sorted)
  have ends: "last ?ks = k" "hd ?ks = last (k # ks)"
    using rev_Cons_ends [OF ks] by auto
  have "nwalk fuel (netnode_prev db) (last (k # ks)) k = Stop (map (\<lambda>x. (x, x)) ks)"
  proof (rule nwalk_chain)
    show "distinct (k # ks)" using keys_sorted_distinct [OF srt] ks by (metis distinct_rev)
    show "succ_chain (\<lambda>x. case netnode_prev db x of None \<Rightarrow> undefined | Some y \<Rightarrow> y) (k # ks)"
      using succ_chain_store_prev [OF srt] ks by (simp add: netnode_prev_def)
    show "\<forall>x \<in> set (butlast (k # ks)). netnode_prev db x \<noteq> None"
      using store_prev_butlast [OF srt] ks by (simp add: netnode_prev_def del: butlast.simps)
    show "length ks \<le> fuel" using len ks by (metis length_map length_rev length_Cons Suc_le_mono)
  qed
  moreover have "netnode_end db \<noteq> None"
    using ne by (simp add: netnode_end_def)
  ultimately show ?thesis
    using ne ks ends utils_range_nodes [OF ne]
    by (auto simp: renumerate_def simp del: last.simps)
qed

subsection \<open>The enumerators of the source\<close>
text \<open>C1. Forward enumeration of a node's alt array (\<open>utils.falt\<close> over
  \<open>utils.valfiter\<close>) returns, once the generator is pulled to the end, exactly the
  stored (index, value) pairs in increasing index order; the walk needs one loop
  iteration less than there are entries. The one exception is the array whose only
  index is \<open>BADADDR\<close>: the sentinel test on the first index makes it look empty.\<close>

theorem falt_enumerates:
  "netdb_ok db \<Longrightarrow> length (nd_alt (node_at db n)) \<le> Suc fuel \<Longrightarrow>
   falt fuel db n = Stop (if map fst (nd_alt (node_at db n)) = [BADADDR] then [] else nd_alt (node_at db n))"
  by (rule falt_store)

text \<open>C2. Every backward enumerator of an array (\<open>utils.ralt\<close>, \<open>rsup\<close>,
  \<open>rhash\<close>, \<open>rchar\<close>) raises \<open>TypeError\<close> on its first pull, before yielding
  anything, whatever the database: each passes its \<open>*prev\<close> primitive in the
  position of \<open>last\<close>, where the walker calls it with the node alone.\<close>

theorem reverse_walkers_raise:
  "ralt fuel db n = Raise TypeError [] \<and> rsup fuel db n = Raise TypeError []
   \<and> rhash fuel db n = Raise TypeError [] \<and> rchar fuel db n = Raise TypeError []"
  by (simp add: ralt_def rsup_def rhash_def rchar_def valriter_def hriter_def call1_def missing_arg_def)

text \<open>C3. Forward enumeration of a node's hash (\<open>utils.fhash\<close> over the
  value-presence walker \<open>utils.hfiter\<close>) returns exactly the stored (key, value)
  pairs in increasing key order, keys and values as the Python objects the
  primitives return; an empty hash yields nothing.\<close>

theorem fhash_enumerates:
  "netdb_ok db \<Longrightarrow> length (nd_hash (node_at db n)) \<le> Suc fuel \<Longrightarrow>
   fhash fuel db n = Stop (map (\<lambda>(k, v). (Some k, Some v)) (nd_hash (node_at db n)))"
  by (rule fhash_walk)

text \<open>C5. Forward enumeration of the nodes (\<open>fiter\<close> over \<open>utils.fenumerate\<close>)
  yields every node number of the database once, in increasing order.\<close>

theorem fiter_nodes:
  assumes ok: "netdb_ok db" and ne: "nodes db \<noteq> []" and len: "length (nodes db) \<le> Suc fuel"
  shows "fiter fuel db = Stop (map fst (nodes db))"
  by (simp add: fiter_def fenumerate_nodes [OF ok ne len] comp_def)

text \<open>C6. Backward enumeration of the nodes (\<open>riter\<close> over \<open>utils.renumerate\<close>)
  yields every node number once, in decreasing order: the reverse of \<open>fiter\<close>.\<close>

theorem riter_nodes:
  assumes ok: "netdb_ok db" and ne: "nodes db \<noteq> []" and len: "length (nodes db) \<le> Suc fuel"
  shows "riter fuel db = Stop (rev (map fst (nodes db)))"
  by (simp add: riter_def renumerate_nodes [OF ok ne len] comp_def)

text \<open>C28. On a database without nodes the node enumerator does not yield an empty
  sequence: \<open>utils.range\<close> raises \<open>NetNodeNotFoundError\<close> at the first pull.\<close>

theorem fiter_empty: "nodes db = [] \<Longrightarrow> fiter fuel db = Raise NetNodeNotFoundError []"
  by (simp add: fiter_def fenumerate_def utils_range_def netnode_start_def)

text \<open>C7. Termination: on a consistent database every generator of class \<open>utils\<close>
  returns or raises once it is pulled for as many loop iterations as its walk has
  entries: the forward array and hash walkers, the backward ones (which raise at
  once), and the node enumerators behind \<open>fiter\<close> and \<open>riter\<close>. None is still
  running at that point.\<close>

theorem enumerators_return:
  assumes ok: "netdb_ok db"
  shows "gen_collect (falt (length (nd_alt (node_at db n))) db n) \<noteq> None
    \<and> gen_collect (fsup (length (nd_sup (node_at db n))) db n) \<noteq> None
    \<and> gen_collect (fhash (length (nd_hash (node_at db n))) db n) \<noteq> None
    \<and> gen_collect (fchar (length (nd_char (node_at db n))) db n) \<noteq> None
    \<and> gen_collect (ralt fuel db n) \<noteq> None \<and> gen_collect (rsup fuel db n) \<noteq> None
    \<and> gen_collect (rhash fuel db n) \<noteq> None \<and> gen_collect (rchar fuel db n) \<noteq> None
    \<and> gen_collect (fiter (length (nodes db)) db) \<noteq> None
    \<and> gen_collect (riter (length (nodes db)) db) \<noteq> None"
proof -
  have fwd: "gen_collect (falt (length (nd_alt (node_at db n))) db n) \<noteq> None
    \<and> gen_collect (fsup (length (nd_sup (node_at db n))) db n) \<noteq> None
    \<and> gen_collect (fhash (length (nd_hash (node_at db n))) db n) \<noteq> None
    \<and> gen_collect (fchar (length (nd_char (node_at db n))) db n) \<noteq> None"
    using falt_store [OF ok] fsup_store [OF ok] fhash_walk [OF ok] fchar_store [OF ok] by simp
  have bwd: "gen_collect (ralt fuel db n) \<noteq> None \<and> gen_collect (rsup fuel db n) \<noteq> None
    \<and> gen_collect (rhash fuel db n) \<noteq> None \<and> gen_collect (rchar fuel db n) \<noteq> None"
    by (simp add: ralt_def rsup_def rhash_def rchar_def valriter_def hriter_def call1_def missing_arg_def)
  have len: "length (nodes db) \<le> Suc (length (nodes db))" by simp
  have "gen_collect (fiter (length (nodes db)) db) \<noteq> None \<and> gen_collect (riter (length (nodes db)) db) \<noteq> None"
  proof (cases "nodes db = []")
    case True
    then show ?thesis
      by (simp add: fiter_def riter_def fenumerate_def renumerate_def utils_range_def netnode_start_def)
  next
    case False
    then show ?thesis
      using fenumerate_nodes [OF ok False len] renumerate_nodes [OF ok False len]
      by (simp add: fiter_def riter_def)
  qed
  then show ?thesis using fwd bwd by blast
qed

theorem falt_enumerates_witness:
  "netdb_ok demo_db \<and> length (nd_alt (node_at demo_db 5)) \<le> Suc 1
   \<and> falt 1 demo_db 5 = Stop [(1, 10), (3, 30)]"
proof -
  have ok: "netdb_ok demo_db" by (rule demo_db_ok)
  have nd: "nd_alt (node_at demo_db 5) = [(1, 10), (3, 30)]"
    by (simp add: demo_db_def node_at_def empty_node_def)
  show ?thesis using falt_enumerates [OF ok, of 5 1] ok nd by simp
qed

theorem fhash_enumerates_witness:
  "netdb_ok demo_db \<and> length (nd_hash (node_at demo_db 5)) \<le> Suc 0
   \<and> fhash 0 demo_db 5 = Stop [(Some ''k1'', Some ''v'')]"
proof -
  have ok: "netdb_ok demo_db" by (rule demo_db_ok)
  have nd: "nd_hash (node_at demo_db 5) = [(''k1'', ''v'')]"
    by (simp add: demo_db_def node_at_def empty_node_def)
  show ?thesis using fhash_enumerates [OF ok, of 5 0] ok nd by simp
qed

theorem fiter_nodes_witness:
  "netdb_ok demo_db \<and> nodes demo_db \<noteq> [] \<and> length (nodes demo_db) \<le> Suc 1
   \<and> fiter 1 demo_db = Stop [5, 7]"
proof -
  have ok: "netdb_ok demo_db" by (rule demo_db_ok)
  have ne: "nodes demo_db \<noteq> []" and len: "length (nodes demo_db) \<le> Suc 1"
    by (simp_all add: demo_db_def)
  have "map fst (nodes demo_db) = [5, 7]"
    by (simp add: demo_db_def)
  then show ?thesis using fiter_nodes [OF ok ne len] ok ne len by simp
qed

theorem riter_nodes_witness:
  "netdb_ok demo_db \<and> nodes demo_db \<noteq> [] \<and> length (nodes demo_db) \<le> Suc 1
   \<and> riter 1 demo_db = Stop [7, 5]"
proof -
  have ok: "netdb_ok demo_db" by (rule demo_db_ok)
  have ne: "nodes demo_db \<noteq> []" and len: "length (nodes demo_db) \<le> Suc 1"
    by (simp_all add: demo_db_def)
  have "map fst (nodes demo_db) = [5, 7]"
    by (simp add: demo_db_def)
  then show ?thesis using riter_nodes [OF ok ne len] ok ne len by simp
qed

theorem fiter_empty_witness:
  "nodes \<lparr>nodes = [], free_id = 0\<rparr> = [] \<and>
   fiter 3 \<lparr>nodes = [], free_id = 0\<rparr> = Raise NetNodeNotFoundError []"
  using fiter_empty [of "\<lparr>nodes = [], free_id = 0\<rparr>" 3] by simp

theorem enumerators_return_witness:
  "netdb_ok demo_db \<and> gen_collect (falt (length (nd_alt (node_at demo_db 5))) demo_db 5) \<noteq> None
   \<and> gen_collect (fiter (length (nodes demo_db)) demo_db) \<noteq> None"
  using enumerators_return [OF demo_db_ok, of 5 0] demo_db_ok by blast

end
