(* ===== verification/Nodes.thy ===== *)
theory Nodes
  imports Host
begin

text \<open>
  The node registry of \<open>_netnode.py\<close>: \<open>new\<close>, \<open>get\<close> and \<open>remove\<close> (lines
  235--250) and class \<open>name\<close> (lines 253--263). A name goes through
  \<open>internal.utils.string.to\<close> before it reaches the host; that helper is not under
  \<open>src/\<close> and is modelled from its use: a \<open>str\<close> passes unchanged, a \<open>unicode\<close> is
  encoded (its characters are already bytes here), anything else is refused with
  \<open>TypeError\<close>. \<open>internal.utils.string.of\<close> returns the host's answer unchanged.
\<close>

definition utils_string_to :: "pyval \<Rightarrow> exn + string" where
  "utils_string_to v = (case v of PyStr s \<Rightarrow> Inr s | PyUnicode u \<Rightarrow> Inr u | _ \<Rightarrow> Inl TypeError)"

definition utils_string_of :: "string option \<Rightarrow> string option" where
  "utils_string_of r = r"

text \<open>\<open>new(name)\<close>: the node of that name, created if absent.\<close>

definition new :: "netdb \<Rightarrow> pyval \<Rightarrow> exn + ea \<times> netdb" where
  "new db name =
     (case utils_string_to name of Inl e \<Rightarrow> Inl e | Inr res \<Rightarrow> Inr (netnode_new_named db res True))"

text \<open>\<open>get(name)\<close>: an integer is taken as the node number (through SWIG's
  conversion to \<open>nodeidx_t\<close>) and returned as it is; a name is looked up without
  creating, and an absent name gives \<open>BADNODE\<close>.\<close>

definition get :: "netdb \<Rightarrow> pyval \<Rightarrow> exn + ea" where
  "get db name =
     (if sub_integer_types (class_of name) then swig_ea name
      else (case utils_string_to name of Inl e \<Rightarrow> Inl e
            | Inr res \<Rightarrow> Inr (fst (netnode_new_named db res False))))"

definition remove :: "netdb \<Rightarrow> ea \<Rightarrow> netdb" where
  "remove db nodeidx = netnode_kill db nodeidx"

definition name_get :: "netdb \<Rightarrow> ea \<Rightarrow> string option" where
  "name_get db nodeidx = utils_string_of (netnode_get_name db nodeidx)"

definition name_set :: "netdb \<Rightarrow> ea \<Rightarrow> pyval \<Rightarrow> exn + bool \<times> netdb" where
  "name_set db nodeidx string =
     (case utils_string_to string of Inl e \<Rightarrow> Inl e | Inr res \<Rightarrow> Inr (netnode_rename db nodeidx res))"

lemma find_named_free_id [simp]: "find_named (db\<lparr>free_id := x\<rparr>) s = find_named db s"
  by (simp add: find_named_def)

lemma find_named_put_new:
  assumes "find_named db s = None" "nd_name d = Some s" "i \<noteq> BADADDR" "d \<noteq> empty_node"
  shows "find_named (put_node db i d) s = Some i"
proof -
  have "\<forall>p \<in> set (nodes db). \<not> nd_name (snd p) = Some s"
    using assms(1) by (auto simp: find_named_def filter_empty_conv)
  then have "filter (\<lambda>p. nd_name (snd p) = Some s) (store_put i d (nodes db)) = [(i, d)]"
    using assms(2) by (intro filter_store_put_only) auto
  then show ?thesis
    using assms(3,4) by (simp add: find_named_def put_node_def)
qed

lemma alloc_id_fresh:
  assumes ok: "netdb_ok db"
  shows "alloc_id db \<notin> fst ` set (nodes db)"
proof (cases "nodes db = []")
  case True
  then show ?thesis by simp
next
  case False
  let ?l = "last (map fst (nodes db))"
  have srt: "keys_sorted (nodes db)" using ok by (rule netdb_ok_sorted)
  have "?l \<in> fst ` set (nodes db)" using False by (simp add: last_map)
  then have nb: "?l \<noteq> BADADDR" using ok by (auto simp: netdb_ok_def)
  then have lt: "?l < ?l + 1" using inc_less_eq_self_iff_eq [of ?l] by (simp add: not_le)
  have le: "\<forall>k \<in> fst ` set (nodes db). k \<le> ?l"
    using keys_le_last [OF srt] by blast
  have al: "alloc_id db = (if ?l < free_id db then free_id db else ?l + 1)"
    using False by (simp add: alloc_id_def store_last_keys)
  have "\<forall>k \<in> fst ` set (nodes db). k < alloc_id db"
    using le lt al by (auto intro: le_less_trans)
  then show ?thesis by blast
qed

text \<open>C16. Spec 8, first property: after \<open>new(name)\<close> returns a node number,
  \<open>get(name)\<close> and \<open>get\<close> of that number both return the same number.\<close>

theorem new_then_get:
  "new db (PyStr s) = Inr (i, db') \<Longrightarrow> get db' (PyStr s) = Inr i \<and> get db' (PyInt (uint i)) = Inr i"
proof -
  assume n: "new db (PyStr s) = Inr (i, db')"
  have byname: "fst (netnode_new_named db' s False) = i"
  proof (cases "find_named db s")
    case None
    show ?thesis
    proof (cases "alloc_id db = BADADDR")
      case True
      then show ?thesis using n None by (simp add: new_def utils_string_to_def netnode_new_named_def)
    next
      case False
      let ?d = "empty_node\<lparr>nd_name := Some s\<rparr>"
      have "?d \<noteq> empty_node" by (simp add: empty_node_def)
      then have "find_named (put_node db (alloc_id db) ?d) s = Some (alloc_id db)"
        using None False by (intro find_named_put_new) auto
      then show ?thesis
        using n None False by (auto simp: new_def utils_string_to_def netnode_new_named_def Let_def)
    qed
  next
    case (Some j)
    then show ?thesis using n by (simp add: new_def utils_string_to_def netnode_new_named_def)
  qed
  have "swig_ea (PyInt (uint i)) = Inr i"
    using uint_lt2p [of i] by (simp add: swig_ea_def)
  with byname show ?thesis
    by (simp add: get_def utils_string_to_def)
qed

text \<open>C29. \<open>get(name)\<close> of a name no node carries does not raise: it returns
  \<open>BADNODE\<close>.\<close>

theorem get_missing_name: "find_named db s = None \<Longrightarrow> get db (PyStr s) = Inr BADADDR"
  by (simp add: get_def utils_string_to_def netnode_new_named_def)

text \<open>C30. \<open>get\<close> of an integer returns that number whatever the database holds:
  the node's existence is not checked.\<close>

theorem get_index_unchecked: "0 \<le> n \<Longrightarrow> n < 2 ^ 64 \<Longrightarrow> get db (PyInt n) = Inr (word_of_int n)"
  by (simp add: get_def swig_ea_def)

text \<open>C31. \<open>remove(nodeidx)\<close> empties the node (name, value and every array) and
  leaves every other node as it was.\<close>

theorem remove_kills:
  "netdb_ok db \<Longrightarrow> node_at (remove db i) i = empty_node \<and> (\<forall>j. j \<noteq> i \<longrightarrow> node_at (remove db i) j = node_at db j)"
  by (cases "i = BADADDR") (simp_all add: remove_def netnode_kill_def node_at_put netdb_ok_sorted)

text \<open>C17. \<open>new\<close> of a name no node carries, while the host has a free node number,
  creates a node: it returns a real node number (not \<open>BADNODE\<close>) that was not in
  use, the database's nodes become the old ones and that number, and the new node
  carries the name.\<close>

theorem new_fresh:
  assumes ok: "netdb_ok db" and none: "find_named db s = None" and free: "alloc_id db \<noteq> BADADDR"
  shows "\<exists>i db'. new db (PyStr s) = Inr (i, db') \<and> i \<noteq> BADADDR \<and> i \<notin> fst ` set (nodes db)
           \<and> fst ` set (nodes db') = insert i (fst ` set (nodes db)) \<and> name_get db' i = Some s"
proof -
  let ?i = "alloc_id db"
  let ?db' = "(put_node db ?i (empty_node\<lparr>nd_name := Some s\<rparr>))\<lparr>free_id := ?i + 1\<rparr>"
  have n: "new db (PyStr s) = Inr (?i, ?db')"
    using none free by (simp add: new_def utils_string_to_def netnode_new_named_def Let_def)
  have ne: "empty_node\<lparr>nd_name := Some s\<rparr> \<noteq> empty_node" by (simp add: empty_node_def)
  have keys: "fst ` set (nodes ?db') = insert ?i (fst ` set (nodes db))"
    using free ne by (simp add: put_node_def set_store_put_keys)
  have "name_get ?db' ?i = Some s"
    using free ok by (simp add: name_get_def utils_string_of_def netnode_get_name_def node_at_put netdb_ok_sorted)
  then show ?thesis using n free keys alloc_id_fresh [OF ok] by blast
qed

text \<open>C32. Round trip of \<open>name.set\<close>/\<open>name.get\<close>: naming a node with a name no
  node carries succeeds and the node then reads back that name.\<close>

theorem name_roundtrip:
  assumes ok: "netdb_ok db" and i: "nodeidx \<noteq> BADADDR" and none: "find_named db s = None"
  shows "\<exists>db'. name_set db nodeidx (PyStr s) = Inr (True, db') \<and> name_get db' nodeidx = Some s"
  using ok i none
  by (simp add: name_set_def name_get_def utils_string_to_def utils_string_of_def netnode_rename_def
      netnode_get_name_def upd_node_def node_at_put netdb_ok_sorted)

theorem new_then_get_witness:
  "\<exists>i db'. new demo_db (PyStr ''alpha'') = Inr (i, db')
     \<and> get db' (PyStr ''alpha'') = Inr i \<and> get db' (PyInt (uint i)) = Inr i"
proof -
  obtain i db' where n: "new demo_db (PyStr ''alpha'') = Inr (i, db')"
    by (cases "netnode_new_named demo_db ''alpha'' True") (simp add: new_def utils_string_to_def)
  then show ?thesis using new_then_get [OF n] by blast
qed

lemma demo_find_alpha: "find_named demo_db ''alpha'' = None"
  by (simp add: find_named_def demo_db_def empty_node_def)

theorem get_missing_name_witness:
  "find_named demo_db ''alpha'' = None \<and> get demo_db (PyStr ''alpha'') = Inr BADADDR"
  using get_missing_name [OF demo_find_alpha] demo_find_alpha by simp

theorem get_index_unchecked_witness:
  "0 \<le> (12345::int) \<and> (12345::int) < 2 ^ 64 \<and> get demo_db (PyInt 12345) = Inr 12345"
  using get_index_unchecked [of 12345 demo_db] by simp

theorem remove_kills_witness:
  "netdb_ok demo_db \<and> node_at (remove demo_db 5) 5 = empty_node
   \<and> node_at (remove demo_db 5) 7 = node_at demo_db 7"
  using remove_kills [OF demo_db_ok, of 5] demo_db_ok by simp

theorem new_fresh_witness:
  "netdb_ok demo_db \<and> find_named demo_db ''alpha'' = None \<and> alloc_id demo_db \<noteq> BADADDR
   \<and> (\<exists>i db'. new demo_db (PyStr ''alpha'') = Inr (i, db') \<and> i \<noteq> BADADDR \<and> i \<notin> fst ` set (nodes demo_db)
        \<and> fst ` set (nodes db') = insert i (fst ` set (nodes demo_db)) \<and> name_get db' i = Some ''alpha'')"
proof -
  have a: "alloc_id demo_db \<noteq> BADADDR" by (simp add: alloc_id_def demo_db_def store_last_def)
  show ?thesis using new_fresh [OF demo_db_ok demo_find_alpha a] demo_db_ok demo_find_alpha a by simp
qed

theorem name_roundtrip_witness:
  "netdb_ok demo_db \<and> (7::ea) \<noteq> BADADDR \<and> find_named demo_db ''alpha'' = None
   \<and> (\<exists>db'. name_set demo_db 7 (PyStr ''alpha'') = Inr (True, db') \<and> name_get db' 7 = Some ''alpha'')"
  using name_roundtrip [OF demo_db_ok _ demo_find_alpha, of 7] demo_db_ok demo_find_alpha by simp

lemma name_set_frame:
  "name_set db i s = Inr r \<Longrightarrow> netdb_ok db \<Longrightarrow> j \<noteq> i \<Longrightarrow> node_at (snd r) j = node_at db j"
  by (auto simp: name_set_def writes_frame netdb_ok_sorted split: sum.splits)

end
