(* ===== verification/Value.thy ===== *)
theory Value
  imports Host
begin

text \<open>
  Class \<open>value\<close> of \<open>_netnode.py\<close> (lines 266--315): the optional value of a node.
  The getter dispatches on the class it is given (\<open>type\<close>) in the order of the source:
  \<open>None\<close>, a subclass of \<open>memoryview\<close>, of \<open>bytes\<close> (Python 2 \<open>str\<close>), of
  \<open>six.string_types\<close>, of \<open>six.integer_types\<close>; any other class raises
  \<open>InvalidTypeOrValueError\<close> and a non-class makes \<open>issubclass\<close> raise
  \<open>TypeError\<close>. The setter dispatches on the class of the value with \<open>isinstance\<close>
  in the same order. Each wrapper first makes the handle \<open>netnode.new(nodeidx)\<close>,
  which is the node number.
\<close>

definition value_exists :: "netdb \<Rightarrow> ea \<Rightarrow> bool" where
  "value_exists db nodeidx \<longleftrightarrow> netnode_value_exists db nodeidx"

definition value_get :: "netdb \<Rightarrow> ea \<Rightarrow> pytype \<Rightarrow> exn + pyval" where
  "value_get db nodeidx ty =
     (if \<not> netnode_value_exists db nodeidx then Inr PyNone
      else (case ty of
        TyNone \<Rightarrow> Inr (opt_str (netnode_valobj db nodeidx))
      | TyNotAClass \<Rightarrow> Inl TypeError
      | TyClass c \<Rightarrow>
          if sub_memoryview c then Inr (py_and_str (netnode_valobj db nodeidx) PyMemview)
          else if sub_bytes c then Inr (py_and_str (netnode_valstr db nodeidx) PyStr)
          else if sub_string_types c then Inr (opt_str (netnode_valstr db nodeidx))
          else if sub_integer_types c then Inr (py_of_ea (netnode_long_value db nodeidx))
          else Inl InvalidTypeOrValueError))"

text \<open>The \<open>memoryview\<close> branch calls \<open>netnode.set(nodeidx, ...)\<close> with the node
  number, a Python integer, where SWIG expects a \<open>netnode\<close> object for \<open>self\<close>:
  the call raises \<open>TypeError\<close>.\<close>

definition value_set :: "netdb \<Rightarrow> ea \<Rightarrow> pyval \<Rightarrow> exn + bool \<times> netdb" where
  "value_set db nodeidx v =
     (let c = class_of v in
      if sub_memoryview c then Inl TypeError
      else if sub_bytes c then map_sum id (netnode_set db nodeidx) (swig_buf v)
      else if sub_string_types c then map_sum id (netnode_set db nodeidx) (swig_buf v)
      else if sub_integer_types c then map_sum id (netnode_set_long db nodeidx) (swig_ea v)
      else Inl InvalidTypeOrValueError)"

text \<open>\<open>value.remove(nodeidx, value)\<close> ignores its second argument.\<close>

definition value_remove :: "netdb \<Rightarrow> ea \<Rightarrow> pyval \<Rightarrow> bool \<times> netdb" where
  "value_remove db nodeidx v = netnode_delvalue db nodeidx"

lemma node_at_netnode_set:
  "keys_sorted (nodes db) \<Longrightarrow> i \<noteq> BADADDR \<Longrightarrow>
   nd_value (node_at (snd (netnode_set db i bs)) i) = Some bs"
  by (simp add: netnode_set_def upd_node_eq)

text \<open>C11. Round trip and width of the integer path: storing a Python \<open>int\<close> that fits
  in 64 unsigned bits with \<open>value.set\<close> succeeds, and \<open>value.get(..., type=int)\<close>
  reads back the same number (as \<open>int\<close> below \<open>2^63\<close>, as \<open>long\<close> above).\<close>

theorem value_roundtrip_int:
  assumes ok: "netdb_ok db" and i: "nodeidx \<noteq> BADADDR" and lo: "0 \<le> n" and hi: "n < 2 ^ 64"
  shows "\<exists>db'. value_set db nodeidx (PyInt n) = Inr (True, db')
           \<and> value_get db' nodeidx (TyClass CInt) = Inr (if n < 2 ^ 63 then PyInt n else PyLong n)"
proof -
  let ?db' = "snd (netnode_set_long db nodeidx (word_of_int n))"
  have set: "value_set db nodeidx (PyInt n) = Inr (True, ?db')"
    using lo hi i by (simp add: value_set_def swig_ea_def netnode_set_long_def netnode_set_def upd_node_def)
  have v: "nd_value (node_at ?db' nodeidx) = Some (pack_ea (word_of_int n))"
    using ok i by (simp add: netnode_set_long_def node_at_netnode_set netdb_ok_sorted)
  have "pack_ea (word_of_int n) \<noteq> []"
    using length_pack_ea [of "word_of_int n"] by (metis list.size(3) zero_neq_numeral)
  then have "value_get ?db' nodeidx (TyClass CInt) = Inr (py_of_ea (word_of_int n))"
    using v by (simp add: value_get_def netnode_value_exists_def netnode_long_value_def)
  with set show ?thesis
    using py_of_ea_word_of_int [OF lo hi] by auto
qed

text \<open>C12. Round trip of the byte-string path: after \<open>value.set\<close> of a \<open>str\<close>,
  \<open>value.get\<close> with no type returns the same bytes, and with \<open>type=memoryview\<close> a
  memoryview of them, except for the empty string, which comes back as the empty
  \<open>str\<close> (\<open>res and memoryview(res)\<close>).\<close>

theorem value_roundtrip_str:
  assumes ok: "netdb_ok db" and i: "nodeidx \<noteq> BADADDR"
  shows "\<exists>db'. value_set db nodeidx (PyStr s) = Inr (True, db')
           \<and> value_get db' nodeidx TyNone = Inr (PyStr s)
           \<and> value_get db' nodeidx (TyClass CMemoryview) = Inr (if s = [] then PyStr [] else PyMemview s)"
proof -
  let ?db' = "snd (netnode_set db nodeidx s)"
  have set: "value_set db nodeidx (PyStr s) = Inr (True, ?db')"
    using i by (simp add: value_set_def swig_buf_def netnode_set_def upd_node_def)
  have v: "nd_value (node_at ?db' nodeidx) = Some s"
    using ok i by (simp add: node_at_netnode_set netdb_ok_sorted)
  with set show ?thesis
    by (simp add: value_get_def netnode_value_exists_def netnode_valobj_def opt_str_def py_and_str_def)
qed

text \<open>C10. \<open>value.set\<close> of a \<open>memoryview\<close> always raises \<open>TypeError\<close> and stores
  nothing: its branch passes the node number instead of the node handle.\<close>

theorem value_set_memoryview_raises: "value_set db nodeidx (PyMemview s) = Inl TypeError"
  by (simp add: value_set_def)

text \<open>A node without a value reads as \<open>None\<close> for every requested type,
  including unsupported types and non-classes: absence is checked first.\<close>

theorem value_get_absent: "\<not> value_exists db nodeidx \<Longrightarrow> value_get db nodeidx ty = Inr PyNone"
  by (simp add: value_exists_def value_get_def)

text \<open>A node with a value, read with a class outside \<open>memoryview\<close>, \<open>bytes\<close>,
  the string types and the integer types, raises \<open>InvalidTypeOrValueError\<close>.\<close>

theorem value_get_unsupported:
  "value_exists db nodeidx \<Longrightarrow> c \<notin> {CMemoryview, CStr, CUnicode, CBasestring, CInt, CLong, CBool} \<Longrightarrow>
   value_get db nodeidx (TyClass c) = Inl InvalidTypeOrValueError"
  by (simp add: value_exists_def value_get_def)

text \<open>C33. After \<open>value.remove\<close> the node has no value, whether it had one or not.\<close>

theorem value_remove_clears: "netdb_ok db \<Longrightarrow> \<not> value_exists (snd (value_remove db nodeidx v)) nodeidx"
  by (cases "nodeidx = BADADDR")
    (simp_all add: value_exists_def value_remove_def netnode_delvalue_def netnode_value_exists_def
       upd_node_eq netdb_ok_sorted empty_node_def)

text \<open>C27. \<open>value.set\<close> of a Python integer outside \<open>[0, 2^64)\<close> raises
  \<open>OverflowError\<close> at the conversion to \<open>nodeidx_t\<close> and stores nothing.\<close>

theorem value_set_int_overflow:
  "n < 0 \<or> 2 ^ 64 \<le> n \<Longrightarrow> value_set db nodeidx (PyInt n) = Inl OverflowError"
  by (auto simp: value_set_def swig_ea_def)

theorem value_roundtrip_int_witness:
  "netdb_ok demo_db \<and> (9::ea) \<noteq> BADADDR \<and> 0 \<le> (42::int) \<and> (42::int) < 2 ^ 64 \<and>
   (\<exists>db'. value_set demo_db 9 (PyInt 42) = Inr (True, db') \<and> value_get db' 9 (TyClass CInt) = Inr (PyInt 42))"
  using value_roundtrip_int [OF demo_db_ok, of 9 42] demo_db_ok by simp

theorem value_roundtrip_str_witness:
  "netdb_ok demo_db \<and> (9::ea) \<noteq> BADADDR \<and>
   (\<exists>db'. value_set demo_db 9 (PyStr ''abc'') = Inr (True, db')
      \<and> value_get db' 9 TyNone = Inr (PyStr ''abc'')
      \<and> value_get db' 9 (TyClass CMemoryview) = Inr (PyMemview ''abc''))"
  using value_roundtrip_str [OF demo_db_ok, of 9 "''abc''"] demo_db_ok by simp

theorem value_get_absent_witness:
  "\<not> value_exists demo_db 5 \<and> value_get demo_db 5 (TyClass CFloat) = Inr PyNone"
proof -
  have "\<not> value_exists demo_db 5"
    by (simp add: value_exists_def netnode_value_exists_def demo_db_def node_at_def empty_node_def)
  then show ?thesis using value_get_absent [of demo_db 5 "TyClass CFloat"] by simp
qed

theorem value_get_unsupported_witness:
  "value_exists demo_db 7 \<and> CFloat \<notin> {CMemoryview, CStr, CUnicode, CBasestring, CInt, CLong, CBool}
   \<and> value_get demo_db 7 (TyClass CFloat) = Inl InvalidTypeOrValueError"
proof -
  have "value_exists demo_db 7"
    by (simp add: value_exists_def netnode_value_exists_def demo_db_def node_at_def empty_node_def)
  then show ?thesis using value_get_unsupported [of demo_db 7 CFloat] by simp
qed

theorem value_remove_clears_witness:
  "netdb_ok demo_db \<and> \<not> value_exists (snd (value_remove demo_db 7 PyNone)) 7"
  using value_remove_clears [OF demo_db_ok, of 7 PyNone] demo_db_ok by simp

theorem value_set_int_overflow_witness:
  "((-1::int) < 0 \<or> 2 ^ 64 \<le> (-1::int)) \<and> value_set demo_db 7 (PyInt (-1)) = Inl OverflowError"
  using value_set_int_overflow [of "-1" demo_db 7] by simp

lemma value_set_frame:
  "value_set db i v = Inr r \<Longrightarrow> netdb_ok db \<Longrightarrow> j \<noteq> i \<Longrightarrow> node_at (snd r) j = node_at db j"
  by (auto simp: value_set_def Let_def writes_frame netdb_ok_sorted split: if_splits pyval.splits)

end
