(* ===== verification/Blob.thy ===== *)
theory Blob
  imports Host
begin

text \<open>
  Class \<open>blob\<close> of \<open>_netnode.py\<close> (lines 318--346): byte strings stored at a start
  index and a tag of a node. The getter asks the host for the blob's size and for its
  raw bytes, which the host may return padded (theory \<open>Host\<close>: whole
  \<open>MAXSPECSIZE\<close> chunks), and cuts the raw bytes to the size. The setter passes a
  \<open>memoryview\<close> as its bytes and any other value to SWIG's buffer conversion.
\<close>

definition blob_get :: "netdb \<Rightarrow> ea \<Rightarrow> char \<Rightarrow> ea \<Rightarrow> bytes option" where
  "blob_get db nodeidx tag start =
     (let sz = netnode_blobsize db nodeidx start tag;
          res = netnode_getblob db nodeidx start tag
      in case res of None \<Rightarrow> None | Some r \<Rightarrow> Some (take sz r))"

definition blob_set :: "netdb \<Rightarrow> ea \<Rightarrow> char \<Rightarrow> pyval \<Rightarrow> ea \<Rightarrow> exn + bool \<times> netdb" where
  "blob_set db nodeidx tag value start =
     map_sum id (\<lambda>bs. netnode_setblob db nodeidx bs start tag)
       (case value of PyMemview bs \<Rightarrow> Inr bs | _ \<Rightarrow> swig_buf value)"

definition blob_remove :: "netdb \<Rightarrow> ea \<Rightarrow> char \<Rightarrow> ea \<Rightarrow> nat \<times> netdb" where
  "blob_remove db nodeidx tag start = netnode_delblob db nodeidx start tag"

definition blob_size :: "netdb \<Rightarrow> ea \<Rightarrow> char \<Rightarrow> ea \<Rightarrow> nat" where
  "blob_size db nodeidx tag start = netnode_blobsize db nodeidx start tag"

text \<open>C14. Spec 4.7 and 8: \<open>blob.get\<close> returns exactly \<open>blob.size\<close> bytes (and
  \<open>None\<close> only when the size is 0), namely the stored bytes, although the host's raw
  read is padded to whole chunks: the cut \<open>res[:sz]\<close> removes the padding.\<close>

theorem blob_get_size:
  "(case blob_get db nodeidx tag start of
      None \<Rightarrow> blob_size db nodeidx tag start = 0
    | Some bs \<Rightarrow> length bs = blob_size db nodeidx tag start)
   \<and> blob_get db nodeidx tag start = map_of (nd_blob (node_at db nodeidx)) (start, tag)"
  by (simp add: blob_get_def blob_size_def netnode_blobsize_def netnode_getblob_def split: option.splits)

text \<open>C15. Round trip: \<open>blob.set\<close> of a \<open>str\<close> or of a \<open>memoryview\<close> of the same
  bytes stores them, and \<open>blob.get\<close> and \<open>blob.size\<close> then return those bytes and
  their length, whatever the chunking.\<close>

theorem blob_roundtrip:
  assumes ok: "netdb_ok db" and i: "nodeidx \<noteq> BADADDR"
  shows "\<exists>db'. blob_set db nodeidx tag (PyStr bs) start = Inr (True, db')
           \<and> blob_set db nodeidx tag (PyMemview bs) start = Inr (True, db')
           \<and> blob_get db' nodeidx tag start = Some bs \<and> blob_size db' nodeidx tag start = length bs"
proof -
  let ?db' = "snd (netnode_setblob db nodeidx bs start tag)"
  have "map_of (nd_blob (node_at ?db' nodeidx)) (start, tag) = Some bs"
    using ok i by (simp add: netnode_setblob_def upd_node_eq netdb_ok_sorted)
  then show ?thesis
    using i by (simp add: blob_set_def swig_buf_def netnode_setblob_def upd_node_def blob_get_def
        blob_size_def netnode_blobsize_def netnode_getblob_def)
qed

text \<open>After \<open>blob.remove\<close> the blob at that start and tag has size 0 and reads
  as \<open>None\<close>.\<close>

theorem blob_remove_clears:
  "netdb_ok db \<Longrightarrow> blob_size (snd (blob_remove db nodeidx tag start)) nodeidx tag start = 0
     \<and> blob_get (snd (blob_remove db nodeidx tag start)) nodeidx tag start = None"
  by (cases "nodeidx = BADADDR")
    (simp_all add: blob_remove_def netnode_delblob_def blob_size_def netnode_blobsize_def blob_get_def
       netnode_getblob_def upd_node_eq netdb_ok_sorted empty_node_def)

theorem blob_roundtrip_witness:
  "netdb_ok demo_db \<and> (5::ea) \<noteq> BADADDR \<and>
   (\<exists>db'. blob_set demo_db 5 (CHR ''A'') (PyStr (replicate 2000 (CHR ''x''))) 0 = Inr (True, db')
      \<and> blob_set demo_db 5 (CHR ''A'') (PyMemview (replicate 2000 (CHR ''x''))) 0 = Inr (True, db')
      \<and> blob_get db' 5 (CHR ''A'') 0 = Some (replicate 2000 (CHR ''x''))
      \<and> blob_size db' 5 (CHR ''A'') 0 = 2000)"
  using blob_roundtrip [OF demo_db_ok, of 5 "CHR ''A''" "replicate 2000 (CHR ''x'')" 0] demo_db_ok by simp

theorem blob_remove_clears_witness:
  "netdb_ok demo_db \<and> blob_size (snd (blob_remove demo_db 5 (CHR ''A'') 0)) 5 (CHR ''A'') 0 = 0
   \<and> blob_get (snd (blob_remove demo_db 5 (CHR ''A'') 0)) 5 (CHR ''A'') 0 = None"
  using blob_remove_clears [OF demo_db_ok, of 5 "CHR ''A''" 0] demo_db_ok by simp

lemma blob_set_frame:
  "blob_set db i t v st = Inr r \<Longrightarrow> netdb_ok db \<Longrightarrow> j \<noteq> i \<Longrightarrow> node_at (snd r) j = node_at db j"
  by (auto simp: blob_set_def writes_frame netdb_ok_sorted split: pyval.splits)

end
