(* ===== verification/Arrays.thy ===== *)
theory Arrays
  imports Enumerate
begin

text \<open>
  Classes \<open>alt\<close> (lines 359--397) and \<open>sup\<close> (lines 400--451) of \<open>_netnode.py\<close>:
  the sparse integer array and the sparse array of byte strings of a node. Their
  iterators are the forward and backward walkers of theory \<open>Enumerate\<close>
  (\<open>sup.fiter\<close> keeps only the indices). Their \<open>repr\<close> methods are in theory
  \<open>Repr\<close>.
\<close>

definition alt_get :: "netdb \<Rightarrow> ea \<Rightarrow> ea \<Rightarrow> ea" where
  "alt_get db nodeidx idx = netnode_altval db nodeidx idx"

definition alt_set :: "netdb \<Rightarrow> ea \<Rightarrow> ea \<Rightarrow> ea \<Rightarrow> bool \<times> netdb" where
  "alt_set db nodeidx idx value = netnode_altset db nodeidx idx value"

definition alt_remove :: "netdb \<Rightarrow> ea \<Rightarrow> ea \<Rightarrow> bool \<times> netdb" where
  "alt_remove db nodeidx idx = netnode_altdel db nodeidx idx"

definition alt_fiter :: "nat \<Rightarrow> netdb \<Rightarrow> ea \<Rightarrow> (ea \<times> ea) gen" where
  "alt_fiter fuel db nodeidx = falt fuel db nodeidx"

definition alt_riter :: "nat \<Rightarrow> netdb \<Rightarrow> ea \<Rightarrow> (ea \<times> ea) gen" where
  "alt_riter fuel db nodeidx = ralt fuel db nodeidx"

definition sup_MAX_SIZE :: nat where
  "sup_MAX_SIZE = 0x400"

definition sup_get :: "netdb \<Rightarrow> ea \<Rightarrow> ea \<Rightarrow> pytype \<Rightarrow> exn + pyval" where
  "sup_get db nodeidx idx ty =
     (case ty of
        TyNone \<Rightarrow> Inr (opt_str (netnode_supval db nodeidx idx))
      | TyNotAClass \<Rightarrow> Inl TypeError
      | TyClass c \<Rightarrow>
          if sub_memoryview c then Inr (py_and_str (netnode_supval db nodeidx idx) PyMemview)
          else if sub_bytes c then Inr (opt_str (netnode_supstr db nodeidx idx))
          else if sub_string_types c then Inr (opt_str (netnode_supstr db nodeidx idx))
          else Inl InvalidTypeOrValueError)"

definition sup_set :: "netdb \<Rightarrow> ea \<Rightarrow> ea \<Rightarrow> pyval \<Rightarrow> exn + bool \<times> netdb" where
  "sup_set db nodeidx idx value =
     map_sum id (netnode_supset db nodeidx idx)
       (case value of PyMemview bs \<Rightarrow> Inr bs | _ \<Rightarrow> swig_buf value)"

definition sup_remove :: "netdb \<Rightarrow> ea \<Rightarrow> ea \<Rightarrow> bool \<times> netdb" where
  "sup_remove db nodeidx idx = netnode_supdel db nodeidx idx"

definition sup_fiter :: "nat \<Rightarrow> netdb \<Rightarrow> ea \<Rightarrow> ea gen" where
  "sup_fiter fuel db nodeidx = gen_map fst (fsup fuel db nodeidx)"

definition sup_riter :: "nat \<Rightarrow> netdb \<Rightarrow> ea \<Rightarrow> ea gen" where
  "sup_riter fuel db nodeidx = gen_map fst (rsup fuel db nodeidx)"

text \<open>C21. Round trip of the alt array: \<open>alt.set\<close> on a real node succeeds and
  \<open>alt.get\<close> at the same index returns the stored integer.\<close>

theorem alt_roundtrip:
  "netdb_ok db \<Longrightarrow> nodeidx \<noteq> BADADDR \<Longrightarrow>
   \<exists>db'. alt_set db nodeidx idx v = (True, db') \<and> alt_get db' nodeidx idx = v"
  by (simp add: alt_set_def alt_get_def netnode_altset_def netnode_altval_def upd_node_def
      node_at_put netdb_ok_sorted)

text \<open>C34. Spec 9's open question, settled for the code: after \<open>alt.remove\<close>,
  \<open>alt.get\<close> returns 0, which is also what it returns after storing 0: absence and
  a stored 0 cannot be told apart.\<close>

theorem alt_remove_sentinel:
  "netdb_ok db \<Longrightarrow> alt_get (snd (alt_remove db nodeidx idx)) nodeidx idx = 0
     \<and> alt_get (snd (alt_set db nodeidx idx 0)) nodeidx idx = 0"
  by (cases "nodeidx = BADADDR")
    (simp_all add: alt_remove_def alt_set_def alt_get_def netnode_altdel_def netnode_altset_def
       netnode_altval_def upd_node_eq netdb_ok_sorted empty_node_def)

text \<open>C35. Frame of \<open>alt.set\<close>: every other (node, index) pair reads as before,
  and nothing of any node but its alt array changes.\<close>

theorem alt_frame:
  assumes ok: "netdb_ok db"
  shows "(\<forall>j k. (j, k) \<noteq> (nodeidx, idx) \<longrightarrow> alt_get (snd (alt_set db nodeidx idx v)) j k = alt_get db j k)
    \<and> (\<forall>j. (node_at (snd (alt_set db nodeidx idx v)) j)\<lparr>nd_alt := []\<rparr> = (node_at db j)\<lparr>nd_alt := []\<rparr>)"
  using ok
  by (auto simp: alt_set_def alt_get_def netnode_altset_def netnode_altval_def upd_node_eq
       netdb_ok_sorted)

text \<open>C20. Round trip of the sup array (spec 8's \<open>sup.set(id, 5, b"hello")\<close>
  scenario): a \<open>str\<close> of at most \<open>MAXSPECSIZE\<close> bytes is stored, the default
  reading returns it, the \<open>bytes\<close> reading returns it up to its first NUL, and the
  \<open>memoryview\<close> reading a memoryview of it (the empty string staying a \<open>str\<close>).\<close>

theorem sup_roundtrip:
  assumes ok: "netdb_ok db" and i: "nodeidx \<noteq> BADADDR" and len: "length s \<le> MAXSPECSIZE"
  shows "\<exists>db'. sup_set db nodeidx idx (PyStr s) = Inr (True, db')
           \<and> sup_get db' nodeidx idx TyNone = Inr (PyStr s)
           \<and> sup_get db' nodeidx idx (TyClass CStr) = Inr (PyStr (cstr s))
           \<and> sup_get db' nodeidx idx (TyClass CMemoryview) = Inr (if s = [] then PyStr [] else PyMemview s)"
  using ok i len
  by (simp add: sup_set_def sup_get_def swig_buf_def netnode_supset_def netnode_supval_def
      netnode_supstr_def upd_node_def node_at_put netdb_ok_sorted opt_str_def py_and_str_def not_less)

text \<open>C26. A sup value longer than \<open>MAXSPECSIZE\<close> is refused by the host: \<open>sup.set\<close>
  answers \<open>False\<close> and the database is unchanged; the wrapper does not check it.\<close>

theorem sup_set_too_long:
  "MAXSPECSIZE < length s \<Longrightarrow> sup_set db nodeidx idx (PyStr s) = Inr (False, db)"
  by (simp add: sup_set_def swig_buf_def netnode_supset_def)

text \<open>After \<open>sup.remove\<close> the index reads as \<open>None\<close> (default and
  \<open>bytes\<close> readings).\<close>

theorem sup_remove_clears:
  "netdb_ok db \<Longrightarrow> sup_get (snd (sup_remove db nodeidx idx)) nodeidx idx TyNone = Inr PyNone
     \<and> sup_get (snd (sup_remove db nodeidx idx)) nodeidx idx (TyClass CStr) = Inr PyNone"
  by (cases "nodeidx = BADADDR")
    (simp_all add: sup_remove_def sup_get_def netnode_supdel_def netnode_supval_def netnode_supstr_def
       upd_node_eq netdb_ok_sorted empty_node_def opt_str_def)

text \<open>\<open>sup.get\<close> has no integer reading: asking for \<open>int\<close> raises
  \<open>InvalidTypeOrValueError\<close>, whether the index holds a value or not.\<close>

theorem sup_get_int_unsupported: "sup_get db nodeidx idx (TyClass CInt) = Inl InvalidTypeOrValueError"
  by (simp add: sup_get_def)

text \<open>\<open>sup.fiter\<close> yields the stored indices in increasing order (an array
  whose only index is \<open>BADADDR\<close> yields none).\<close>

theorem sup_fiter_keys:
  "netdb_ok db \<Longrightarrow> length (nd_sup (node_at db nodeidx)) \<le> Suc fuel \<Longrightarrow>
   sup_fiter fuel db nodeidx =
     Stop (if map fst (nd_sup (node_at db nodeidx)) = [BADADDR] then [] else map fst (nd_sup (node_at db nodeidx)))"
  using valfiter_store [of "nd_sup (node_at db nodeidx)" fuel "call1 (netnode_supfirst db)" nodeidx
      "call1 (netnode_suplast db)" "netnode_supnext db" "netnode_supval db"]
  by (simp add: sup_fiter_def fsup_def call1_def netnode_supfirst_def netnode_suplast_def
      netnode_supnext_def fun_eq_iff comp_def)

theorem alt_roundtrip_witness:
  "netdb_ok demo_db \<and> (5::ea) \<noteq> BADADDR \<and>
   (\<exists>db'. alt_set demo_db 5 8 99 = (True, db') \<and> alt_get db' 5 8 = 99)"
  using alt_roundtrip [OF demo_db_ok, of 5 8 99] demo_db_ok by simp

theorem alt_remove_sentinel_witness:
  "netdb_ok demo_db \<and> alt_get (snd (alt_remove demo_db 5 1)) 5 1 = 0
   \<and> alt_get (snd (alt_set demo_db 5 1 0)) 5 1 = 0"
  using alt_remove_sentinel [OF demo_db_ok, of 5 1] demo_db_ok by simp

theorem alt_frame_witness:
  "netdb_ok demo_db \<and> alt_get (snd (alt_set demo_db 5 1 77)) 5 3 = alt_get demo_db 5 3
   \<and> (node_at (snd (alt_set demo_db 5 1 77)) 5)\<lparr>nd_alt := []\<rparr> = (node_at demo_db 5)\<lparr>nd_alt := []\<rparr>"
  using alt_frame [OF demo_db_ok, of 5 1 77] demo_db_ok by simp

theorem sup_roundtrip_witness:
  "netdb_ok demo_db \<and> (5::ea) \<noteq> BADADDR \<and> length ''hello'' \<le> MAXSPECSIZE \<and>
   (\<exists>db'. sup_set demo_db 5 5 (PyStr ''hello'') = Inr (True, db')
      \<and> sup_get db' 5 5 TyNone = Inr (PyStr ''hello'')
      \<and> sup_get db' 5 5 (TyClass CStr) = Inr (PyStr ''hello'')
      \<and> sup_get db' 5 5 (TyClass CMemoryview) = Inr (PyMemview ''hello''))"
proof -
  have len: "length ''hello'' \<le> MAXSPECSIZE" by (simp add: MAXSPECSIZE_def)
  have "cstr ''hello'' = ''hello''" by (simp add: cstr_def)
  then show ?thesis using sup_roundtrip [OF demo_db_ok _ len, of 5 5] demo_db_ok len by simp
qed

theorem sup_set_too_long_witness:
  "MAXSPECSIZE < length (replicate 1025 (CHR ''x''))
   \<and> sup_set demo_db 5 5 (PyStr (replicate 1025 (CHR ''x''))) = Inr (False, demo_db)"
proof -
  have "MAXSPECSIZE < length (replicate 1025 (CHR ''x''))" by (simp add: MAXSPECSIZE_def)
  then show ?thesis using sup_set_too_long [of "replicate 1025 (CHR ''x'')" demo_db 5 5] by simp
qed

theorem sup_remove_clears_witness:
  "netdb_ok demo_db \<and> sup_get (snd (sup_remove demo_db 5 2)) 5 2 TyNone = Inr PyNone
   \<and> sup_get (snd (sup_remove demo_db 5 2)) 5 2 (TyClass CStr) = Inr PyNone"
  using sup_remove_clears [OF demo_db_ok, of 5 2] demo_db_ok by simp

theorem sup_fiter_keys_witness:
  "netdb_ok demo_db \<and> length (nd_sup (node_at demo_db 5)) \<le> Suc 0 \<and> sup_fiter 0 demo_db 5 = Stop [2]"
proof -
  have nd: "nd_sup (node_at demo_db 5) = [(2, ''hello'')]"
    by (simp add: demo_db_def node_at_def empty_node_def)
  show ?thesis using sup_fiter_keys [OF demo_db_ok, of 5 0] demo_db_ok nd by simp
qed

lemma sup_set_frame:
  "sup_set db i k v = Inr r \<Longrightarrow> netdb_ok db \<Longrightarrow> j \<noteq> i \<Longrightarrow> node_at (snd r) j = node_at db j"
  by (auto simp: sup_set_def writes_frame netdb_ok_sorted split: if_splits pyval.splits)

end
