(* ===== verification/Hash.thy ===== *)
theory Hash
  imports Enumerate
begin

text \<open>
  Class \<open>hash\<close> of \<open>_netnode.py\<close> (lines 454--520): byte strings at string keys. The
  getter dispatches on the requested class as \<open>value.get\<close> does, through the hash
  readers of the host (\<open>hashval\<close>, \<open>hashstr_buf\<close>, \<open>hashstr\<close>, \<open>hashval_long\<close>);
  unlike \<open>value.get\<close> it does not first test that an entry exists. The setter
  dispatches on the class of the value (\<open>hashset\<close> for a memoryview's bytes,
  \<open>hashset_buf\<close> for strings, \<open>hashset_idx\<close> for integers). \<open>hash.repr\<close> is in
  theory \<open>Repr\<close>.
\<close>

definition hash_get :: "netdb \<Rightarrow> ea \<Rightarrow> string \<Rightarrow> pytype \<Rightarrow> exn + pyval" where
  "hash_get db nodeidx key ty =
     (case ty of
        TyNone \<Rightarrow> Inr (opt_str (netnode_hashval db nodeidx (Some key)))
      | TyNotAClass \<Rightarrow> Inl TypeError
      | TyClass c \<Rightarrow>
          if sub_memoryview c then Inr (py_and_str (netnode_hashval db nodeidx (Some key)) PyMemview)
          else if sub_bytes c then Inr (py_and_str (netnode_hashstr_buf db nodeidx key) PyStr)
          else if sub_string_types c then Inr (opt_str (netnode_hashstr db nodeidx key))
          else if sub_integer_types c then Inr (py_of_ea (netnode_hashval_long db nodeidx key))
          else Inl InvalidTypeOrValueError)"

definition hash_set :: "netdb \<Rightarrow> ea \<Rightarrow> string \<Rightarrow> pyval \<Rightarrow> exn + bool \<times> netdb" where
  "hash_set db nodeidx key value =
     (let c = class_of value in
      if sub_memoryview c then
        (case value of PyMemview bs \<Rightarrow> Inr (netnode_hashset db nodeidx key bs) | _ \<Rightarrow> Inl TypeError)
      else if sub_bytes c then map_sum id (netnode_hashset_buf db nodeidx key) (swig_buf value)
      else if sub_string_types c then map_sum id (netnode_hashset_buf db nodeidx key) (swig_buf value)
      else if sub_integer_types c then map_sum id (netnode_hashset_idx db nodeidx key) (swig_ea value)
      else Inl InvalidTypeOrValueError)"

definition hash_remove :: "netdb \<Rightarrow> ea \<Rightarrow> string \<Rightarrow> bool \<times> netdb" where
  "hash_remove db nodeidx key = netnode_hashdel db nodeidx key"

definition hash_fiter :: "nat \<Rightarrow> netdb \<Rightarrow> ea \<Rightarrow> string option gen" where
  "hash_fiter fuel db nodeidx = gen_map fst (fhash fuel db nodeidx)"

definition hash_riter :: "nat \<Rightarrow> netdb \<Rightarrow> ea \<Rightarrow> string option gen" where
  "hash_riter fuel db nodeidx = gen_map fst (rhash fuel db nodeidx)"

lemma hashset_stores:
  "netdb_ok db \<Longrightarrow> nodeidx \<noteq> BADADDR \<Longrightarrow> length bs \<le> MAXSPECSIZE \<Longrightarrow>
   netnode_hashset db nodeidx key bs = (True, snd (netnode_hashset db nodeidx key bs))
   \<and> map_of (nd_hash (node_at (snd (netnode_hashset db nodeidx key bs)) nodeidx)) key = Some bs"
  by (simp add: netnode_hashset_def upd_node_def node_at_put netdb_ok_sorted not_less)

text \<open>C18. Spec 8's hash scenario: \<open>hash.set\<close> of a Python integer in
  \<open>[0, 2^64)\<close> succeeds, \<open>hash.get(..., int)\<close> reads the same number back, and
  \<open>hash.get(..., unicode)\<close> decodes the same stored bytes (the little-endian
  \<open>nodeidx_t\<close>) as a C string.\<close>

theorem hash_roundtrip_int:
  assumes ok: "netdb_ok db" and i: "nodeidx \<noteq> BADADDR" and lo: "0 \<le> n" and hi: "n < 2 ^ 64"
  shows "\<exists>db'. hash_set db nodeidx key (PyInt n) = Inr (True, db')
           \<and> hash_get db' nodeidx key (TyClass CInt) = Inr (if n < 2 ^ 63 then PyInt n else PyLong n)
           \<and> hash_get db' nodeidx key (TyClass CUnicode) = Inr (PyStr (cstr (pack_ea (word_of_int n))))"
proof -
  let ?bs = "pack_ea (word_of_int n)"
  have len: "length ?bs \<le> MAXSPECSIZE" by (simp add: MAXSPECSIZE_def)
  note st = hashset_stores [OF ok i len, of key]
  have set: "hash_set db nodeidx key (PyInt n) = Inr (True, snd (netnode_hashset db nodeidx key ?bs))"
    using lo hi st by (simp add: hash_set_def swig_ea_def netnode_hashset_idx_def)
  have m: "map_of (nd_hash (node_at (snd (netnode_hashset db nodeidx key ?bs)) nodeidx)) key = Some ?bs"
    using st by simp
  have g1: "hash_get (snd (netnode_hashset db nodeidx key ?bs)) nodeidx key (TyClass CInt)
      = Inr (if n < 2 ^ 63 then PyInt n else PyLong n)"
    using m py_of_ea_word_of_int [OF lo hi] by (simp add: hash_get_def netnode_hashval_long_def)
  have g2: "hash_get (snd (netnode_hashset db nodeidx key ?bs)) nodeidx key (TyClass CUnicode)
      = Inr (PyStr (cstr ?bs))"
    using m by (simp add: hash_get_def netnode_hashstr_def opt_str_def)
  from set g1 g2 show ?thesis by blast
qed

text \<open>C19. Round trip of strings in the hash: a \<open>str\<close> of at most \<open>MAXSPECSIZE\<close>
  bytes is stored, the default reading returns it and the text reading returns it up
  to its first NUL.\<close>

theorem hash_roundtrip_str:
  assumes ok: "netdb_ok db" and i: "nodeidx \<noteq> BADADDR" and len: "length s \<le> MAXSPECSIZE"
  shows "\<exists>db'. hash_set db nodeidx key (PyStr s) = Inr (True, db')
           \<and> hash_get db' nodeidx key TyNone = Inr (PyStr s)
           \<and> hash_get db' nodeidx key (TyClass CUnicode) = Inr (PyStr (cstr s))"
proof -
  note st = hashset_stores [OF ok i len, of key]
  have set: "hash_set db nodeidx key (PyStr s) = Inr (True, snd (netnode_hashset db nodeidx key s))"
    using st by (simp add: hash_set_def swig_buf_def netnode_hashset_buf_def)
  have m: "map_of (nd_hash (node_at (snd (netnode_hashset db nodeidx key s)) nodeidx)) key = Some s"
    using st by simp
  have g1: "hash_get (snd (netnode_hashset db nodeidx key s)) nodeidx key TyNone = Inr (PyStr s)"
    using m by (simp add: hash_get_def netnode_hashval_def opt_str_def)
  have g2: "hash_get (snd (netnode_hashset db nodeidx key s)) nodeidx key (TyClass CUnicode)
      = Inr (PyStr (cstr s))"
    using m by (simp add: hash_get_def netnode_hashstr_def opt_str_def)
  from set g1 g2 show ?thesis by blast
qed

text \<open>C36. At a key the hash does not hold, the default reading is \<open>None\<close> but the
  integer reading is 0: unlike \<open>value.get\<close>, \<open>hash.get\<close> does not return the absent
  marker for every type.\<close>

theorem hash_get_missing:
  "map_of (nd_hash (node_at db nodeidx)) key = None \<Longrightarrow>
   hash_get db nodeidx key TyNone = Inr PyNone \<and> hash_get db nodeidx key (TyClass CInt) = Inr (PyInt 0)"
  by (simp add: hash_get_def netnode_hashval_def netnode_hashval_long_def opt_str_def py_of_ea_def)

text \<open>After \<open>hash.remove\<close> the key reads as \<open>None\<close>.\<close>

theorem hash_remove_clears:
  "netdb_ok db \<Longrightarrow> hash_get (snd (hash_remove db nodeidx key)) nodeidx key TyNone = Inr PyNone"
  by (cases "nodeidx = BADADDR")
    (simp_all add: hash_remove_def hash_get_def netnode_hashdel_def netnode_hashval_def
       upd_node_eq netdb_ok_sorted empty_node_def opt_str_def)

theorem hash_roundtrip_int_witness:
  "netdb_ok demo_db \<and> (5::ea) \<noteq> BADADDR \<and> 0 \<le> (42::int) \<and> (42::int) < 2 ^ 64 \<and>
   (\<exists>db'. hash_set demo_db 5 ''k1'' (PyInt 42) = Inr (True, db')
      \<and> hash_get db' 5 ''k1'' (TyClass CInt) = Inr (PyInt 42)
      \<and> hash_get db' 5 ''k1'' (TyClass CUnicode) = Inr (PyStr (cstr (pack_ea 42))))"
  using hash_roundtrip_int [OF demo_db_ok, of 5 42 "''k1''"] demo_db_ok by simp

theorem hash_roundtrip_str_witness:
  "netdb_ok demo_db \<and> (5::ea) \<noteq> BADADDR \<and> length ''hello'' \<le> MAXSPECSIZE \<and>
   (\<exists>db'. hash_set demo_db 5 ''k2'' (PyStr ''hello'') = Inr (True, db')
      \<and> hash_get db' 5 ''k2'' TyNone = Inr (PyStr ''hello'')
      \<and> hash_get db' 5 ''k2'' (TyClass CUnicode) = Inr (PyStr ''hello''))"
proof -
  have len: "length ''hello'' \<le> MAXSPECSIZE" by (simp add: MAXSPECSIZE_def)
  have "cstr ''hello'' = ''hello''" by (simp add: cstr_def)
  then show ?thesis using hash_roundtrip_str [OF demo_db_ok _ len, of 5 "''k2''"] demo_db_ok len by simp
qed

theorem hash_get_missing_witness:
  "map_of (nd_hash (node_at demo_db 5)) ''zz'' = None \<and>
   hash_get demo_db 5 ''zz'' TyNone = Inr PyNone \<and> hash_get demo_db 5 ''zz'' (TyClass CInt) = Inr (PyInt 0)"
proof -
  have "map_of (nd_hash (node_at demo_db 5)) ''zz'' = None"
    by (simp add: demo_db_def node_at_def empty_node_def)
  then show ?thesis using hash_get_missing [of demo_db 5 "''zz''"] by simp
qed

theorem hash_remove_clears_witness:
  "netdb_ok demo_db \<and> hash_get (snd (hash_remove demo_db 5 ''k1'')) 5 ''k1'' TyNone = Inr PyNone"
  using hash_remove_clears [OF demo_db_ok, of 5 "''k1''"] demo_db_ok by simp

lemma hash_set_frame:
  "hash_set db i k v = Inr r \<Longrightarrow> netdb_ok db \<Longrightarrow> j \<noteq> i \<Longrightarrow> node_at (snd r) j = node_at db j"
  by (auto simp: hash_set_def Let_def writes_frame netdb_ok_sorted split: if_splits pyval.splits)

end
