(* ===== verification/Machine.thy ===== *)
theory Machine
  imports Nodes Value Blob Arrays Hash
begin

text \<open>
  The module's write operations as one step function over the database: the
  datatype \<open>op\<close> has one constructor per public operation of \<open>_netnode.py\<close> that
  changes the database, \<open>step\<close> runs the wrapper of the source for it, and
  \<open>run\<close> runs a sequence of operations, stopping at the first that raises. The
  per-wrapper lemmas \<open>*_frame\<close> of the component theories carry the frame property
  through \<open>step\<close>.
\<close>

subsection \<open>Operations and steps\<close>

text \<open>Every public operation of \<open>_netnode.py\<close> that changes the database, with the
  arguments the caller passes. \<open>step\<close> runs the wrapper of the source; a raised
  exception is the \<open>Inl\<close> branch and leaves the database as it was.
  \<open>op_node\<close> is the node an operation addresses (\<open>new\<close> addresses none).\<close>

datatype op =
    OpNew pyval
  | OpRemove ea
  | OpNameSet ea pyval
  | OpValueSet ea pyval
  | OpValueRemove ea pyval
  | OpBlobSet ea char pyval ea
  | OpBlobRemove ea char ea
  | OpAltSet ea ea ea
  | OpAltRemove ea ea
  | OpSupSet ea ea pyval
  | OpSupRemove ea ea
  | OpHashSet ea string pyval
  | OpHashRemove ea string

fun step :: "netdb \<Rightarrow> op \<Rightarrow> exn + netdb" where
  "step db (OpNew name) = map_sum id snd (new db name)"
| "step db (OpRemove i) = Inr (remove db i)"
| "step db (OpNameSet i s) = map_sum id snd (name_set db i s)"
| "step db (OpValueSet i v) = map_sum id snd (value_set db i v)"
| "step db (OpValueRemove i v) = Inr (snd (value_remove db i v))"
| "step db (OpBlobSet i t v st) = map_sum id snd (blob_set db i t v st)"
| "step db (OpBlobRemove i t st) = Inr (snd (blob_remove db i t st))"
| "step db (OpAltSet i k v) = Inr (snd (alt_set db i k v))"
| "step db (OpAltRemove i k) = Inr (snd (alt_remove db i k))"
| "step db (OpSupSet i k v) = map_sum id snd (sup_set db i k v)"
| "step db (OpSupRemove i k) = Inr (snd (sup_remove db i k))"
| "step db (OpHashSet i k v) = map_sum id snd (hash_set db i k v)"
| "step db (OpHashRemove i k) = Inr (snd (hash_remove db i k))"

fun op_node :: "op \<Rightarrow> ea option" where
  "op_node (OpNew _) = None"
| "op_node (OpRemove i) = Some i"
| "op_node (OpNameSet i _) = Some i"
| "op_node (OpValueSet i _) = Some i"
| "op_node (OpValueRemove i _) = Some i"
| "op_node (OpBlobSet i _ _ _) = Some i"
| "op_node (OpBlobRemove i _ _) = Some i"
| "op_node (OpAltSet i _ _) = Some i"
| "op_node (OpAltRemove i _) = Some i"
| "op_node (OpSupSet i _ _) = Some i"
| "op_node (OpSupRemove i _) = Some i"
| "op_node (OpHashSet i _ _) = Some i"
| "op_node (OpHashRemove i _) = Some i"

fun run :: "netdb \<Rightarrow> op list \<Rightarrow> exn + netdb" where
  "run db [] = Inr db"
| "run db (o1 # os) = (case step db o1 of Inl e \<Rightarrow> Inl e | Inr db' \<Rightarrow> run db' os)"

lemma run_removes: "run db (map OpRemove ks) = Inr (fold (\<lambda>k d. netnode_kill d k) ks db)"
  by (induction ks arbitrary: db) (simp_all add: remove_def)


lemma nodes_kill_all:
  "netdb_ok db \<Longrightarrow> nodes (fold (\<lambda>k d. netnode_kill d k) ks db) = filter (\<lambda>p. fst p \<notin> set ks) (nodes db)"
proof (induction ks arbitrary: db)
  case Nil
  then show ?case by simp
next
  case (Cons k ks)
  have ok': "netdb_ok (netnode_kill db k)" using Cons.prems by (rule netdb_ok_writes)
  have "nodes (netnode_kill db k) = filter (\<lambda>p. fst p \<noteq> k) (nodes db)"
    using Cons.prems
    by (auto simp: netnode_kill_def put_node_def store_del_filter netdb_ok_sorted netdb_ok_def
        intro: filter_True [symmetric])
  then show ?case using Cons.IH [OF ok'] by (simp add: filter_filter conj_commute)
qed


end
