(* ===== verification/Abstract.thy ===== *)
theory Abstract
  imports Machine
begin

text \<open>
  The abstract specification of the storage engine (spec sections 3 and 4): every
  node number denotes a node holding an optional name, an optional value and
  independent sparse maps, one per namespace. \<open>abs_db\<close> reads a database as this
  abstract state; the absent nodes read as the empty abstract node.
\<close>

record anode =
  a_name :: "string option"
  a_value :: "bytes option"
  a_alt :: "ea \<rightharpoonup> ea"
  a_sup :: "ea \<rightharpoonup> bytes"
  a_hash :: "string \<rightharpoonup> bytes"
  a_char :: "ea \<rightharpoonup> char"
  a_blob :: "ea \<times> char \<rightharpoonup> bytes"

type_synonym adb = "ea \<Rightarrow> anode"

definition anode_empty :: anode where
  "anode_empty = \<lparr>a_name = None, a_value = None, a_alt = Map.empty, a_sup = Map.empty,
     a_hash = Map.empty, a_char = Map.empty, a_blob = Map.empty\<rparr>"

definition abs_node :: "nodedata \<Rightarrow> anode" where
  "abs_node d = \<lparr>a_name = nd_name d, a_value = nd_value d, a_alt = map_of (nd_alt d),
     a_sup = map_of (nd_sup d), a_hash = map_of (nd_hash d), a_char = map_of (nd_char d),
     a_blob = map_of (nd_blob d)\<rparr>"

definition abs_db :: "netdb \<Rightarrow> adb" where
  "abs_db db i = abs_node (node_at db i)"

subsection \<open>Abstract operations\<close>

text \<open>A write addressed to \<open>BADNODE\<close> changes nothing; every other write changes
  the one node it addresses.\<close>

definition aupd :: "adb \<Rightarrow> ea \<Rightarrow> (anode \<Rightarrow> anode) \<Rightarrow> adb" where
  "aupd A i f = (if i = BADADDR then A else A(i := f (A i)))"

text \<open>Values of the sup array and of the hash are limited to \<open>MAXSPECSIZE\<close> bytes;
  a longer one is refused and nothing changes (spec 3, 4.5).\<close>

definition abounded :: "bytes \<Rightarrow> adb \<Rightarrow> adb \<Rightarrow> adb" where
  "abounded bs A A' = (if MAXSPECSIZE < length bs then A else A')"

text \<open>The typed-write contract (spec 4.3, 4.6): the input's Python type chooses the
  stored bytes. \<open>value.set\<close> refuses a memoryview (the source's behaviour, see the
  findings); \<open>hash.set\<close> stores its bytes. \<open>sup.set\<close> and \<open>blob.set\<close> take a
  memoryview or any buffer argument.\<close>

definition value_encoding :: "pyval \<Rightarrow> exn + bytes" where
  "value_encoding v =
     (let c = class_of v in
      if sub_memoryview c then Inl TypeError
      else if sub_string_types c then swig_buf v
      else if sub_integer_types c then map_sum id pack_ea (swig_ea v)
      else Inl InvalidTypeOrValueError)"

definition hash_encoding :: "pyval \<Rightarrow> exn + bytes" where
  "hash_encoding v =
     (case v of PyMemview bs \<Rightarrow> Inr bs
      | _ \<Rightarrow> (let c = class_of v in
             if sub_string_types c then swig_buf v
             else if sub_integer_types c then map_sum id pack_ea (swig_ea v)
             else Inl InvalidTypeOrValueError))"

definition raw_encoding :: "pyval \<Rightarrow> exn + bytes" where
  "raw_encoding v = (case v of PyMemview bs \<Rightarrow> Inr bs | _ \<Rightarrow> swig_buf v)"

text \<open>The abstract step of an operation on node contents. Creating and renaming a
  node are operations of the registry (on names, not contents) and have none.\<close>

fun astep :: "adb \<Rightarrow> op \<Rightarrow> (exn + adb) option" where
  "astep A (OpNew _) = None"
| "astep A (OpNameSet _ _) = None"
| "astep A (OpRemove i) = Some (Inr (aupd A i (\<lambda>_. anode_empty)))"
| "astep A (OpValueSet i v) =
     Some (map_sum id (\<lambda>bs. aupd A i (\<lambda>n. n\<lparr>a_value := Some bs\<rparr>)) (value_encoding v))"
| "astep A (OpValueRemove i _) = Some (Inr (aupd A i (\<lambda>n. n\<lparr>a_value := None\<rparr>)))"
| "astep A (OpBlobSet i t v st) =
     Some (map_sum id (\<lambda>bs. aupd A i (\<lambda>n. n\<lparr>a_blob := (a_blob n)((st, t) \<mapsto> bs)\<rparr>)) (raw_encoding v))"
| "astep A (OpBlobRemove i t st) = Some (Inr (aupd A i (\<lambda>n. n\<lparr>a_blob := (a_blob n)((st, t) := None)\<rparr>)))"
| "astep A (OpAltSet i k v) = Some (Inr (aupd A i (\<lambda>n. n\<lparr>a_alt := (a_alt n)(k \<mapsto> v)\<rparr>)))"
| "astep A (OpAltRemove i k) = Some (Inr (aupd A i (\<lambda>n. n\<lparr>a_alt := (a_alt n)(k := None)\<rparr>)))"
| "astep A (OpSupSet i k v) =
     Some (map_sum id (\<lambda>bs. abounded bs A (aupd A i (\<lambda>n. n\<lparr>a_sup := (a_sup n)(k \<mapsto> bs)\<rparr>))) (raw_encoding v))"
| "astep A (OpSupRemove i k) = Some (Inr (aupd A i (\<lambda>n. n\<lparr>a_sup := (a_sup n)(k := None)\<rparr>)))"
| "astep A (OpHashSet i k v) =
     Some (map_sum id (\<lambda>bs. abounded bs A (aupd A i (\<lambda>n. n\<lparr>a_hash := (a_hash n)(k \<mapsto> bs)\<rparr>))) (hash_encoding v))"
| "astep A (OpHashRemove i k) = Some (Inr (aupd A i (\<lambda>n. n\<lparr>a_hash := (a_hash n)(k := None)\<rparr>)))"

subsection \<open>The abstraction commutes with the host's writes\<close>

lemma abs_node_empty [simp]: "abs_node empty_node = anode_empty"
  by (simp add: abs_node_def empty_node_def anode_empty_def)

lemma abs_put:
  "keys_sorted (nodes db) \<Longrightarrow> abs_db (put_node db i d) = aupd (abs_db db) i (\<lambda>_. abs_node d)"
  by (simp add: fun_eq_iff abs_db_def aupd_def node_at_put)

lemma abs_upd:
  assumes ok: "netdb_ok db" and fg: "\<And>d. node_ok d \<Longrightarrow> abs_node (f d) = g (abs_node d)"
  shows "abs_db (snd (upd_node db i f)) = aupd (abs_db db) i g"
proof
  fix j
  show "abs_db (snd (upd_node db i f)) j = aupd (abs_db db) i g j"
    using ok fg [OF node_at_ok [OF ok, of i]]
    by (simp add: abs_db_def aupd_def upd_node_eq netdb_ok_sorted)
qed

lemma abs_kill: "netdb_ok db \<Longrightarrow> abs_db (netnode_kill db i) = aupd (abs_db db) i (\<lambda>_. anode_empty)"
  by (simp add: netnode_kill_def abs_put netdb_ok_sorted)

lemma abs_writes:
  assumes ok: "netdb_ok db"
  shows "abs_db (snd (netnode_set db i bs)) = aupd (abs_db db) i (\<lambda>n. n\<lparr>a_value := Some bs\<rparr>)"
    "abs_db (snd (netnode_delvalue db i)) = aupd (abs_db db) i (\<lambda>n. n\<lparr>a_value := None\<rparr>)"
    "abs_db (snd (netnode_altset db i k a)) = aupd (abs_db db) i (\<lambda>n. n\<lparr>a_alt := (a_alt n)(k \<mapsto> a)\<rparr>)"
    "abs_db (snd (netnode_altdel db i k)) = aupd (abs_db db) i (\<lambda>n. n\<lparr>a_alt := (a_alt n)(k := None)\<rparr>)"
    "abs_db (snd (netnode_supset db i k bs)) =
       abounded bs (abs_db db) (aupd (abs_db db) i (\<lambda>n. n\<lparr>a_sup := (a_sup n)(k \<mapsto> bs)\<rparr>))"
    "abs_db (snd (netnode_supdel db i k)) = aupd (abs_db db) i (\<lambda>n. n\<lparr>a_sup := (a_sup n)(k := None)\<rparr>)"
    "abs_db (snd (netnode_hashset db i h bs)) =
       abounded bs (abs_db db) (aupd (abs_db db) i (\<lambda>n. n\<lparr>a_hash := (a_hash n)(h \<mapsto> bs)\<rparr>))"
    "abs_db (snd (netnode_hashdel db i h)) = aupd (abs_db db) i (\<lambda>n. n\<lparr>a_hash := (a_hash n)(h := None)\<rparr>)"
    "abs_db (snd (netnode_setblob db i bs st t)) =
       aupd (abs_db db) i (\<lambda>n. n\<lparr>a_blob := (a_blob n)((st, t) \<mapsto> bs)\<rparr>)"
    "abs_db (snd (netnode_delblob db i st t)) =
       aupd (abs_db db) i (\<lambda>n. n\<lparr>a_blob := (a_blob n)((st, t) := None)\<rparr>)"
  using ok
  by (auto simp: netnode_set_def netnode_delvalue_def netnode_altset_def
      netnode_altdel_def netnode_supset_def netnode_supdel_def netnode_hashset_def netnode_hashdel_def
      netnode_setblob_def netnode_delblob_def abounded_def abs_node_def node_ok_def
      intro!: abs_upd simp flip: upd_node_def)

subsection \<open>The setters factor as an encoding followed by a host write\<close>

lemma value_set_encoding:
  "value_set db i v = map_sum id (netnode_set db i) (value_encoding v)"
  by (cases v) (simp_all add: value_set_def value_encoding_def netnode_set_long_def swig_ea_def
      map_sum.compositionality comp_def)

lemma hash_set_encoding:
  "hash_set db i k v = map_sum id (netnode_hashset db i k) (hash_encoding v)"
  by (cases v) (simp_all add: hash_set_def hash_encoding_def netnode_hashset_idx_def
      netnode_hashset_buf_def [abs_def] swig_ea_def map_sum.compositionality comp_def)

lemma sup_set_encoding:
  "sup_set db i k v = map_sum id (netnode_supset db i k) (raw_encoding v)"
  by (simp add: sup_set_def raw_encoding_def)

lemma blob_set_encoding:
  "blob_set db i t v st = map_sum id (\<lambda>bs. netnode_setblob db i bs st t) (raw_encoding v)"
  by (simp add: blob_set_def raw_encoding_def)

end
