(* ===== verification/Filesystem.thy ===== *)
theory Filesystem
  imports Nodes
begin

text \<open>
  Class \<open>filesystem\<close> of \<open>_netnode.py\<close> (lines 523--528), the start of a
  file-allocation-table filesystem over blobs that the module leaves unimplemented
  (its \<open>FIXME\<close>). It has three class constants and a constructor. The constructor
  calls \<open>idaapi.netnode(name, 0, True)\<close>, which finds or creates the node of that name
  (a name length of 0 means the whole string), and binds the handle to a local
  variable only: the object keeps no state, and the effect of the constructor is the
  node it creates.
\<close>

definition filesystem_ALLOCATION_TABLE :: string where
  "filesystem_ALLOCATION_TABLE = ''$ file-allocation-table''"

definition filesystem_SECTOR_TABLE :: string where
  "filesystem_SECTOR_TABLE = ''$ sector-table''"

definition filesystem_SECTOR :: nat where
  "filesystem_SECTOR = 1024"

definition filesystem_init :: "netdb \<Rightarrow> string \<Rightarrow> netdb" where
  "filesystem_init db name = snd (netnode_new_named db name True)"

text \<open>The constructor keeps the database consistent, and afterwards a node of that
  name exists, unless the node numbers are exhausted.\<close>

lemma filesystem_init_ok: "netdb_ok db \<Longrightarrow> netdb_ok (filesystem_init db name)"
  by (simp add: filesystem_init_def netdb_ok_writes)

lemma filesystem_init_names:
  "alloc_id db \<noteq> BADADDR \<Longrightarrow> find_named (filesystem_init db name) name \<noteq> None"
  by (auto simp: filesystem_init_def netnode_new_named_def Let_def find_named_put_new empty_node_def
      split: option.splits)

end
