(* ===== verification/Format.thy ===== *)
theory Format
  imports Prelude
begin

text \<open>
  The Python 2 text formatting the \<open>repr\<close> methods of \<open>_netnode.py\<close> use, modelled
  from the language's definition (CPython 2.7): \<open>repr\<close> of the values the getters
  return, the integer presentations \<open>{:x}\<close>, \<open>{:#x}\<close> and \<open>{:d}\<close> of \<open>str.format\<close>, the
  left-justified field \<open>{:<{w}s}\<close>, and \<open>str.join\<close>. The parsers at the end are not
  part of the program; reading the digits back shows that \<open>hex_str\<close> and \<open>dec_str\<close>
  are the base-16 and base-10 numerals of their argument.
\<close>

subsection \<open>Digits\<close>

definition hex_digit :: "nat \<Rightarrow> char" where
  "hex_digit d = (if d < 10 then char_of (48 + d) else char_of (87 + d))"

fun hex_str :: "nat \<Rightarrow> string" where
  "hex_str n = (if n < 16 then [hex_digit n] else hex_str (n div 16) @ [hex_digit (n mod 16)])"

fun dec_str :: "nat \<Rightarrow> string" where
  "dec_str n = (if n < 10 then [char_of (48 + n)] else dec_str (n div 10) @ [char_of (48 + n mod 10)])"

declare hex_str.simps [simp del] dec_str.simps [simp del]

subsection \<open>\<open>str.format\<close> of integers\<close>

text \<open>The integer a value denotes for the integer presentations; any other value
  makes \<open>format\<close> raise \<open>ValueError\<close> (unknown format code).\<close>

fun py_int_of :: "pyval \<Rightarrow> int option" where
  "py_int_of (PyInt n) = Some n"
| "py_int_of (PyLong n) = Some n"
| "py_int_of (PyBool b) = Some (if b then 1 else 0)"
| "py_int_of _ = None"

definition fmt_signed :: "(nat \<Rightarrow> string) \<Rightarrow> string \<Rightarrow> int \<Rightarrow> string" where
  "fmt_signed f pre n = (if n < 0 then CHR ''-'' # pre @ f (nat (- n)) else pre @ f (nat n))"

definition format_x :: "pyval \<Rightarrow> exn + string" where
  "format_x v = (case py_int_of v of None \<Rightarrow> Inl ValueError | Some n \<Rightarrow> Inr (fmt_signed hex_str [] n))"

definition format_hx :: "pyval \<Rightarrow> exn + string" where
  "format_hx v = (case py_int_of v of None \<Rightarrow> Inl ValueError | Some n \<Rightarrow> Inr (fmt_signed hex_str ''0x'' n))"

definition format_d :: "pyval \<Rightarrow> exn + string" where
  "format_d v = (case py_int_of v of None \<Rightarrow> Inl ValueError | Some n \<Rightarrow> Inr (fmt_signed dec_str [] n))"

text \<open>\<open>"{:<{:d}s}".format(s, w)\<close>: \<open>s\<close> padded with spaces to width \<open>w\<close>.\<close>

definition ljust :: "nat \<Rightarrow> string \<Rightarrow> string" where
  "ljust w s = s @ replicate (w - length s) CHR '' ''"

fun py_join :: "string \<Rightarrow> string list \<Rightarrow> string" where
  "py_join sep [] = []"
| "py_join sep [x] = x"
| "py_join sep (x # y # xs) = x @ sep @ py_join sep (y # xs)"

subsection \<open>\<open>repr\<close>\<close>

text \<open>\<open>repr\<close> of a \<open>str\<close> (CPython's \<open>string_repr\<close>): single quotes, unless the
  string holds a single quote and no double quote; the quote and the backslash are
  escaped, tab, newline and return by their letters, the other control characters
  and the bytes from \<open>0x7f\<close> as \<open>\x\<close> and two hexadecimal digits.\<close>

definition repr_quote :: "string \<Rightarrow> char" where
  "repr_quote s = (if CHR 0x27 \<in> set s \<and> CHR 0x22 \<notin> set s then CHR 0x22 else CHR 0x27)"

definition repr_char :: "char \<Rightarrow> char \<Rightarrow> string" where
  "repr_char q c =
     (if c = q \<or> c = CHR 0x5C then [CHR 0x5C, c]
      else if c = CHR 0x09 then [CHR 0x5C, CHR ''t'']
      else if c = CHR 0x0A then [CHR 0x5C, CHR ''n'']
      else if c = CHR 0x0D then [CHR 0x5C, CHR ''r'']
      else if of_char c < (32::nat) \<or> (127::nat) \<le> of_char c
      then [CHR 0x5C, CHR ''x'', hex_digit (of_char c div 16), hex_digit (of_char c mod 16)]
      else [c])"

definition py_repr_str :: "string \<Rightarrow> string" where
  "py_repr_str s = (let q = repr_quote s in q # concat (map (repr_char q) s) @ [q])"

text \<open>\<open>repr\<close> of a value. A memoryview prints as \<open><memory at 0x...>\<close> with the address
  of the object, which the program does not determine: the formatters take its
  rendering \<open>mv\<close> as a parameter.\<close>

fun py_repr :: "(bytes \<Rightarrow> string) \<Rightarrow> pyval \<Rightarrow> string" where
  "py_repr mv PyNone = ''None''"
| "py_repr mv (PyStr s) = py_repr_str s"
| "py_repr mv (PyUnicode u) = CHR ''u'' # py_repr_str u"
| "py_repr mv (PyInt n) = fmt_signed dec_str [] n"
| "py_repr mv (PyLong n) = fmt_signed dec_str [] n @ ''L''"
| "py_repr mv (PyBool b) = (if b then ''True'' else ''False'')"
| "py_repr mv (PyMemview bs) = mv bs"
| "py_repr mv (PyFloat n) = fmt_signed dec_str [] n @ ''.0''"

subsection \<open>Reading the text back\<close>

definition hex_val :: "char \<Rightarrow> nat option" where
  "hex_val c = (let n = of_char c in
     if 48 \<le> n \<and> n < 58 then Some (n - 48) else if 97 \<le> n \<and> n < 103 then Some (n - 87) else None)"

definition dec_val :: "char \<Rightarrow> nat option" where
  "dec_val c = (let n = of_char c in if 48 \<le> n \<and> n < 58 then Some (n - 48) else None)"

fun digits_val :: "nat \<Rightarrow> (char \<Rightarrow> nat option) \<Rightarrow> nat \<Rightarrow> string \<Rightarrow> nat option" where
  "digits_val b dv acc [] = Some acc"
| "digits_val b dv acc (c # cs) = (case dv c of None \<Rightarrow> None | Some d \<Rightarrow> digits_val b dv (acc * b + d) cs)"

definition parse_hex :: "string \<Rightarrow> nat option" where
  "parse_hex s = (if s = [] then None else digits_val 16 hex_val 0 s)"

definition parse_dec :: "string \<Rightarrow> nat option" where
  "parse_dec s = (if s = [] then None else digits_val 10 dec_val 0 s)"

subsection \<open>Digits read back\<close>

lemma digits_val_snoc:
  "digits_val b dv acc (xs @ [c]) =
     (case digits_val b dv acc xs of None \<Rightarrow> None
      | Some a \<Rightarrow> (case dv c of None \<Rightarrow> None | Some d \<Rightarrow> Some (a * b + d)))"
  by (induction xs arbitrary: acc) (auto split: option.splits)

lemma hex_val_digit [simp]: "d < 16 \<Longrightarrow> hex_val (hex_digit d) = Some d"
  by (auto simp: hex_val_def hex_digit_def Let_def)

lemma dec_val_digit [simp]: "d < 10 \<Longrightarrow> dec_val (char_of (48 + d)) = Some d"
  by (simp add: dec_val_def Let_def)

lemma hex_str_Nil [simp]: "hex_str n \<noteq> []"
  by (induction n rule: hex_str.induct) (subst hex_str.simps, simp)

lemma dec_str_Nil [simp]: "dec_str n \<noteq> []"
  by (induction n rule: dec_str.induct) (subst dec_str.simps, simp)

lemma digits_val_hex_str: "digits_val 16 hex_val 0 (hex_str n) = Some n"
proof (induction n rule: hex_str.induct)
  case (1 n)
  show ?case
  proof (cases "n < 16")
    case True
    then show ?thesis by (subst hex_str.simps) simp
  next
    case False
    with 1 show ?thesis by (subst hex_str.simps) (simp add: digits_val_snoc)
  qed
qed

lemma digits_val_dec_str: "digits_val 10 dec_val 0 (dec_str n) = Some n"
proof (induction n rule: dec_str.induct)
  case (1 n)
  show ?case
  proof (cases "n < 10")
    case True
    then show ?thesis by (subst dec_str.simps) simp
  next
    case False
    with 1 show ?thesis by (subst dec_str.simps) (simp add: digits_val_snoc)
  qed
qed

lemma parse_hex_str [simp]: "parse_hex (hex_str n) = Some n"
  by (simp add: parse_hex_def digits_val_hex_str)

lemma parse_dec_str [simp]: "parse_dec (dec_str n) = Some n"
  by (simp add: parse_dec_def digits_val_dec_str)

subsection \<open>The integer presentations of a \<open>nodeidx_t\<close>\<close>

lemma py_int_of_py_of_ea [simp]: "py_int_of (py_of_ea w) = Some (uint w)"
  by (simp add: py_of_ea_def)


lemma format_py_of_ea [simp]:
  "format_x (py_of_ea w) = Inr (hex_str (unat w))"
  "format_hx (py_of_ea w) = Inr (''0x'' @ hex_str (unat w))"
  "format_d (py_of_ea w) = Inr (dec_str (unat w))"
  by (simp_all add: format_x_def format_hx_def format_d_def fmt_signed_def not_less)


end
