(* ===== verification/Repr.thy ===== *)
theory Repr
  imports Value Blob Arrays Hash Format
begin

text \<open>
  The diagnostic formatters of \<open>_netnode.py\<close>: the \<open>repr\<close> methods of classes
  \<open>value\<close> (lines 310--315), \<open>blob\<close> (341--346), \<open>alt\<close> (390--397), \<open>sup\<close> (443--451) and
  \<open>hash\<close> (505--519). Each reads its namespace through the class's own \<open>get\<close> and
  \<open>fiter\<close>, formats one line per entry with \<open>str.format\<close> (theory \<open>Format\<close>), and
  raises \<open>MissingTypeOrAttribute\<close> when there is nothing to show. The loops over a
  generator are \<open>gen_for\<close>: a pulled item is formatted before the next is pulled.
  \<open>mv\<close> is the interpreter's rendering of a memoryview object.
\<close>

definition value_repr :: "(bytes \<Rightarrow> string) \<Rightarrow> netdb \<Rightarrow> ea \<Rightarrow> exn + string" where
  "value_repr mv db nodeidx =
     (if \<not> value_exists db nodeidx then Inl MissingTypeOrAttribute
      else (case value_get db nodeidx TyNone of Inl e \<Rightarrow> Inl e | Inr res \<Rightarrow>
            (case value_get db nodeidx (TyClass CStr) of Inl e \<Rightarrow> Inl e | Inr string \<Rightarrow>
             (case value_get db nodeidx (TyClass CInt) of Inl e \<Rightarrow> Inl e | Inr val \<Rightarrow>
               map_sum id (\<lambda>x. py_repr mv res @ '' '' @ py_repr mv string @ '' '' @ x) (format_hx val)))))"


text \<open>The result of a formatter loop: the lines joined by newlines, or
  \<open>MissingTypeOrAttribute\<close> when there are none.\<close>

definition repr_lines :: "(exn + string list) option \<Rightarrow> (exn + string) option" where
  "repr_lines r = map_option (\<lambda>x. case x of Inl e \<Rightarrow> Inl e
       | Inr res \<Rightarrow> if res = [] then Inl MissingTypeOrAttribute else Inr (py_join [CHR 0x0A] res)) r"

text \<open>\<open>"{0:x} : {1:#x} ({1:d})".format(idx, value)\<close> of an alt entry; both are the
  Python integers SWIG makes of the \<open>nodeidx_t\<close> values.\<close>

definition alt_line :: "ea \<times> ea \<Rightarrow> exn + string" where
  "alt_line e =
     (case format_x (py_of_ea (fst e)) of Inl x \<Rightarrow> Inl x | Inr a \<Rightarrow>
      (case format_hx (py_of_ea (snd e)) of Inl x \<Rightarrow> Inl x | Inr b \<Rightarrow>
       (case format_d (py_of_ea (snd e)) of Inl x \<Rightarrow> Inl x | Inr c \<Rightarrow>
         Inr (a @ '' : '' @ b @ '' ('' @ c @ '')''))))"

definition alt_repr :: "nat \<Rightarrow> netdb \<Rightarrow> ea \<Rightarrow> (exn + string) option" where
  "alt_repr fuel db nodeidx = repr_lines (gen_for alt_line (alt_fiter fuel db nodeidx))"

text \<open>\<open>"[{:d}] {:x} : {!r}".format(idx, item, value)\<close> with
  \<open>value = cls.get(nodeidx, item)\<close>.\<close>

definition sup_line :: "(bytes \<Rightarrow> string) \<Rightarrow> netdb \<Rightarrow> ea \<Rightarrow> nat \<times> ea \<Rightarrow> exn + string" where
  "sup_line mv db nodeidx p =
     (case sup_get db nodeidx (snd p) TyNone of Inl x \<Rightarrow> Inl x | Inr value \<Rightarrow>
      (case format_x (py_of_ea (snd p)) of Inl x \<Rightarrow> Inl x | Inr h \<Rightarrow>
        Inr (''['' @ dec_str (fst p) @ ''] '' @ h @ '' : '' @ py_repr mv value)))"

definition sup_repr :: "(bytes \<Rightarrow> string) \<Rightarrow> nat \<Rightarrow> netdb \<Rightarrow> ea \<Rightarrow> (exn + string) option" where
  "sup_repr mv fuel db nodeidx =
     repr_lines (gen_for (sup_line mv db nodeidx) (gen_enumerate (sup_fiter fuel db nodeidx)))"






subsection \<open>Every line formats\<close>

lemma alt_line_text [simp]:
  "alt_line (k, v) = Inr (hex_str (unat k) @ '' : 0x'' @ hex_str (unat v) @ '' ('' @ dec_str (unat v) @ '')'')"
  by (simp add: alt_line_def)












subsection \<open>What the formatters print\<close>



text \<open>C22. \<open>alt.repr\<close> of a node whose alt array is non-empty (and not the lone sentinel
  index \<open>BADADDR\<close>) prints, one line per entry in ascending index order and joined by
  newlines, the index in hexadecimal, the value with the \<open>0x\<close> prefix and the value in
  decimal.\<close>

theorem alt_repr_text:
  assumes ok: "netdb_ok db" and len: "length (nd_alt (node_at db n)) \<le> Suc fuel"
    and ne: "map fst (nd_alt (node_at db n)) \<noteq> []" and nb: "map fst (nd_alt (node_at db n)) \<noteq> [BADADDR]"
  shows "alt_repr fuel db n = Some (Inr (py_join [CHR 0x0A]
           (map (\<lambda>(k, v). hex_str (unat k) @ '' : 0x'' @ hex_str (unat v) @ '' ('' @ dec_str (unat v) @ '')'')
             (nd_alt (node_at db n)))))"
proof -
  have "sequence_sum (map alt_line (nd_alt (node_at db n))) =
      Inr (map (\<lambda>(k, v). hex_str (unat k) @ '' : 0x'' @ hex_str (unat v) @ '' ('' @ dec_str (unat v) @ '')'')
             (nd_alt (node_at db n)))"
    by (rule sequence_sum_Inr_map) auto
  then show ?thesis
    using falt_store [OF ok len] ne nb by (simp add: alt_repr_def alt_fiter_def repr_lines_def)
qed



text \<open>C23. \<open>sup.repr\<close> of a node whose sup array is non-empty (and not the lone sentinel
  index \<open>BADADDR\<close>) prints, one line per entry in ascending index order and joined by
  newlines, the entry's position in the enumeration in decimal, its index in
  hexadecimal and the \<open>repr\<close> of the stored bytes.\<close>

theorem sup_repr_text:
  assumes ok: "netdb_ok db" and len: "length (nd_sup (node_at db n)) \<le> Suc fuel"
    and ne: "map fst (nd_sup (node_at db n)) \<noteq> []" and nb: "map fst (nd_sup (node_at db n)) \<noteq> [BADADDR]"
  shows "sup_repr mv fuel db n = Some (Inr (py_join [CHR 0x0A]
           (map (\<lambda>(p, k, v). ''['' @ dec_str p @ ''] '' @ hex_str (unat k) @ '' : '' @ py_repr_str v)
             (zip [0..<length (nd_sup (node_at db n))] (nd_sup (node_at db n))))))"
proof -
  let ?s = "nd_sup (node_at db n)"
  let ?ns = "[0..<length ?s]"
  have z: "zip ?ns (map fst ?s) = map (\<lambda>(p, kv). (p, fst kv)) (zip ?ns ?s)"
    by (simp add: zip_map2)
  have d: "distinct (map fst ?s)"
    using node_at_ok [OF ok, of n] by (simp add: node_ok_def keys_sorted_def strict_sorted_iff)
  have "sequence_sum (map (sup_line mv db n) (zip ?ns (map fst ?s))) =
      Inr (map (\<lambda>(p, k, v). ''['' @ dec_str p @ ''] '' @ hex_str (unat k) @ '' : '' @ py_repr_str v) (zip ?ns ?s))"
    unfolding z map_map
    by (rule sequence_sum_Inr_map)
      (auto dest!: set_zip_rightD simp: sup_line_def sup_get_def opt_str_def netnode_supval_def d map_of_is_SomeI)
  then show ?thesis
    using sup_fiter_keys [OF ok len] ne nb by (simp add: sup_repr_def repr_lines_def)
qed

text \<open>C25. \<open>value.repr\<close> of a node holding value bytes \<open>v\<close> prints the repr of the raw
  bytes, the repr of their C-string reading and the integer reading in hexadecimal.\<close>

theorem value_repr_text:
  "nd_value (node_at db n) = Some v \<Longrightarrow>
   value_repr mv db n = Inr (py_repr_str v @ '' '' @ py_repr_str (cstr v) @ '' 0x'' @ hex_str (unat (netnode_long_value db n)))"
  by (simp add: value_repr_def value_exists_def value_get_def netnode_value_exists_def netnode_valobj_def
      netnode_valstr_def opt_str_def py_and_str_def)


subsection \<open>Witnesses\<close>

lemma demo_alt_5: "nd_alt (node_at demo_db 5) = [(1, 10), (3, 30)]"
  by (simp add: demo_db_def node_at_def empty_node_def)


theorem alt_repr_text_witness:
  "netdb_ok demo_db \<and> length (nd_alt (node_at demo_db 5)) \<le> Suc 1
   \<and> map fst (nd_alt (node_at demo_db 5)) \<noteq> [] \<and> map fst (nd_alt (node_at demo_db 5)) \<noteq> [BADADDR]
   \<and> alt_repr 1 demo_db 5 = Some (Inr ''1 : 0xa (10)\<newline>3 : 0x1e (30)'')"
proof -
  have t: "py_join [CHR 0x0A] (map (\<lambda>(k, v). hex_str (unat k) @ '' : 0x'' @ hex_str (unat v) @ '' ('' @ dec_str (unat v) @ '')'')
     [(1::ea, 10::ea), (3, 30)]) = ''1 : 0xa (10)\<newline>3 : 0x1e (30)''"
    by code_simp
  show ?thesis
    using alt_repr_text [OF demo_db_ok, of 5 1] demo_db_ok demo_alt_5 t by simp
qed


theorem sup_repr_text_witness:
  "netdb_ok demo_db \<and> length (nd_sup (node_at demo_db 5)) \<le> Suc 0
   \<and> map fst (nd_sup (node_at demo_db 5)) \<noteq> [] \<and> map fst (nd_sup (node_at demo_db 5)) \<noteq> [BADADDR]
   \<and> sup_repr (\<lambda>_. []) 0 demo_db 5 = Some (Inr (''[0] 2 : '' @ CHR 0x27 # ''hello'' @ [CHR 0x27]))"
proof -
  have nd: "nd_sup (node_at demo_db 5) = [(2, ''hello'')]"
    by (simp add: demo_db_def node_at_def empty_node_def)
  have t: "py_join [CHR 0x0A] (map (\<lambda>(p, k, v). ''['' @ dec_str p @ ''] '' @ hex_str (unat k) @ '' : '' @ py_repr_str v)
     (zip [0..<1] [(2::ea, ''hello'')])) = ''[0] 2 : '' @ CHR 0x27 # ''hello'' @ [CHR 0x27]"
    by code_simp
  show ?thesis using sup_repr_text [OF demo_db_ok, of 5 0 "\<lambda>_. []"] demo_db_ok nd t by simp
qed

theorem value_repr_text_witness:
  "nd_value (node_at demo_db 7) = Some ''x''
   \<and> value_repr (\<lambda>_. []) demo_db 7 = Inr ([CHR 0x27, CHR ''x'', CHR 0x27, CHR '' '', CHR 0x27, CHR ''x'', CHR 0x27] @ '' 0x78'')"
proof -
  have v: "nd_value (node_at demo_db 7) = Some ''x''" by (simp add: demo_db_def node_at_def empty_node_def)
  have t: "py_repr_str ''x'' @ '' '' @ py_repr_str (cstr ''x'') @ '' 0x'' @ hex_str (unat (netnode_long_value demo_db 7))
     = [CHR 0x27, CHR ''x'', CHR 0x27, CHR '' '', CHR 0x27, CHR ''x'', CHR 0x27] @ '' 0x78''"
    by code_simp
  show ?thesis using value_repr_text [OF v, of "\<lambda>_. []"] v t by simp
qed

end
