(* ===== verification/Spec2Isabelle.thy ===== *)
theory Spec2Isabelle
  imports Enumerate Abstract Filesystem Repr
begin

text \<open>
  \<^bold>\<open>A verification development of \<open>src/base/_netnode.py\<close> (ida-minsc).\<close>

  The module wraps IDA's netnode storage. A netnode is a numbered node of the
  database with an optional name, an optional value and four sparse arrays (alt:
  integers at integer keys; sup: byte strings of at most \<open>MAXSPECSIZE\<close> at integer
  keys; hash: byte strings at string keys; char: bytes at integer keys) and blobs
  (byte strings at a start index and a tag). The module binds the host's primitives
  in class \<open>netnode\<close> (lines 20--107), builds a generic ordered enumerator on them in
  class \<open>utils\<close> (109--233), and exposes the per-namespace wrappers: the functions
  \<open>new\<close>, \<open>get\<close>, \<open>remove\<close> (235--250), \<open>fiter\<close>/\<open>riter\<close> (349--356) and the classes
  \<open>name\<close> (252--263), \<open>value\<close> (265--315), \<open>blob\<close> (317--346), \<open>alt\<close> (358--397),
  \<open>sup\<close> (399--451) and \<open>hash\<close> (453--520), and the sketch \<open>filesystem\<close> (523--528).
  Every wrapper calls the bound primitives only; the wrappers never call each other,
  except that the \<open>repr\<close> methods run the namespace's \<open>fiter\<close> and \<open>get\<close>.

  \<^bold>\<open>Theories.\<close>
  \<^item> \<open>Prelude\<close>: \<open>nodeidx_t\<close> as \<open>64 word\<close> and \<open>BADADDR\<close> as \<open>-1\<close>; Python 2 values, classes
    and the \<open>issubclass\<close> tests of the wrappers; the exceptions; SWIG argument
    conversion (\<open>swig_buf\<close>, \<open>swig_ea\<close>: a non-buffer raises \<open>TypeError\<close>, an integer
    outside \<open>[0, 2^64)\<close> raises \<open>OverflowError\<close>); little-endian packing of
    \<open>nodeidx_t\<close>; C strings; the type \<open>gen\<close> of generator runs; \<open>reads_as\<close>, the Python
    type a reading may have.
  \<^item> \<open>Store\<close>: a sorted association list, the model of one netnode array, with its map
    refinement, its cursor moves (first, last, next, previous key) and the fact that a
    sorted store is determined by the map it denotes.
  \<^item> \<open>Host\<close>: the IDA primitives, over a record \<open>netdb\<close> of the nodes (a sorted store of
    \<open>nodedata\<close> records) and the next free node number. The host is an external
    collaborator and is modelled from the spec's description (sections 3 and 6); its
    invariant is \<open>netdb_ok\<close>, every writing primitive keeps it (\<open>netdb_ok_writes\<close>) and
    changes only the node it is given (\<open>writes_frame\<close>).
  \<^item> \<open>Binding\<close>: class \<open>netnode\<close>, the binding table, as a record of its attributes with
    the version switch of lines 86--107.
  \<^item> \<open>Enumerate\<close>: class \<open>utils\<close> and \<open>fiter\<close>/\<open>riter\<close>. The walkers take the primitives as
    Python callables; the per-namespace instances pass the attributes of \<open>netnode\<close>
    exactly as the source does, wrong wiring included.
  \<^item> \<open>Nodes\<close>, \<open>Value\<close>, \<open>Blob\<close>, \<open>Arrays\<close> (\<open>alt\<close>, \<open>sup\<close>), \<open>Hash\<close>, \<open>Filesystem\<close>: one
    definition per method of the source, each the whole method body with its type
    dispatch, its conversions and its early returns; a raise is an \<open>Inl\<close> value.
  \<^item> \<open>Machine\<close>: a datatype \<open>op\<close> of the module's write operations, a step function running
    the wrapper of each, and \<open>run\<close>, a sequence of steps that stops at the first raise.
  \<^item> \<open>Abstract\<close>: the abstract specification of the storage engine (spec 3 and 4): a
    database is a function from node numbers to abstract nodes, each an optional name,
    an optional value and one finite map per namespace; \<open>abs_db\<close> reads a concrete
    database as one, and \<open>astep\<close> is the abstract effect of each operation on node
    contents, with the typed-write encodings of the setters.
  \<^item> \<open>Format\<close>: the Python 2 text formatting the \<open>repr\<close> methods use, modelled from
    CPython 2.7: \<open>repr\<close> of a str (\<open>string_repr\<close>: quote choice and escapes) and of
    the other values a getter returns, \<open>{:x}\<close>, \<open>{:#x}\<close>, \<open>{:d}\<close>, \<open>{:<{w}s}\<close> and
    \<open>str.join\<close>; reading the digits back shows that \<open>hex_str\<close> and \<open>dec_str\<close> are the
    base-16 and base-10 numerals.
  \<^item> \<open>Repr\<close>: the five \<open>repr\<close> methods (\<open>value\<close> 310--315, \<open>blob\<close> 341--346, \<open>alt\<close>
    390--397, \<open>sup\<close> 443--451, \<open>hash\<close> 505--519), each its loop over the namespace's
    \<open>fiter\<close> (\<open>gen_for\<close>, with \<open>enumerate\<close> as \<open>gen_enumerate\<close>), its format strings and its
    \<open>MissingTypeOrAttribute\<close> on an empty namespace; \<open>hash.repr\<close> with its column
    widths and their \<open>ValueError\<close> fallback.
  \<^item> This theory: the properties that span components.

  \<^bold>\<open>Generators and fuel.\<close> A generator is run for a number of loop iterations: the
  result records what it yielded and whether it returned, raised or was still live.
  The enumeration theorems state the fuel that suffices: one iteration less than the
  number of entries walked. This is exact for the source's loops (each iteration
  yields one entry and moves the cursor once), and C7 shows that with that fuel no
  generator of the module is still running, so the enumeration results are not
  conditional on termination.

  \<^bold>\<open>Results.\<close> The theorems about a database assume \<open>netdb_ok\<close>, which the host's
  writes keep (\<open>netdb_ok_writes\<close>).
  \<^item> Enumeration (C1--C3, C5--C7, C28): forward enumeration of the alt array and of the
    hash yields exactly the stored entries in key order; node enumeration yields every
    node once, forwards and backwards, and raises on an empty database; every
    enumerator returns. Every backward array enumerator raises \<open>TypeError\<close> (C2): the
    source passes the \<open>*prev\<close> primitive where the walker expects \<open>last\<close>.
  \<^item> Whole module (C4, C8, C9): the operations on node contents refine the abstract
    map-of-nodes specification; a successful step changes only the node it addresses;
    removing every node of a consistent database always succeeds and reaches the empty
    database (C9, liveness: the run exists and its length is the number of nodes).
  \<^item> Values, blobs, arrays, hash and nodes (C10--C21, C26, C27, C29--C36): round trips
    for every namespace and type of value; \<open>value.set\<close> of a memoryview raises (the
    source passes the Python integer \<open>nodeidx\<close>, not the handle, to \<open>netnode.set\<close>); the
    Python type of every typed reading (C13); the size-exact blob read over the host's
    chunk-padded one; the \<open>MAXSPECSIZE\<close> bound of sup and the 64-bit bound of integers;
    readings of absent keys, the \<open>0\<close> sentinel of alt; \<open>new\<close> creating a fresh node under
    its name (C17) and \<open>get\<close> finding it, an unknown name answering \<open>BADNODE\<close>, a number
    not checked.
  \<^item> Formatters (C22--C25): every \<open>repr\<close> raises \<open>MissingTypeOrAttribute\<close> exactly on an
    empty namespace and prints text otherwise (C24); the exact text of \<open>alt.repr\<close>,
    \<open>sup.repr\<close> and \<open>value.repr\<close>. The formatter theorems about the array namespaces
    take the fuel of the enumeration theorems, which suffices by C7.
  \<^item> The binding table (theory \<open>Binding\<close>) has no theorem of its own: the IDA 6 names
    of the nine renamed primitives are modelled as the IDA 7 primitives, so which
    branch of the version switch is taken does not change the model.

  \<^bold>\<open>Not modelled.\<close> The host primitives as IDA implements them (modelled from the
  spec); CPython's formatting, modelled from the language, and of it only what the
  formatters use; the address a memoryview's \<open>repr\<close> prints, which the program does not
  determine and the formatters take as a parameter \<open>mv\<close>; the rest of the filesystem,
  which the source does not contain.
\<close>

section \<open>Properties of the whole module\<close>

text \<open>C8. A successful write operation on a consistent database changes only the node
  it addresses: every other node keeps its name, value, arrays and blobs.\<close>

theorem step_frame:
  "netdb_ok db \<Longrightarrow> step db o1 = Inr db' \<Longrightarrow> op_node o1 = Some i \<Longrightarrow> j \<noteq> i \<Longrightarrow>
   node_at db' j = node_at db j"
  by (cases o1) (auto simp: remove_def value_remove_def blob_remove_def alt_set_def
      alt_remove_def sup_remove_def hash_remove_def writes_frame netdb_ok_sorted
      dest: name_set_frame value_set_frame blob_set_frame sup_set_frame hash_set_frame)

lemma step_frame_witness:
  "node_at (snd (alt_set demo_db 5 4 40)) 7 = node_at demo_db 7"
  by (rule step_frame [of demo_db "OpAltSet 5 4 40" _ 5]) (simp_all add: demo_db_ok)

text \<open>C4. Refinement: on a consistent database every operation on node contents
  (removing a node, value, blob, alt, sup and hash writes and removals) implements
  its abstract specification \<open>astep\<close> over the map-of-nodes model \<open>abs_db\<close>: the
  same error, or a database whose abstraction is the abstract result.\<close>

theorem step_refines:
  "netdb_ok db \<Longrightarrow> astep (abs_db db) o1 = Some r \<Longrightarrow> map_sum id abs_db (step db o1) = r"
  by (cases o1) (auto simp: value_set_encoding hash_set_encoding sup_set_encoding blob_set_encoding
      remove_def value_remove_def blob_remove_def alt_set_def alt_remove_def sup_remove_def
      hash_remove_def abs_kill abs_writes map_sum.compositionality comp_def intro!: sum.map_cong0)

lemma step_refines_witness:
  "netdb_ok demo_db
   \<and> astep (abs_db demo_db) (OpAltSet 5 4 40) =
       Some (Inr (aupd (abs_db demo_db) 5 (\<lambda>n. n\<lparr>a_alt := (a_alt n)(4 \<mapsto> 40)\<rparr>)))
   \<and> map_sum id abs_db (step demo_db (OpAltSet 5 4 40)) =
       Inr (aupd (abs_db demo_db) 5 (\<lambda>n. n\<lparr>a_alt := (a_alt n)(4 \<mapsto> 40)\<rparr>))"
proof -
  have a: "astep (abs_db demo_db) (OpAltSet 5 4 40) =
      Some (Inr (aupd (abs_db demo_db) 5 (\<lambda>n. n\<lparr>a_alt := (a_alt n)(4 \<mapsto> 40)\<rparr>)))"
    by simp
  show ?thesis using step_refines [OF demo_db_ok a] demo_db_ok a by simp
qed

text \<open>C13. Types of the readings: \<open>value.get\<close>, \<open>sup.get\<close> and \<open>hash.get\<close> called with
  a Python class return \<open>None\<close> or a value of the family asked for: a memoryview (or,
  for an empty buffer, the empty \<open>str\<close>), a \<open>str\<close>, a string, or an integer that is
  an \<open>int\<close> below \<open>2^63\<close> or a \<open>long\<close> in \<open>[2^63, 2^64)\<close>.\<close>

theorem readings_typed:
  "(value_get db i (TyClass c) = Inr v \<longrightarrow> reads_as c v)
   \<and> (sup_get db i k (TyClass c) = Inr v \<longrightarrow> reads_as c v)
   \<and> (hash_get db i h (TyClass c) = Inr v \<longrightarrow> reads_as c v)"
  by (auto simp: value_get_def sup_get_def hash_get_def simp del: pyclass_tests)

lemma readings_typed_witness:
  "value_get demo_db 7 (TyClass CStr) = Inr (PyStr ''x'') \<and> reads_as CStr (PyStr ''x'')"
proof -
  have g: "value_get demo_db 7 (TyClass CStr) = Inr (PyStr ''x'')"
    by (simp add: value_get_def netnode_value_exists_def netnode_valstr_def node_at_def demo_db_def
        py_and_str_def)
  show ?thesis using readings_typed [of demo_db 7 CStr "PyStr ''x''"] g by blast
qed

text \<open>C9. Liveness of removal: from any consistent database, the run that calls
  \<open>netnode.remove\<close> on every node in turn never fails, and it reaches a database
  that holds no node at all.\<close>

theorem clear_db:
  "netdb_ok db \<Longrightarrow> \<exists>db'. run db (map OpRemove (map fst (nodes db))) = Inr db' \<and> nodes db' = []"
proof -
  assume ok: "netdb_ok db"
  let ?db' = "fold (\<lambda>k d. netnode_kill d k) (map fst (nodes db)) db"
  have "nodes ?db' = []"
    using nodes_kill_all [OF ok, of "map fst (nodes db)"] by (simp add: filter_empty_conv)
  then show ?thesis using run_removes [of db "map fst (nodes db)"] by blast
qed


theorem clear_db_witness:
  "netdb_ok demo_db \<and> (\<exists>db'. run demo_db [OpRemove 5, OpRemove 7] = Inr db' \<and> nodes db' = [])"
proof -
  have "map OpRemove (map fst (nodes demo_db)) = [OpRemove 5, OpRemove 7]"
    by (simp add: demo_db_def)
  then show ?thesis using clear_db [OF demo_db_ok] demo_db_ok by simp
qed

end
